theory Spec2Isabelle
  imports Main
begin

section \<open>The XML tree (pugixml's node handles, as the code uses them)\<close>

text \<open>
  The parser and serialiser of the XML library are primitives of the program. A node of
  the tree carries its type, its name, its value (for text nodes), its attributes in
  document order and its children in document order. The document node itself is
  represented by the list of its children.
\<close>

datatype xml_node_type = node_element | node_pcdata | node_cdata | node_declaration | node_other

datatype xml_node =
  XmlNode (node_type: xml_node_type) (node_name: string) (node_value: string)
          (attributes: "(string \<times> string) list") (children: "xml_node list")

text \<open>\<open>xml_node::child(name)\<close>: the first child with that name, as an index (the handle).\<close>

fun child_index_from :: "nat \<Rightarrow> xml_node list \<Rightarrow> string \<Rightarrow> nat option" where
  "child_index_from i [] nm = None"
| "child_index_from i (n # ns) nm =
     (if node_name n = nm then Some i else child_index_from (Suc i) ns nm)"

definition child_index :: "xml_node list \<Rightarrow> string \<Rightarrow> nat option" where
  "child_index ns nm = child_index_from 0 ns nm"

text \<open>Dereferencing a handle: a handle outside the tree is the null node.\<close>

definition node_at :: "xml_node list \<Rightarrow> nat \<Rightarrow> xml_node option" where
  "node_at ns i = (if i < length ns then Some (ns ! i) else None)"

definition child :: "xml_node list \<Rightarrow> string \<Rightarrow> xml_node option" where
  "child ns nm = find (\<lambda>n. node_name n = nm) ns"

text \<open>\<open>xml_node::attribute(name).value()\<close>: the value of the first attribute with that
  name, the empty string when there is none.\<close>

definition attribute_value :: "xml_node \<Rightarrow> string \<Rightarrow> string" where
  "attribute_value n nm = (case map_of (attributes n) nm of Some v \<Rightarrow> v | None \<Rightarrow> [])"

text \<open>\<open>append_child(name)\<close> adds an element without attributes and children at the end.\<close>

definition new_element :: "string \<Rightarrow> xml_node" where
  "new_element nm = XmlNode node_element nm [] [] []"

text \<open>
  Modelled from the spec: \<open>SetTextAttributeUtf8(node, name, value)\<close> of xmlutils.h, which is
  not among the sources, takes the attribute of that name, appending it when the node
  has none, and sets its value.
\<close>

fun set_attribute :: "(string \<times> string) list \<Rightarrow> string \<Rightarrow> string \<Rightarrow> (string \<times> string) list" where
  "set_attribute [] nm v = [(nm, v)]"
| "set_attribute ((k, w) # as) nm v =
     (if k = nm then (k, v) # as else (k, w) # set_attribute as nm v)"

definition SetTextAttributeUtf8 :: "xml_node \<Rightarrow> string \<Rightarrow> string \<Rightarrow> xml_node" where
  "SetTextAttributeUtf8 n nm v =
     XmlNode (node_type n) (node_name n) (node_value n) (set_attribute (attributes n) nm v) (children n)"

section \<open>Serialising into memory: \<open>xml_memory_writer\<close>\<close>

text \<open>
  Memory is a store from addresses to bytes; address 0 is the null pointer.
  \<open>xml_document::save(writer)\<close> hands the serialised document to the writer in a sequence
  of chunks, one \<open>write(data, size)\<close> call per chunk; which chunks is the library's business,
  so the chunk sequence of a document is a parameter \<open>save\<close>. The counters are \<open>size_t\<close>
  in the source; they count bytes of an in-memory serialisation and are modelled as
  naturals.
\<close>

type_synonym memory = "nat \<Rightarrow> char"

definition memcpy :: "memory \<Rightarrow> nat \<Rightarrow> string \<Rightarrow> memory" where
  "memcpy mem dst data = (\<lambda>a. if dst \<le> a \<and> a < dst + length data then data ! (a - dst) else mem a)"

definition memset :: "memory \<Rightarrow> nat \<Rightarrow> char \<Rightarrow> nat \<Rightarrow> memory" where
  "memset mem dst c n = (\<lambda>a. if dst \<le> a \<and> a < dst + n then c else mem a)"

record xml_memory_writer =
  written :: nat
  buffer :: nat
  remaining :: nat

definition writer_init :: xml_memory_writer where
  "writer_init = \<lparr>written = 0, buffer = 0, remaining = 0\<rparr>"

definition writer_write :: "xml_memory_writer \<times> memory \<Rightarrow> string \<Rightarrow> xml_memory_writer \<times> memory" where
  "writer_write wm data =
     (let w = fst wm; mem = snd wm; size = length data in
      if buffer w \<noteq> 0 \<and> size \<le> remaining w
      then (w\<lparr>written := written w + size, buffer := buffer w + size,
              remaining := remaining w - size\<rparr>, memcpy mem (buffer w) data)
      else (w\<lparr>written := written w + size\<rparr>, mem))"

text \<open>\<open>document.save(writer)\<close>: the writer receives the chunks in order.\<close>

definition save_to :: "string list \<Rightarrow> xml_memory_writer \<times> memory \<Rightarrow> xml_memory_writer \<times> memory" where
  "save_to chunks wm = foldl writer_write wm chunks"

section \<open>Text helpers\<close>

text \<open>Decimal text of a number, as \<open>%d\<close> and the integer overloads of the text helpers
  print it.\<close>

definition digit_char :: "nat \<Rightarrow> char" where
  "digit_char d = ''0123456789'' ! d"

function nat_to_string :: "nat \<Rightarrow> string" where
  "nat_to_string n =
     (if n < 10 then [digit_char n] else nat_to_string (n div 10) @ [digit_char (n mod 10)])"
  by pat_completeness auto
termination
  by (relation "measure id") auto

declare nat_to_string.simps [simp del]

definition to_string :: "int \<Rightarrow> string" where
  "to_string i = (if i < 0 then CHR ''-'' # nat_to_string (nat (- i)) else nat_to_string (nat i))"

section \<open>The file system and the library primitives\<close>

text \<open>
  A regular file has its bytes and its modification time. A path names a regular file,
  a symbolic link (with its target path) or nothing. Reading primitives follow one link;
  chains of links are outside the model.
\<close>

record disk_file =
  content :: string
  mtime :: nat

record filesys =
  files :: "string \<rightharpoonup> disk_file"
  links :: "string \<rightharpoonup> string"

definition lookup :: "filesys \<Rightarrow> string \<Rightarrow> disk_file option" where
  "lookup fs p =
     (case files fs p of Some f \<Rightarrow> Some f
      | None \<Rightarrow> (case links fs p of Some t \<Rightarrow> files fs t | None \<Rightarrow> None))"

datatype file_type = unknown | file_t

text \<open>\<open>fz::local_filesys::get_file_info\<close>: the type of what the path leads to, and whether
  the path itself is a link.\<close>

definition get_file_info :: "filesys \<Rightarrow> string \<Rightarrow> file_type \<times> bool" where
  "get_file_info fs p =
     (case files fs p of Some f \<Rightarrow> (file_t, False)
      | None \<Rightarrow> (case links fs p of
                   Some t \<Rightarrow> (if files fs t \<noteq> None then file_t else unknown, True)
                 | None \<Rightarrow> (unknown, False)))"

definition get_link_target :: "filesys \<Rightarrow> string \<Rightarrow> string" where
  "get_link_target fs p = (case links fs p of Some t \<Rightarrow> t | None \<Rightarrow> [])"

text \<open>\<open>get_size\<close> is -1 when there is no file.\<close>

definition get_size :: "filesys \<Rightarrow> string \<Rightarrow> int" where
  "get_size fs p = (case lookup fs p of Some f \<Rightarrow> int (length (content f)) | None \<Rightarrow> - 1)"

text \<open>A \<open>fz::datetime\<close> is empty (\<open>None\<close>) or a point in time.\<close>

type_synonym datetime = "nat option"

definition get_modification_time :: "filesys \<Rightarrow> string \<Rightarrow> datetime" where
  "get_modification_time fs p = map_option mtime (lookup fs p)"

definition remove_file :: "string \<Rightarrow> filesys \<Rightarrow> filesys" where
  "remove_file p fs = fs\<lparr>files := (files fs)(p := None), links := (links fs)(p := None)\<rparr>"

text \<open>
  What the environment decides during one call: whether \<open>wxCopyFile\<close> succeeds and which
  modification time the file it creates gets, whether the writer's file opens, after how
  many bytes the device stops accepting data (\<open>None\<close>: never), whether \<open>fsync\<close> succeeds,
  and the modification time of a file written.
\<close>

record io_plan =
  copy_ok :: bool
  copy_time :: nat
  open_ok :: bool
  write_cap :: "nat option"
  fsync_ok :: bool
  write_time :: nat

text \<open>\<open>wxCopyFile(src, dst)\<close> creates \<open>dst\<close> anew with the bytes of \<open>src\<close>; a failed copy
  leaves the file system as it was (\<open>None\<close>). The copy is a new file: its modification
  time is the one the file system gives it, \<open>copy_time\<close>. A copy primitive that carries
  the source's time over is the case where the two are equal.\<close>

definition wxCopyFile :: "io_plan \<Rightarrow> string \<Rightarrow> string \<Rightarrow> filesys \<Rightarrow> filesys option" where
  "wxCopyFile io src dst fs =
     (if copy_ok io then
        (case lookup fs src of
           Some f \<Rightarrow> Some (fs\<lparr>files := (files fs)(dst \<mapsto> \<lparr>content = content f, mtime = copy_time io\<rparr>),
                              links := (links fs)(dst := None)\<rparr>)
         | None \<Rightarrow> None)
      else None)"

text \<open>\<open>wxRenameFile(src, dst)\<close> overwrites \<open>dst\<close>; its result is ignored by the caller.\<close>

definition wxRenameFile :: "string \<Rightarrow> string \<Rightarrow> filesys \<Rightarrow> filesys" where
  "wxRenameFile src dst fs =
     (case files fs src of
        Some f \<Rightarrow> fs\<lparr>files := (files fs)(dst \<mapsto> f, src := None), links := (links fs)(dst := None)\<rparr>
      | None \<Rightarrow> fs)"

text \<open>The XML library and the build: the parser gives a result and the tree the document
  holds afterwards (after a failed parse, whatever was parsed so far); the serialiser
  gives the chunks it hands to a writer.\<close>

record xml_parse_result =
  status_ok :: bool
  description :: string
  offset :: int

record library =
  load :: "string \<Rightarrow> xml_parse_result \<times> xml_node list"
  save :: "xml_node list \<Rightarrow> string list"
  GetVersion :: string

text \<open>Modelled from the spec: \<open>CLocalPath\<close> is not among the sources;
  \<open>CLocalPath(target).GetPath()\<close> is the path with its trailing separator, which
  \<open>pop_back\<close> then removes to give the redirected name.\<close>

definition CLocalPath_GetPath :: "string \<Rightarrow> string" where
  "CLocalPath_GetPath t = (if t = [] then [] else if last t = CHR ''/'' then t else t @ ''/'')"

section \<open>\<open>CXmlFile\<close>\<close>

text \<open>
  \<open>m_document\<close> is the list of the document's children; \<open>m_element\<close> is a handle to one
  of them (an index), \<open>None\<close> being the null node. The document object itself always
  exists, so the tests \<open>!m_document\<close> and \<open>wxCHECK(m_document, ...)\<close> never fire.
\<close>

record CXmlFile =
  m_fileName :: string
  m_rootName :: string
  m_modificationTime :: datetime
  m_document :: "xml_node list"
  m_element :: "nat option"
  m_error :: string

definition CXmlFile_new :: "string \<Rightarrow> string \<Rightarrow> CXmlFile" where
  "CXmlFile_new fileName root =
     \<lparr>m_fileName = fileName, m_rootName = (if root \<noteq> [] then root else ''FileZilla3''),
      m_modificationTime = None, m_document = [], m_element = None, m_error = []\<rparr>"

definition Close :: "CXmlFile \<Rightarrow> CXmlFile" where
  "Close s = s\<lparr>m_element := None, m_document := []\<rparr>"

definition CreateEmpty :: "CXmlFile \<Rightarrow> CXmlFile" where
  "CreateEmpty s0 =
     (let s = Close s0;
          decl = XmlNode node_declaration [] [] [(''version'', ''1.0''), (''encoding'', ''UTF-8'')] [];
          doc = m_document s @ [decl]
      in s\<lparr>m_document := doc @ [new_element (m_rootName s)], m_element := Some (length doc)\<rparr>)"

definition GetXmlFile :: "library \<Rightarrow> filesys \<Rightarrow> string \<Rightarrow> CXmlFile \<Rightarrow> bool \<times> CXmlFile" where
  "GetXmlFile L fs file s0 =
     (let s = Close s0 in
      if get_size fs file \<le> 0 then (False, s)
      else
        (let (result, tree) = load L (case lookup fs file of Some f \<Rightarrow> content f | None \<Rightarrow> []);
             s1 = s\<lparr>m_document := tree\<rparr>
         in if \<not> status_ok result
            then (False, s1\<lparr>m_error := m_error s1 @ description result @ '' at offset ''
                                          @ to_string (offset result) @ ''.''\<rparr>)
            else
              (case child_index tree (m_rootName s1) of
                 Some i \<Rightarrow> (True, s1\<lparr>m_element := Some i\<rparr>)
               | None \<Rightarrow>
                   if tree \<noteq> []
                   then (False, (Close s1)\<lparr>m_error :=
                           ''Unknown root element, the file does not appear to be generated by FileZilla.''\<rparr>)
                   else (True, s1\<lparr>m_document := tree @ [new_element (m_rootName s1)],
                                  m_element := Some (length tree)\<rparr>))))"

definition GetRedirectedName :: "CXmlFile \<Rightarrow> filesys \<Rightarrow> string" where
  "GetRedirectedName s fs =
     (let redirectedName = m_fileName s; (t, isLink) = get_file_info fs redirectedName in
      if t = file_t \<and> isLink
      then (let target = CLocalPath_GetPath (get_link_target fs redirectedName)
            in if target \<noteq> [] then butlast target else redirectedName)
      else redirectedName)"

text \<open>\<open>Load\<close> returns \<open>m_element\<close> at every exit; the model returns it with the object and
  the file system.\<close>

definition Load :: "library \<Rightarrow> io_plan \<Rightarrow> bool \<Rightarrow> CXmlFile \<Rightarrow> filesys \<Rightarrow> nat option \<times> CXmlFile \<times> filesys" where
  "Load L io overwriteInvalid s0 fs =
     (let s = (Close s0)\<lparr>m_error := []\<rparr> in
      if m_fileName s = [] then (m_element s, s, fs)
      else
        (let redirectedName = GetRedirectedName s fs;
             s1 = snd (GetXmlFile L fs redirectedName s)
         in if m_element s1 = None then
              (let err = ''The file '' @ [CHR 0x27] @ m_fileName s1 @ [CHR 0x27] @ '' could not be loaded.''
                         @ (if m_error s1 = []
                            then [CHR 0x0A] @ ''Make sure the file can be accessed and is a well-formed XML document.''
                            else [CHR 0x0A] @ m_error s1);
                   s2 = snd (GetXmlFile L fs (redirectedName @ ''~'') s1)
               in if m_element s2 = None then
                    (let createEmpty = (overwriteInvalid \<or>
                            (get_size fs redirectedName \<le> 0 \<and> get_size fs (redirectedName @ ''~'') \<le> 0))
                     in if createEmpty then
                          (let s3 = (CreateEmpty (s2\<lparr>m_error := []\<rparr>))
                                      \<lparr>m_modificationTime := get_modification_time fs redirectedName\<rparr>
                           in (m_element s3, s3, fs))
                        else
                          (let s3 = s2\<lparr>m_error := err, m_modificationTime := None\<rparr>
                           in (m_element s3, s3, fs)))
                  else
                    (case wxCopyFile io (redirectedName @ ''~'') redirectedName fs of
                       None \<Rightarrow>
                         (let s3 = (Close s2)\<lparr>m_error := err @ [CHR 0x0A] @ ''The valid backup file ''
                                       @ redirectedName @ ''~'' @ '' could not be restored'',
                                     m_modificationTime := None\<rparr>
                          in (m_element s3, s3, fs))
                     | Some fs1 \<Rightarrow>
                         (let fs2 = remove_file (redirectedName @ ''~'') fs1;
                              s3 = s2\<lparr>m_error := [],
                                      m_modificationTime := get_modification_time fs2 redirectedName\<rparr>
                          in (m_element s3, s3, fs2))))
            else
              (let s3 = s1\<lparr>m_modificationTime := get_modification_time fs redirectedName\<rparr>
               in (m_element s3, s3, fs))))"

definition Modified :: "CXmlFile \<Rightarrow> filesys \<Rightarrow> bool" where
  "Modified s fs =
     (if m_fileName s = [] then False
      else if m_modificationTime s = None then True
      else (let modificationTime = get_modification_time fs (m_fileName s)
            in \<not> (modificationTime \<noteq> None \<and> modificationTime = m_modificationTime s)))"

text \<open>The platform string of a build that is neither Windows nor Mac. The version is a
  wide string in the code and goes through \<open>SetTextAttribute\<close>, which converts it and
  calls \<open>SetTextAttributeUtf8\<close>; text has one form in the model.\<close>

definition platform :: string where
  "platform = ''*nix''"

definition update_node :: "xml_node list \<Rightarrow> nat \<Rightarrow> (xml_node \<Rightarrow> xml_node) \<Rightarrow> xml_node list" where
  "update_node ns i f = (if i < length ns then ns[i := f (ns ! i)] else ns)"

definition UpdateMetadata :: "library \<Rightarrow> CXmlFile \<Rightarrow> CXmlFile" where
  "UpdateMetadata L s =
     (case m_element s of
        None \<Rightarrow> s
      | Some i \<Rightarrow>
          (case node_at (m_document s) i of
             None \<Rightarrow> s
           | Some n \<Rightarrow>
               if node_name n \<noteq> ''FileZilla3'' then s
               else s\<lparr>m_document := update_node (m_document s) i
                        (\<lambda>n. SetTextAttributeUtf8 (SetTextAttributeUtf8 n ''version'' (GetVersion L))
                                ''platform'' platform)\<rparr>))"

text \<open>The local class \<open>flushing_xml_writer\<close>: a short write closes the file, and later
  chunks are dropped.\<close>

record flushing_xml_writer =
  opened :: bool
  out :: string
  cap :: "nat option"

definition flushing_write :: "flushing_xml_writer \<Rightarrow> string \<Rightarrow> flushing_xml_writer" where
  "flushing_write w data =
     (if opened w then
        (let n = (case cap w of None \<Rightarrow> length data | Some c \<Rightarrow> min c (length data))
         in w\<lparr>opened := (n = length data), out := out w @ take n data,
              cap := map_option (\<lambda>c. c - n) (cap w)\<rparr>)
      else w)"

definition flushing_save :: "library \<Rightarrow> io_plan \<Rightarrow> xml_node list \<Rightarrow> string \<Rightarrow> filesys \<Rightarrow> bool \<times> filesys" where
  "flushing_save L io document filename fs =
     (if \<not> open_ok io then (False, fs)
      else
        (let w = foldl flushing_write \<lparr>opened = True, out = [], cap = write_cap io\<rparr> (save L document);
             fs1 = fs\<lparr>files := (files fs)(filename \<mapsto> \<lparr>content = out w, mtime = write_time io\<rparr>)\<rparr>
         in (opened w \<and> fsync_ok io, fs1)))"

text \<open>The write step of \<open>flushing_xml_writer::save\<close> fails when the file does not open,
  when the device takes fewer bytes than the serialised document has, or when \<open>fsync\<close>
  fails.\<close>

definition write_fails :: "library \<Rightarrow> io_plan \<Rightarrow> xml_node list \<Rightarrow> bool" where
  "write_fails L io doc \<longleftrightarrow>
     \<not> open_ok io \<or> \<not> fsync_ok io \<or>
     (case write_cap io of None \<Rightarrow> False | Some c \<Rightarrow> c < length (concat (save L doc)))"

definition SaveXmlFile :: "library \<Rightarrow> io_plan \<Rightarrow> CXmlFile \<Rightarrow> filesys \<Rightarrow> bool \<times> CXmlFile \<times> filesys" where
  "SaveXmlFile L io s fs =
     (let redirectedName = GetRedirectedName s fs;
          exists = (fst (get_file_info fs redirectedName) = file_t)
      in case (if exists then wxCopyFile io redirectedName (redirectedName @ ''~'') fs else Some fs) of
           None \<Rightarrow> (False, s\<lparr>m_error := ''Failed to create backup copy of xml file''\<rparr>, fs)
         | Some fs1 \<Rightarrow>
             (let (success, fs2) = flushing_save L io (m_document s) redirectedName fs1 in
              if \<not> success then
                (let fs3 = remove_file redirectedName fs2;
                     fs4 = (if exists then wxRenameFile (redirectedName @ ''~'') redirectedName fs3 else fs3)
                 in (False, s\<lparr>m_error := ''Failed to write xml file''\<rparr>, fs4))
              else
                (True, s, if exists then remove_file (redirectedName @ ''~'') fs2 else fs2)))"

text \<open>\<open>Save\<close>; showing the message box is outside the model.\<close>

definition Save :: "library \<Rightarrow> io_plan \<Rightarrow> bool \<Rightarrow> CXmlFile \<Rightarrow> filesys \<Rightarrow> bool \<times> CXmlFile \<times> filesys" where
  "Save L io printError s0 fs =
     (let s = s0\<lparr>m_error := []\<rparr> in
      if m_fileName s = [] then (False, s, fs)
      else
        (let s1 = UpdateMetadata L s;
             (res, s2, fs1) = SaveXmlFile L io s1 fs;
             s3 = s2\<lparr>m_modificationTime := get_modification_time fs1 (m_fileName s2)\<rparr>
         in (res, s3, fs1)))"

definition GetRawDataLength :: "library \<Rightarrow> CXmlFile \<Rightarrow> nat" where
  "GetRawDataLength L s = written (fst (save_to (save L (m_document s)) (writer_init, (\<lambda>a. CHR 0x00))))"

text \<open>\<open>GetRawDataHere(p, size)\<close>; the model also returns the writer, whose \<open>buffer\<close> tells
  how far the data went.\<close>

definition GetRawDataHere :: "library \<Rightarrow> CXmlFile \<Rightarrow> nat \<Rightarrow> nat \<Rightarrow> memory \<Rightarrow> xml_memory_writer \<times> memory" where
  "GetRawDataHere L s p sz mem =
     (let mem1 = (if sz \<noteq> 0 then memset mem p (CHR 0x00) sz else mem);
          writer = writer_init\<lparr>buffer := p, remaining := sz\<rparr>
      in save_to (save L (m_document s)) (writer, mem1))"

definition ParseData :: "library \<Rightarrow> string \<Rightarrow> CXmlFile \<Rightarrow> bool \<times> CXmlFile" where
  "ParseData L data s0 =
     (let s = Close s0;
          s1 = s\<lparr>m_document := snd (load L data)\<rparr>;
          s2 = s1\<lparr>m_element := child_index (m_document s1) (m_rootName s1)\<rparr>;
          s3 = (if m_element s2 = None then Close s2 else s2)
      in (m_element s3 \<noteq> None, s3))"

section \<open>Text and number helpers of the site codec\<close>

text \<open>
  Text is a list of characters whatever its encoding, so the conversions between wide
  strings and UTF-8 (\<open>fz::to_utf8\<close>, \<open>fz::to_wstring_from_utf8\<close>) are the identity of
  the model.
\<close>

definition to_utf8 :: "string \<Rightarrow> string" where
  "to_utf8 s = s"

definition to_wstring_from_utf8 :: "string \<Rightarrow> string" where
  "to_wstring_from_utf8 s = s"

definition is_space :: "char \<Rightarrow> bool" where
  "is_space c \<longleftrightarrow> c = CHR '' '' \<or> c = CHR 0x09 \<or> c = CHR 0x0A \<or> c = CHR 0x0D"

definition is_digit :: "char \<Rightarrow> bool" where
  "is_digit c \<longleftrightarrow> 48 \<le> (of_char c :: nat) \<and> (of_char c :: nat) \<le> 57"

definition digit_val :: "char \<Rightarrow> nat" where
  "digit_val c = of_char c - 48"

definition is_hex_digit :: "char \<Rightarrow> bool" where
  "is_hex_digit c \<longleftrightarrow> is_digit c \<or> (97 \<le> (of_char c :: nat) \<and> (of_char c :: nat) \<le> 102)
                       \<or> (65 \<le> (of_char c :: nat) \<and> (of_char c :: nat) \<le> 70)"

definition hex_digit_val :: "char \<Rightarrow> nat" where
  "hex_digit_val c =
     (if is_digit c then of_char c - 48
      else if 97 \<le> (of_char c :: nat) then of_char c - 87 else of_char c - 55)"

text \<open>The leading digits of a text, read as a number; reading stops at the first other
  character.\<close>

fun dec_value :: "nat \<Rightarrow> string \<Rightarrow> nat" where
  "dec_value acc [] = acc"
| "dec_value acc (c # cs) = (if is_digit c then dec_value (10 * acc + digit_val c) cs else acc)"

fun hex_value :: "nat \<Rightarrow> string \<Rightarrow> nat" where
  "hex_value acc [] = acc"
| "hex_value acc (c # cs) = (if is_hex_digit c then hex_value (16 * acc + hex_digit_val c) cs else acc)"

fun is_hex_prefix :: "string \<Rightarrow> bool" where
  "is_hex_prefix (c0 # c1 # cs) = (c0 = CHR ''0'' \<and> (c1 = CHR ''x'' \<or> c1 = CHR ''X''))"
| "is_hex_prefix cs = False"

text \<open>
  The XML library's reading of a text as an \<open>int\<close> (\<open>xml_text::as_int\<close>): white space is
  skipped, a sign is taken, then a hexadecimal number after \<open>0x\<close> or else a decimal
  number is read as far as it goes (0 when no digit is there); a value outside the range
  of \<open>int\<close> becomes the nearest bound.
\<close>

definition string_to_integer :: "string \<Rightarrow> int" where
  "string_to_integer v =
     (let s = dropWhile is_space v;
          negative = (s \<noteq> [] \<and> hd s = CHR ''-'');
          s1 = (if s \<noteq> [] \<and> (hd s = CHR ''+'' \<or> hd s = CHR ''-'') then tl s else s);
          magnitude = (if is_hex_prefix s1 then hex_value 0 (drop 2 s1) else dec_value 0 s1);
          n = (if negative then - int magnitude else int magnitude)
      in max (- 2147483648) (min 2147483647 n))"

text \<open>\<open>fz::trimmed\<close>: white space removed at both ends.\<close>

definition trimmed :: "string \<Rightarrow> string" where
  "trimmed s = rev (dropWhile is_space (rev (dropWhile is_space s)))"

section \<open>The XML helpers of xmlutils, on a node\<close>

text \<open>
  Modelled from the spec: the helpers of xmlutils.h are not among the sources. In the
  site schema of the specification a field is the text content of the child element of
  its name, and an attribute is read by its name; the helpers read and write just that.
  A text node is a \<open>pcdata\<close> or \<open>cdata\<close> child.
\<close>

definition is_text_node :: "xml_node \<Rightarrow> bool" where
  "is_text_node n \<longleftrightarrow> node_type n = node_pcdata \<or> node_type n = node_cdata"

text \<open>\<open>xml_node::child_value()\<close>: the value of the first text child, or the empty text.\<close>

definition child_value :: "xml_node \<Rightarrow> string" where
  "child_value n = (case find is_text_node (children n) of Some t \<Rightarrow> node_value t | None \<Rightarrow> [])"

text \<open>\<open>GetTextElement(node, name)\<close> and \<open>GetTextElement(node)\<close>.\<close>

definition GetTextElement :: "xml_node \<Rightarrow> string \<Rightarrow> string" where
  "GetTextElement node nm =
     to_wstring_from_utf8 (case child (children node) nm of Some c \<Rightarrow> child_value c | None \<Rightarrow> [])"

definition GetTextElement_self :: "xml_node \<Rightarrow> string" where
  "GetTextElement_self node = to_wstring_from_utf8 (child_value node)"

definition GetTextElement_Trimmed :: "xml_node \<Rightarrow> string \<Rightarrow> string" where
  "GetTextElement_Trimmed node nm = trimmed (GetTextElement node nm)"

definition GetTextElement_Trimmed_self :: "xml_node \<Rightarrow> string" where
  "GetTextElement_Trimmed_self node = trimmed (GetTextElement_self node)"

text \<open>\<open>GetTextElementInt(node, name, defValue)\<close> is \<open>node.child(name).text().as_int(defValue)\<close>:
  the default when the child or its text is missing.\<close>

definition GetTextElementInt :: "xml_node \<Rightarrow> string \<Rightarrow> int \<Rightarrow> int" where
  "GetTextElementInt node nm defValue =
     (case child (children node) nm of
        None \<Rightarrow> defValue
      | Some c \<Rightarrow> (case find is_text_node (children c) of
                    None \<Rightarrow> defValue
                  | Some t \<Rightarrow> string_to_integer (node_value t)))"

definition GetTextAttribute :: "xml_node \<Rightarrow> string \<Rightarrow> string" where
  "GetTextAttribute node nm = to_wstring_from_utf8 (attribute_value node nm)"

definition SetTextAttribute :: "xml_node \<Rightarrow> string \<Rightarrow> string \<Rightarrow> xml_node" where
  "SetTextAttribute node nm v = SetTextAttributeUtf8 node nm (to_utf8 v)"

text \<open>
  \<open>AddTextElementUtf8(node, name, value)\<close> appends an element and, unless the value is
  empty, sets its text; the integer overload always sets the text, the decimal form of
  the number. The model builds the new element; appending it to the parent is the
  caller's \<open>@\<close>.
\<close>

definition pcdata :: "string \<Rightarrow> xml_node" where
  "pcdata v = XmlNode node_pcdata [] v [] []"

definition AddTextElementUtf8 :: "string \<Rightarrow> string \<Rightarrow> xml_node" where
  "AddTextElementUtf8 nm v = XmlNode node_element nm [] [] (if v \<noteq> [] then [pcdata v] else [])"

definition AddTextElement :: "string \<Rightarrow> string \<Rightarrow> xml_node" where
  "AddTextElement nm v = AddTextElementUtf8 nm (to_utf8 v)"

definition AddTextElementInt :: "string \<Rightarrow> int \<Rightarrow> xml_node" where
  "AddTextElementInt nm v = XmlNode node_element nm [] [] [pcdata (to_string v)]"

section \<open>The site: server descriptor and credentials\<close>

text \<open>
  Modelled from the spec: the classes \<open>Site\<close>, \<open>CServer\<close> and \<open>ProtectedCredentials\<close> are
  declared outside the sources at hand. Their fields are the ones the data model of the
  specification lists, under the names the code uses; the protocol and the server type
  are kept as the integers of their enumerations, whose bounds \<open>MAX_VALUE\<close> and
  \<open>SERVERTYPE_MAX\<close> are parameters. The logon types are the six the specification
  names; \<open>LogonType::count\<close> is their number. Which integer stands for which logon type
  is fixed by the declaration; the numbering below is one such choice, and the
  properties proved need only that it is a bijection onto 0 to 5.
\<close>

datatype LogonType = anonymous | normal | ask | interactive | account | key

definition LogonType_count :: int where
  "LogonType_count = 6"

definition int_of_LogonType :: "LogonType \<Rightarrow> int" where
  "int_of_LogonType t =
     (case t of anonymous \<Rightarrow> 0 | normal \<Rightarrow> 1 | ask \<Rightarrow> 2 | interactive \<Rightarrow> 3 | account \<Rightarrow> 4 | key \<Rightarrow> 5)"

definition LogonType_of_int :: "int \<Rightarrow> LogonType" where
  "LogonType_of_int i =
     (if i = 0 then anonymous else if i = 1 then normal else if i = 2 then ask
      else if i = 3 then interactive else if i = 4 then account else key)"

datatype PasvMode = MODE_DEFAULT | MODE_ACTIVE | MODE_PASSIVE

datatype CharsetEncoding = ENCODING_AUTO | ENCODING_UTF8 | ENCODING_CUSTOM

datatype public_key = PublicKey string

record CServer =
  m_host :: string
  m_port :: int
  m_protocol :: int
  m_type :: int
  m_user :: string
  m_timezoneOffset :: int
  m_pasvMode :: PasvMode
  m_maximumMultipleConnections :: int
  m_encodingType :: CharsetEncoding
  m_customEncoding :: string
  m_postLoginCommands :: "string list"
  m_bypassProxy :: bool
  m_name :: string
  m_extraParameters :: "(string \<times> string) list"

text \<open>The fields of the credentials are \<open>logonType_\<close>, \<open>password_\<close>, \<open>account_\<close>,
  \<open>keyFile_\<close> and \<open>encrypted_\<close> in the code.\<close>

record Credentials =
  c_logonType :: LogonType
  c_password :: string
  c_account :: string
  c_keyFile :: string
  c_encrypted :: "public_key option"

record Site =
  server :: CServer
  credentials :: Credentials

text \<open>
  The collaborators of the codec: the enumeration bounds, the protocol feature test, the
  validation of a timezone offset, base64, the public key's text form (\<open>None\<close> is a key
  that does not parse) and the protect step.
\<close>

record codec =
  MAX_VALUE :: int
  SERVERTYPE_MAX :: int
  HasPostLoginCommands :: "int \<Rightarrow> bool"
  timezone_valid :: "int \<Rightarrow> bool"
  base64_encode :: "string \<Rightarrow> string"
  base64_decode :: "string \<Rightarrow> string"
  from_base64 :: "string \<Rightarrow> public_key option"
  to_base64 :: "public_key \<Rightarrow> string"
  Protect :: "Credentials \<Rightarrow> Credentials"

text \<open>
  Modelled from the spec: the setters. \<open>SetHost\<close> refuses an empty host and a port outside
  1 to 65535; the credential fields are populated only when the logon type is not
  anonymous; a custom encoding needs a name, another encoding has none; a second value
  for an extra parameter replaces the first.
\<close>

definition SetHost :: "CServer \<Rightarrow> string \<Rightarrow> int \<Rightarrow> bool \<times> CServer" where
  "SetHost srv host port =
     (if host = [] \<or> port < 1 \<or> 65535 < port then (False, srv)
      else (True, srv\<lparr>m_host := host, m_port := port\<rparr>))"

definition SetLogonType :: "Site \<Rightarrow> LogonType \<Rightarrow> Site" where
  "SetLogonType site t =
     (let site1 = site\<lparr>credentials := (credentials site)\<lparr>c_logonType := t\<rparr>\<rparr>
      in if t = anonymous then site1\<lparr>server := (server site1)\<lparr>m_user := []\<rparr>\<rparr> else site1)"

definition SetUser :: "Site \<Rightarrow> string \<Rightarrow> Site" where
  "SetUser site user =
     (if c_logonType (credentials site) = anonymous
      then site\<lparr>server := (server site)\<lparr>m_user := []\<rparr>\<rparr>
      else site\<lparr>server := (server site)\<lparr>m_user := user\<rparr>\<rparr>)"

definition SetPass :: "Credentials \<Rightarrow> string \<Rightarrow> Credentials" where
  "SetPass c pass = (if c_logonType c \<noteq> anonymous then c\<lparr>c_password := pass\<rparr> else c)"

definition SetTimezoneOffset :: "codec \<Rightarrow> CServer \<Rightarrow> int \<Rightarrow> bool \<times> CServer" where
  "SetTimezoneOffset P srv minutes =
     (if timezone_valid P minutes then (True, srv\<lparr>m_timezoneOffset := minutes\<rparr>) else (False, srv))"

definition SetEncodingType :: "CServer \<Rightarrow> CharsetEncoding \<Rightarrow> string \<Rightarrow> bool \<times> CServer" where
  "SetEncodingType srv t encoding =
     (if t = ENCODING_CUSTOM \<and> encoding = [] then (False, srv)
      else (True, srv\<lparr>m_encodingType := t, m_customEncoding := encoding\<rparr>))"

fun SetExtraParameter :: "(string \<times> string) list \<Rightarrow> string \<Rightarrow> string \<Rightarrow> (string \<times> string) list" where
  "SetExtraParameter [] nm v = [(nm, v)]"
| "SetExtraParameter ((k, w) # ps) nm v =
     (if k = nm then (k, v) # ps else (k, w) # SetExtraParameter ps nm v)"

text \<open>A default-constructed site: nothing set, anonymous logon.\<close>

definition Site_new :: Site where
  "Site_new =
     \<lparr>server = \<lparr>m_host = [], m_port = 0, m_protocol = - 1, m_type = 0, m_user = [],
                m_timezoneOffset = 0, m_pasvMode = MODE_DEFAULT, m_maximumMultipleConnections = 0,
                m_encodingType = ENCODING_AUTO, m_customEncoding = [], m_postLoginCommands = [],
                m_bypassProxy = False, m_name = [], m_extraParameters = []\<rparr>,
      credentials = \<lparr>c_logonType = anonymous, c_password = [], c_account = [], c_keyFile = [],
                     c_encrypted = None\<rparr>\<rparr>"

section \<open>\<open>GetServer\<close> and \<open>SetServer\<close>\<close>

text \<open>
  \<open>GetServer\<close> writes into the caller's site as it goes and returns false at the first
  check that fails; the model returns the flag and the site as it then is. The function
  is given in three parts: the credentials (lines 331 to 376), the settings after them
  (lines 378 to 444), and the whole.
\<close>

definition GetServer_credentials :: "codec \<Rightarrow> xml_node \<Rightarrow> Site \<Rightarrow> bool \<times> Site" where
  "GetServer_credentials P node site =
     (if c_logonType (credentials site) \<noteq> anonymous then
        (let user = GetTextElement node ''User'' in
         if user = [] \<and> c_logonType (credentials site) \<noteq> interactive \<and> c_logonType (credentials site) \<noteq> ask
         then (False, site)
         else
           (let (pass, site1) =
                  (if c_logonType (credentials site) = normal \<or> c_logonType (credentials site) = account then
                     (case child (children node) ''Pass'' of
                        None \<Rightarrow> ([], site)
                      | Some passElement \<Rightarrow>
                          (let encoding = GetTextAttribute passElement ''encoding'' in
                           if encoding = ''base64'' then
                             (to_wstring_from_utf8 (base64_decode P (child_value passElement)), site)
                           else if encoding = ''crypt'' then
                             (let pass = to_wstring_from_utf8 (child_value passElement);
                                  site' = site\<lparr>credentials := (credentials site)
                                            \<lparr>c_encrypted := from_base64 P (attribute_value passElement ''pubkey'')\<rparr>\<rparr>
                              in if c_encrypted (credentials site') = None
                                 then ([], SetLogonType site' ask)
                                 else (pass, site'))
                           else if encoding \<noteq> [] then ([], SetLogonType site ask)
                           else (GetTextElement_self passElement, site)))
                   else if c_logonType (credentials site) = key then
                     ([], site\<lparr>credentials := (credentials site)\<lparr>c_keyFile := GetTextElement node ''Keyfile''\<rparr>\<rparr>)
                   else ([], site));
                site2 = SetUser site1 user;
                site3 = site2\<lparr>credentials := SetPass (credentials site2) pass\<rparr>;
                site4 = site3\<lparr>credentials := (credentials site3)\<lparr>c_account := GetTextElement node ''Account''\<rparr>\<rparr>
            in (True, site4)))
      else (True, site))"

text \<open>The texts of the \<open>Command\<close> children, the empty ones skipped.\<close>

definition read_commands :: "xml_node \<Rightarrow> string list" where
  "read_commands element =
     filter (\<lambda>command. command \<noteq> [])
       (map (\<lambda>c. to_wstring_from_utf8 (child_value c))
          (filter (\<lambda>c. node_name c = ''Command'') (children element)))"

definition read_parameters :: "xml_node \<Rightarrow> (string \<times> string) list \<Rightarrow> (string \<times> string) list" where
  "read_parameters node ps =
     foldl (\<lambda>ps parameter. SetExtraParameter ps (attribute_value parameter ''Name'') (GetTextElement_self parameter))
       ps (filter (\<lambda>c. node_name c = ''Parameter'') (children node))"

definition GetServer_settings :: "codec \<Rightarrow> xml_node \<Rightarrow> CServer \<Rightarrow> bool \<times> CServer" where
  "GetServer_settings P node srv =
     (let timezoneOffset = GetTextElementInt node ''TimezoneOffset'' 0;
          (ok, srv1) = SetTimezoneOffset P srv timezoneOffset
      in if \<not> ok then (False, srv1)
         else
           (let pasvMode = GetTextElement node ''PasvMode'';
                srv2 = srv1\<lparr>m_pasvMode := (if pasvMode = ''MODE_PASSIVE'' then MODE_PASSIVE
                                             else if pasvMode = ''MODE_ACTIVE'' then MODE_ACTIVE
                                             else MODE_DEFAULT)\<rparr>;
                srv3 = srv2\<lparr>m_maximumMultipleConnections := GetTextElementInt node ''MaximumMultipleConnections'' 0\<rparr>;
                encodingType = GetTextElement node ''EncodingType'';
                (ok4, srv4) =
                  (if encodingType = ''Auto'' then SetEncodingType srv3 ENCODING_AUTO []
                   else if encodingType = ''UTF-8'' then SetEncodingType srv3 ENCODING_UTF8 []
                   else if encodingType = ''Custom'' then
                     (let customEncoding = GetTextElement node ''CustomEncoding''
                      in if customEncoding = [] then (False, srv3)
                         else SetEncodingType srv3 ENCODING_CUSTOM customEncoding)
                   else SetEncodingType srv3 ENCODING_AUTO [])
            in if \<not> ok4 then (False, srv4)
               else
                 (let srv5 =
                        (if HasPostLoginCommands P (m_protocol srv4) then
                           srv4\<lparr>m_postLoginCommands :=
                                  (case child (children node) ''PostLoginCommands'' of
                                     Some element \<Rightarrow> read_commands element
                                   | None \<Rightarrow> [])\<rparr>
                         else srv4);
                      srv6 = srv5\<lparr>m_bypassProxy := (GetTextElementInt node ''BypassProxy'' 0 = 1)\<rparr>;
                      srv7 = srv6\<lparr>m_name := take 255 (GetTextElement_Trimmed node ''Name'')\<rparr>;
                      srv8 = (if m_name srv7 = []
                              then srv7\<lparr>m_name := take 255 (GetTextElement_Trimmed_self node)\<rparr> else srv7);
                      srv9 = srv8\<lparr>m_extraParameters := read_parameters node (m_extraParameters srv8)\<rparr>
                  in (True, srv9))))"

definition GetServer :: "codec \<Rightarrow> xml_node \<Rightarrow> Site \<Rightarrow> bool \<times> Site" where
  "GetServer P node site =
     (let host = GetTextElement node ''Host'' in
      if host = [] then (False, site)
      else
        (let port = GetTextElementInt node ''Port'' 0 in
         if port < 1 \<or> port > 65535 then (False, site)
         else
           (let (ok, srv1) = SetHost (server site) host port;
                site1 = site\<lparr>server := srv1\<rparr>
            in if \<not> ok then (False, site1)
               else
                 (let protocol = GetTextElementInt node ''Protocol'' 0 in
                  if protocol < 0 \<or> protocol > MAX_VALUE P then (False, site1)
                  else
                    (let site2 = site1\<lparr>server := (server site1)\<lparr>m_protocol := protocol\<rparr>\<rparr>;
                         type = GetTextElementInt node ''Type'' 0
                     in if type < 0 \<or> type \<ge> SERVERTYPE_MAX P then (False, site2)
                        else
                          (let site3 = site2\<lparr>server := (server site2)\<lparr>m_type := type\<rparr>\<rparr>;
                               logonType = GetTextElementInt node ''Logontype'' 0
                           in if logonType < 0 \<or> logonType \<ge> LogonType_count then (False, site3)
                              else
                                (let site4 = SetLogonType site3 (LogonType_of_int logonType);
                                     (ok5, site5) = GetServer_credentials P node site4
                                 in if \<not> ok5 then (False, site5)
                                    else
                                      (let (ok6, srv6) = GetServer_settings P node (server site5)
                                       in (ok6, site5\<lparr>server := srv6\<rparr>)))))))))"

text \<open>
  \<open>SetServer\<close> removes the children of the node and appends the elements of the site in
  a fixed order; the node keeps its name and attributes. On a null node it does nothing.
\<close>

definition SetServer_credentials :: "codec \<Rightarrow> Site \<Rightarrow> xml_node list" where
  "SetServer_credentials P site =
     (if c_logonType (credentials site) \<noteq> anonymous then
        (let credentials = Protect P (credentials site) in
         [AddTextElement ''User'' (m_user (server site))] @
         (if c_logonType credentials = normal \<or> c_logonType credentials = account then
            (let pass = to_utf8 (c_password credentials) in
             (case c_encrypted credentials of
                Some pubkey \<Rightarrow>
                  [SetTextAttributeUtf8 (SetTextAttribute (AddTextElementUtf8 ''Pass'' pass) ''encoding'' ''crypt'')
                     ''pubkey'' (to_base64 P pubkey)]
              | None \<Rightarrow>
                  [SetTextAttribute (AddTextElementUtf8 ''Pass'' (base64_encode P pass)) ''encoding'' ''base64'']) @
             (if c_logonType credentials = account then [AddTextElement ''Account'' (c_account credentials)] else []))
          else if c_keyFile credentials \<noteq> [] then [AddTextElement ''Keyfile'' (c_keyFile credentials)]
          else []))
      else [])"

definition SetServer_logontype :: "codec \<Rightarrow> Site \<Rightarrow> xml_node" where
  "SetServer_logontype P site =
     AddTextElementInt ''Logontype''
       (int_of_LogonType (c_logonType (if c_logonType (credentials site) \<noteq> anonymous
                                       then Protect P (credentials site) else credentials site)))"

definition SetServer_settings :: "codec \<Rightarrow> CServer \<Rightarrow> xml_node list" where
  "SetServer_settings P srv =
     [AddTextElementInt ''TimezoneOffset'' (m_timezoneOffset srv),
      (case m_pasvMode srv of
         MODE_PASSIVE \<Rightarrow> AddTextElementUtf8 ''PasvMode'' ''MODE_PASSIVE''
       | MODE_ACTIVE \<Rightarrow> AddTextElementUtf8 ''PasvMode'' ''MODE_ACTIVE''
       | MODE_DEFAULT \<Rightarrow> AddTextElementUtf8 ''PasvMode'' ''MODE_DEFAULT''),
      AddTextElementInt ''MaximumMultipleConnections'' (m_maximumMultipleConnections srv)] @
     (case m_encodingType srv of
        ENCODING_AUTO \<Rightarrow> [AddTextElementUtf8 ''EncodingType'' ''Auto'']
      | ENCODING_UTF8 \<Rightarrow> [AddTextElementUtf8 ''EncodingType'' ''UTF-8'']
      | ENCODING_CUSTOM \<Rightarrow> [AddTextElementUtf8 ''EncodingType'' ''Custom'',
                             AddTextElement ''CustomEncoding'' (m_customEncoding srv)]) @
     (if HasPostLoginCommands P (m_protocol srv) \<and> m_postLoginCommands srv \<noteq> []
      then [XmlNode node_element ''PostLoginCommands'' [] []
              (map (\<lambda>command. AddTextElement ''Command'' command) (m_postLoginCommands srv))]
      else []) @
     [AddTextElementUtf8 ''BypassProxy'' (if m_bypassProxy srv then ''1'' else ''0'')] @
     (if m_name srv \<noteq> [] then [AddTextElement ''Name'' (m_name srv)] else []) @
     map (\<lambda>parameter. SetTextAttribute (AddTextElement ''Parameter'' (snd parameter)) ''Name'' (fst parameter))
       (m_extraParameters srv)"

definition SetServer_node :: "codec \<Rightarrow> xml_node \<Rightarrow> Site \<Rightarrow> xml_node" where
  "SetServer_node P node site =
     XmlNode (node_type node) (node_name node) (node_value node) (attributes node)
       ([AddTextElement ''Host'' (m_host (server site)),
         AddTextElementInt ''Port'' (m_port (server site)),
         AddTextElementInt ''Protocol'' (m_protocol (server site)),
         AddTextElementInt ''Type'' (m_type (server site))] @
        SetServer_credentials P site @
        [SetServer_logontype P site] @
        SetServer_settings P (server site))"

definition SetServer :: "codec \<Rightarrow> xml_node option \<Rightarrow> Site \<Rightarrow> xml_node option" where
  "SetServer P node site = (case node of None \<Rightarrow> None | Some n \<Rightarrow> Some (SetServer_node P n site))"

text \<open>
  The sites that \<open>SetServer\<close> writes without loss: every field has the form \<open>GetServer\<close>
  gives it. The host and the port are acceptable, the enumerations in range, the
  numbers within \<open>int\<close>; the credential fields that the logon type does not use are
  empty, and a logon type that needs a user has one; a custom encoding has a name and
  no other encoding has one; post-login commands are non-empty texts and present only
  for a protocol with that feature; the display name is trimmed and at most 255
  characters long; the extra parameters have distinct names.
\<close>

definition canonical_credentials :: "Site \<Rightarrow> bool" where
  "canonical_credentials site =
     (let c = credentials site; user = m_user (server site) in
      case c_logonType c of
        anonymous \<Rightarrow> user = [] \<and> c_password c = [] \<and> c_account c = [] \<and> c_keyFile c = [] \<and> c_encrypted c = None
      | normal \<Rightarrow> user \<noteq> [] \<and> c_account c = [] \<and> c_keyFile c = []
      | account \<Rightarrow> user \<noteq> [] \<and> c_keyFile c = []
      | key \<Rightarrow> user \<noteq> [] \<and> c_password c = [] \<and> c_account c = [] \<and> c_encrypted c = None
      | interactive \<Rightarrow> c_password c = [] \<and> c_account c = [] \<and> c_keyFile c = [] \<and> c_encrypted c = None
      | ask \<Rightarrow> c_password c = [] \<and> c_account c = [] \<and> c_keyFile c = [] \<and> c_encrypted c = None)"

definition canonical_site :: "codec \<Rightarrow> Site \<Rightarrow> bool" where
  "canonical_site P site =
     (let srv = server site in
      m_host srv \<noteq> [] \<and> 1 \<le> m_port srv \<and> m_port srv \<le> 65535 \<and>
      0 \<le> m_protocol srv \<and> m_protocol srv \<le> MAX_VALUE P \<and> m_protocol srv \<le> 2147483647 \<and>
      0 \<le> m_type srv \<and> m_type srv < SERVERTYPE_MAX P \<and> m_type srv \<le> 2147483647 \<and>
      canonical_credentials site \<and>
      timezone_valid P (m_timezoneOffset srv) \<and>
      - 2147483648 \<le> m_timezoneOffset srv \<and> m_timezoneOffset srv \<le> 2147483647 \<and>
      - 2147483648 \<le> m_maximumMultipleConnections srv \<and> m_maximumMultipleConnections srv \<le> 2147483647 \<and>
      (m_encodingType srv = ENCODING_CUSTOM \<longleftrightarrow> m_customEncoding srv \<noteq> []) \<and>
      (if HasPostLoginCommands P (m_protocol srv) then [] \<notin> set (m_postLoginCommands srv)
       else m_postLoginCommands srv = []) \<and>
      trimmed (m_name srv) = m_name srv \<and> length (m_name srv) \<le> 255 \<and>
      distinct (map fst (m_extraParameters srv)))"

section \<open>Concrete instances for the examples\<close>

text \<open>A toy XML library (its parser knows three byte strings) and file systems given by
  a list of regular files.\<close>

definition demo_ok :: xml_parse_result where
  "demo_ok = \<lparr>status_ok = True, description = [], offset = 0\<rparr>"

definition demo_bad :: xml_parse_result where
  "demo_bad = \<lparr>status_ok = False, description = ''Error parsing start element tag'', offset = 1\<rparr>"

definition demo_load :: "string \<Rightarrow> xml_parse_result \<times> xml_node list" where
  "demo_load b =
     (if b = ''<FileZilla3/>'' then (demo_ok, [new_element ''FileZilla3''])
      else if b = ''<Queue/>'' then (demo_ok, [new_element ''Queue''])
      else (demo_bad, []))"

definition demo_save :: "xml_node list \<Rightarrow> string list" where
  "demo_save d = map (\<lambda>n. ''<'' @ node_name n @ ''/>'') d"

definition demo_library :: library where
  "demo_library = \<lparr>load = demo_load, save = demo_save, GetVersion = ''3.40.0''\<rparr>"

definition fs_of :: "(string \<times> disk_file) list \<Rightarrow> filesys" where
  "fs_of xs = \<lparr>files = map_of xs, links = Map.empty\<rparr>"

definition demo_plan :: io_plan where
  "demo_plan = \<lparr>copy_ok = True, copy_time = 200, open_ok = True, write_cap = None,
                 fsync_ok = True, write_time = 300\<rparr>"

text \<open>A toy collaborator set for the site codec: reversal stands in for base64, a key's
  text form is its material, and the protect step has no key to encrypt with.\<close>

definition demo_from_base64 :: "string \<Rightarrow> public_key option" where
  "demo_from_base64 s = (if s = [] then None else Some (PublicKey s))"

definition demo_to_base64 :: "public_key \<Rightarrow> string" where
  "demo_to_base64 k = (case k of PublicKey s \<Rightarrow> s)"

definition demo_codec :: codec where
  "demo_codec =
     \<lparr>MAX_VALUE = 9, SERVERTYPE_MAX = 11,
      HasPostLoginCommands = (\<lambda>p. p = 0 \<or> p = 3 \<or> p = 4 \<or> p = 6),
      timezone_valid = (\<lambda>m. - 1440 \<le> m \<and> m \<le> 1440),
      base64_encode = rev, base64_decode = rev,
      from_base64 = demo_from_base64, to_base64 = demo_to_base64,
      Protect = (\<lambda>c. c)\<rparr>"

definition demo_node :: "xml_node list \<Rightarrow> xml_node" where
  "demo_node cs = XmlNode node_element ''Server'' [] [] cs"

definition demo_site :: Site where
  "demo_site =
     \<lparr>server = \<lparr>m_host = ''example.org'', m_port = 21, m_protocol = 0, m_type = 0, m_user = ''anna'',
                m_timezoneOffset = 60, m_pasvMode = MODE_PASSIVE, m_maximumMultipleConnections = 2,
                m_encodingType = ENCODING_CUSTOM, m_customEncoding = ''ISO-8859-1'',
                m_postLoginCommands = [''SITE UMASK 022''], m_bypassProxy = True, m_name = ''Work'',
                m_extraParameters = [(''chmod'', ''644'')]\<rparr>,
      credentials = \<lparr>c_logonType = normal, c_password = ''secret'', c_account = [], c_keyFile = [],
                     c_encrypted = None\<rparr>\<rparr>"

text \<open>A library whose parser, like the real one, leaves in the document what it had parsed
  when it met the error.\<close>

definition demo_partial_load :: "string \<Rightarrow> xml_parse_result \<times> xml_node list" where
  "demo_partial_load b =
     (if b = ''<FileZilla3><Ser'' then (demo_bad, [new_element ''FileZilla3'']) else demo_load b)"

definition demo_partial_library :: library where
  "demo_partial_library = \<lparr>load = demo_partial_load, save = demo_save, GetVersion = ''3.40.0''\<rparr>"

section \<open>Verified properties\<close>

subsection \<open>The memory writer\<close>

lemma save_to_Nil: "save_to [] wm = wm" by (simp add: save_to_def)
lemma save_to_Cons: "save_to (c # cs) wm = save_to cs (writer_write wm c)" by (simp add: save_to_def)

lemma save_to_written:
  "written (fst (save_to cs (w, m))) = written w + length (concat cs)"
proof (induction cs arbitrary: w m)
  case Nil
  show ?case by (simp add: save_to_Nil)
next
  case (Cons c cs)
  show ?case
    by (cases "buffer w \<noteq> 0 \<and> length c \<le> remaining w")
       (simp_all add: save_to_Cons writer_write_def Let_def Cons.IH)
qed

lemma save_to_window:
  "buffer w \<le> buffer (fst (save_to cs (w, m))) \<and>
   buffer (fst (save_to cs (w, m))) + remaining (fst (save_to cs (w, m))) = buffer w + remaining w \<and>
   (\<forall>a. a < buffer w \<or> buffer (fst (save_to cs (w, m))) \<le> a \<longrightarrow> snd (save_to cs (w, m)) a = m a)"
proof (induction cs arbitrary: w m)
  case Nil
  show ?case by (simp add: save_to_Nil)
next
  case (Cons c cs)
  show ?case
  proof (cases "buffer w \<noteq> 0 \<and> length c \<le> remaining w")
    case True
    let ?w = "w\<lparr>written := written w + length c, buffer := buffer w + length c,
              remaining := remaining w - length c\<rparr>"
    let ?m = "memcpy m (buffer w) c"
    have step: "save_to (c # cs) (w, m) = save_to cs (?w, ?m)"
      using True by (simp add: save_to_Cons writer_write_def Let_def)
    from Cons.IH[of ?w ?m] True show ?thesis
      unfolding step by (auto simp: memcpy_def)
  next
    case False
    let ?w = "w\<lparr>written := written w + length c\<rparr>"
    have step: "save_to (c # cs) (w, m) = save_to cs (?w, m)"
      using False by (auto simp add: save_to_Cons writer_write_def Let_def)
    from Cons.IH[of ?w m] show ?thesis
      unfolding step by simp
  qed
qed

lemma save_to_fits:
  "buffer w \<noteq> 0 \<Longrightarrow> length (concat cs) \<le> remaining w \<Longrightarrow>
   buffer (fst (save_to cs (w, m))) = buffer w + length (concat cs) \<and>
   (\<forall>i < length (concat cs). snd (save_to cs (w, m)) (buffer w + i) = concat cs ! i)"
proof (induction cs arbitrary: w m)
  case Nil
  show ?case by (simp add: save_to_Nil)
next
  case (Cons c cs)
  let ?w = "w\<lparr>written := written w + length c, buffer := buffer w + length c,
            remaining := remaining w - length c\<rparr>"
  let ?m = "memcpy m (buffer w) c"
  have fits: "length c \<le> remaining w" using Cons.prems by simp
  have step: "save_to (c # cs) (w, m) = save_to cs (?w, ?m)"
    using Cons.prems fits by (simp add: save_to_Cons writer_write_def Let_def)
  have ih: "buffer (fst (save_to cs (?w, ?m))) = buffer ?w + length (concat cs) \<and>
     (\<forall>i < length (concat cs). snd (save_to cs (?w, ?m)) (buffer ?w + i) = concat cs ! i)"
    using Cons.prems by (intro Cons.IH) simp_all
  have low: "\<forall>a. a < buffer ?w \<longrightarrow> snd (save_to cs (?w, ?m)) a = ?m a"
    using save_to_window[of ?w cs ?m] by blast
  show ?case
  proof (intro conjI allI impI)
    show "buffer (fst (save_to (c # cs) (w, m))) = buffer w + length (concat (c # cs))"
      unfolding step using ih by simp
  next
    fix i assume i: "i < length (concat (c # cs))"
    show "snd (save_to (c # cs) (w, m)) (buffer w + i) = concat (c # cs) ! i"
    proof (cases "i < length c")
      case True
      then have "snd (save_to cs (?w, ?m)) (buffer w + i) = ?m (buffer w + i)"
        using low by simp
      with True show ?thesis unfolding step by (simp add: memcpy_def nth_append)
    next
      case False
      then obtain j where j: "i = length c + j" "j < length (concat cs)"
        using i by (metis add_diff_inverse_nat concat.simps(2) length_append nat_add_left_cancel_less)
      then have "snd (save_to cs (?w, ?m)) (buffer ?w + j) = concat cs ! j"
        using ih by blast
      then show ?thesis unfolding step using j by (simp add: nth_append add.assoc)
    qed
  qed
qed

lemma GetRawDataLength_eq: "GetRawDataLength L s = length (concat (save L (m_document s)))"
  by (simp add: GetRawDataLength_def save_to_written writer_init_def)

text \<open>
  Claim C7. \<open>GetRawDataLength\<close> is the number of bytes the serialiser produces, and it is
  what the writer of \<open>GetRawDataHere\<close> has counted; into a buffer at a non-null \<open>p\<close> of at
  least that size, \<open>GetRawDataHere\<close> writes exactly that many bytes, the serialised
  document. Whatever the size, no byte outside \<open>[p, p + sz)\<close> changes, and every byte of
  the buffer from where the data stopped to its end is zero.
\<close>

theorem GetRawData_contract:
  "written (fst (GetRawDataHere L s p sz mem)) = GetRawDataLength L s \<and>
   (p \<noteq> 0 \<and> GetRawDataLength L s \<le> sz \<longrightarrow>
      buffer (fst (GetRawDataHere L s p sz mem)) = p + GetRawDataLength L s \<and>
      (\<forall>i < GetRawDataLength L s.
         snd (GetRawDataHere L s p sz mem) (p + i) = concat (save L (m_document s)) ! i)) \<and>
   (\<forall>a. a < p \<or> p + sz \<le> a \<longrightarrow> snd (GetRawDataHere L s p sz mem) a = mem a) \<and>
   p \<le> buffer (fst (GetRawDataHere L s p sz mem)) \<and>
   buffer (fst (GetRawDataHere L s p sz mem)) \<le> p + sz \<and>
   (\<forall>a. buffer (fst (GetRawDataHere L s p sz mem)) \<le> a \<and> a < p + sz \<longrightarrow>
      snd (GetRawDataHere L s p sz mem) a = CHR 0x00)"
proof -
  let ?cs = "save L (m_document s)"
  let ?w = "writer_init\<lparr>buffer := p, remaining := sz\<rparr>"
  let ?m = "if sz \<noteq> 0 then memset mem p (CHR 0x00) sz else mem"
  have run: "GetRawDataHere L s p sz mem = save_to ?cs (?w, ?m)"
    by (simp add: GetRawDataHere_def Let_def)
  have w: "buffer ?w = p" "remaining ?w = sz" "written ?w = 0"
    by (simp_all add: writer_init_def)
  have win: "p \<le> buffer (fst (save_to ?cs (?w, ?m))) \<and>
     buffer (fst (save_to ?cs (?w, ?m))) + remaining (fst (save_to ?cs (?w, ?m))) = p + sz \<and>
     (\<forall>a. a < p \<or> buffer (fst (save_to ?cs (?w, ?m))) \<le> a \<longrightarrow> snd (save_to ?cs (?w, ?m)) a = ?m a)"
    using save_to_window[of ?w ?cs ?m] unfolding w by blast
  have c1: "written (fst (GetRawDataHere L s p sz mem)) = GetRawDataLength L s"
    unfolding run by (simp add: save_to_written w GetRawDataLength_eq)
  have c2: "p \<noteq> 0 \<and> GetRawDataLength L s \<le> sz \<longrightarrow>
      buffer (fst (GetRawDataHere L s p sz mem)) = p + GetRawDataLength L s \<and>
      (\<forall>i < GetRawDataLength L s.
         snd (GetRawDataHere L s p sz mem) (p + i) = concat ?cs ! i)"
    unfolding run GetRawDataLength_eq using save_to_fits[of ?w ?cs ?m] unfolding w by blast
  have c3: "\<forall>a. a < p \<or> p + sz \<le> a \<longrightarrow> snd (GetRawDataHere L s p sz mem) a = mem a"
  proof (intro allI impI)
    fix a assume a: "a < p \<or> p + sz \<le> a"
    then have "a < p \<or> buffer (fst (save_to ?cs (?w, ?m))) + remaining (fst (save_to ?cs (?w, ?m))) \<le> a"
      using win by simp
    then have "snd (save_to ?cs (?w, ?m)) a = ?m a" using win by auto
    also have "?m a = mem a" using a by (auto simp: memset_def)
    finally show "snd (GetRawDataHere L s p sz mem) a = mem a" unfolding run .
  qed
  have c4: "p \<le> buffer (fst (GetRawDataHere L s p sz mem))"
    unfolding run using win by blast
  have c5: "buffer (fst (GetRawDataHere L s p sz mem)) \<le> p + sz"
    unfolding run using win by linarith
  have c6: "\<forall>a. buffer (fst (GetRawDataHere L s p sz mem)) \<le> a \<and> a < p + sz \<longrightarrow>
      snd (GetRawDataHere L s p sz mem) a = CHR 0x00"
  proof (intro allI impI)
    fix a assume a: "buffer (fst (GetRawDataHere L s p sz mem)) \<le> a \<and> a < p + sz"
    then have "snd (save_to ?cs (?w, ?m)) a = ?m a" using win unfolding run by blast
    moreover have "p \<le> a" using a c4 by linarith
    then have "?m a = CHR 0x00" using a by (auto simp: memset_def)
    ultimately show "snd (GetRawDataHere L s p sz mem) a = CHR 0x00" unfolding run by simp
  qed
  from c1 c2 c3 c4 c5 c6 show ?thesis by blast
qed

theorem GetRawData_contract_witness:
  "GetRawDataLength \<lparr>load = (\<lambda>b. (\<lparr>status_ok = True, description = [], offset = 0\<rparr>, [])),
                      save = (\<lambda>d. [''<a'', ''/>'']), GetVersion = ''3''\<rparr>
                    (CXmlFile_new ''f.xml'' []) = 4 \<and> (10::nat) \<noteq> 0 \<and> (4::nat) \<le> 6 \<and>
   buffer (fst (GetRawDataHere \<lparr>load = (\<lambda>b. (\<lparr>status_ok = True, description = [], offset = 0\<rparr>, [])),
                      save = (\<lambda>d. [''<a'', ''/>'']), GetVersion = ''3''\<rparr>
                    (CXmlFile_new ''f.xml'' []) 10 6 (\<lambda>a. CHR ''x''))) = 14 \<and>
   snd (GetRawDataHere \<lparr>load = (\<lambda>b. (\<lparr>status_ok = True, description = [], offset = 0\<rparr>, [])),
                      save = (\<lambda>d. [''<a'', ''/>'']), GetVersion = ''3''\<rparr>
                    (CXmlFile_new ''f.xml'' []) 10 6 (\<lambda>a. CHR ''x'')) 13 = CHR ''>'' \<and>
   snd (GetRawDataHere \<lparr>load = (\<lambda>b. (\<lparr>status_ok = True, description = [], offset = 0\<rparr>, [])),
                      save = (\<lambda>d. [''<a'', ''/>'']), GetVersion = ''3''\<rparr>
                    (CXmlFile_new ''f.xml'' []) 10 6 (\<lambda>a. CHR ''x'')) 15 = CHR 0x00 \<and>
   snd (GetRawDataHere \<lparr>load = (\<lambda>b. (\<lparr>status_ok = True, description = [], offset = 0\<rparr>, [])),
                      save = (\<lambda>d. [''<a'', ''/>'']), GetVersion = ''3''\<rparr>
                    (CXmlFile_new ''f.xml'' []) 10 6 (\<lambda>a. CHR ''x'')) 16 = CHR ''x''"
  using GetRawData_contract [of "\<lparr>load = (\<lambda>b. (\<lparr>status_ok = True, description = [], offset = 0\<rparr>, [])),
                      save = (\<lambda>d. [''<a'', ''/>'']), GetVersion = ''3''\<rparr>"
          "CXmlFile_new ''f.xml'' []" 10 6 "\<lambda>a. CHR ''x''"]
  by (simp add: GetRawDataLength_def GetRawDataHere_def save_to_def writer_write_def writer_init_def
        memcpy_def memset_def CXmlFile_new_def Let_def)

text \<open>A buffer too small for a document that comes as one chunk receives nothing and
  stays all zero.\<close>

lemma GetRawDataHere_one_byte_short:
  "save L (m_document s) = [c] \<Longrightarrow> sz < length c \<Longrightarrow> p \<le> a \<Longrightarrow> a < p + sz \<Longrightarrow>
   snd (GetRawDataHere L s p sz mem) a = CHR 0x00"
  by (simp add: GetRawDataHere_def save_to_def writer_write_def writer_init_def memset_def Let_def)

subsection \<open>Finding the root element\<close>

lemma child_index_from_Some:
  "child_index_from k ns nm = Some i \<Longrightarrow> k \<le> i \<and> i < k + length ns \<and> node_name (ns ! (i - k)) = nm"
proof (induction ns arbitrary: k)
  case Nil
  then show ?case by simp
next
  case (Cons n ns)
  show ?case
  proof (cases "node_name n = nm")
    case True
    with Cons.prems show ?thesis by simp
  next
    case False
    with Cons.prems have "child_index_from (Suc k) ns nm = Some i" by simp
    from Cons.IH[OF this] show ?thesis by (auto simp: nth_Cons') 
  qed
qed

lemma child_index_Some:
  "child_index ns nm = Some i \<Longrightarrow> i < length ns \<and> node_name (ns ! i) = nm"
  using child_index_from_Some[of 0 ns nm i] by (simp add: child_index_def)

lemma child_index_Nil [simp]: "child_index [] nm = None"
  by (simp add: child_index_def)

lemma GetXmlFile_missing:
  "get_size fs file \<le> 0 \<Longrightarrow> GetXmlFile L fs file s = (False, Close s)"
  by (simp add: GetXmlFile_def Let_def)

lemma GetXmlFile_unparsable:
  "0 < get_size fs file \<Longrightarrow> lookup fs file = Some f \<Longrightarrow> load L (content f) = (res, tree) \<Longrightarrow>
   \<not> status_ok res \<Longrightarrow>
   GetXmlFile L fs file s =
     (False, s\<lparr>m_element := None, m_document := tree,
               m_error := m_error s @ description res @ '' at offset '' @ to_string (offset res) @ ''.''\<rparr>)"
  by (simp add: GetXmlFile_def Let_def Close_def)

lemma GetXmlFile_root:
  "0 < get_size fs file \<Longrightarrow> lookup fs file = Some f \<Longrightarrow> load L (content f) = (res, tree) \<Longrightarrow>
   status_ok res \<Longrightarrow> child_index tree (m_rootName s) = Some i \<Longrightarrow>
   GetXmlFile L fs file s = (True, s\<lparr>m_element := Some i, m_document := tree\<rparr>)"
  by (simp add: GetXmlFile_def Let_def Close_def)

lemma GetXmlFile_foreign:
  "0 < get_size fs file \<Longrightarrow> lookup fs file = Some f \<Longrightarrow> load L (content f) = (res, tree) \<Longrightarrow>
   status_ok res \<Longrightarrow> child_index tree (m_rootName s) = None \<Longrightarrow> tree \<noteq> [] \<Longrightarrow>
   GetXmlFile L fs file s =
     (False, s\<lparr>m_element := None, m_document := [],
               m_error := ''Unknown root element, the file does not appear to be generated by FileZilla.''\<rparr>)"
  by (simp add: GetXmlFile_def Let_def Close_def)

lemma GetXmlFile_synthesized:
  "0 < get_size fs file \<Longrightarrow> lookup fs file = Some f \<Longrightarrow> load L (content f) = (res, []) \<Longrightarrow>
   status_ok res \<Longrightarrow>
   GetXmlFile L fs file s =
     (True, s\<lparr>m_element := Some 0, m_document := [new_element (m_rootName s)]\<rparr>)"
  by (simp add: GetXmlFile_def Let_def Close_def)

lemma GetXmlFile_element_iff:
  "m_element (snd (GetXmlFile L fs file s)) \<noteq> None \<longleftrightarrow> fst (GetXmlFile L fs file s)"
  by (simp add: GetXmlFile_def Let_def Close_def split: prod.splits option.splits)

lemma GetXmlFile_fst_indep:
  "m_rootName s' = m_rootName s \<Longrightarrow> fst (GetXmlFile L fs file s') = fst (GetXmlFile L fs file s)"
  by (simp add: GetXmlFile_def Let_def Close_def split: prod.splits option.splits)

lemma GetXmlFile_Close:
  "GetXmlFile L fs file (s\<lparr>m_document := d, m_element := e\<rparr>) = GetXmlFile L fs file s"
  by (simp add: GetXmlFile_def Let_def Close_def split: prod.splits option.splits)

lemma GetXmlFile_keeps:
  "m_fileName (snd (GetXmlFile L fs file s)) = m_fileName s \<and>
   m_rootName (snd (GetXmlFile L fs file s)) = m_rootName s \<and>
   m_modificationTime (snd (GetXmlFile L fs file s)) = m_modificationTime s"
  by (simp add: GetXmlFile_def Let_def Close_def split: prod.splits option.splits)

lemma GetRedirectedName_fileName:
  "m_fileName s' = m_fileName s \<Longrightarrow> GetRedirectedName s' fs = GetRedirectedName s fs"
  by (simp add: GetRedirectedName_def)

text \<open>
  Claim C8, as the code has it. Loading a file: a missing or empty file fails and records
  no message; a file that parses and has the root element is adopted with the handle on
  that element; one that parses to other top-level content fails with the message about
  the unknown root and leaves no document; one that parses to nothing gets a root
  synthesised. \<open>ParseData\<close>: it succeeds exactly when the parsed buffer has the root
  element and then adopts the tree; otherwise, other content or none, it leaves no
  document, synthesises nothing and records no message.
\<close>

theorem root_element_contract:
  "(get_size fs file \<le> 0 \<longrightarrow> GetXmlFile L fs file s = (False, Close s)) \<and>
   (0 < get_size fs file \<and> lookup fs file = Some f \<and> load L (content f) = (res, tree) \<and> status_ok res \<longrightarrow>
      (case child_index tree (m_rootName s) of
         Some i \<Rightarrow>
           GetXmlFile L fs file s = (True, s\<lparr>m_element := Some i, m_document := tree\<rparr>) \<and>
           map_option node_name (node_at tree i) = Some (m_rootName s)
       | None \<Rightarrow>
           if tree \<noteq> []
           then GetXmlFile L fs file s =
                  (False, s\<lparr>m_element := None, m_document := [],
                     m_error := ''Unknown root element, the file does not appear to be generated by FileZilla.''\<rparr>)
           else GetXmlFile L fs file s =
                  (True, s\<lparr>m_element := Some 0, m_document := [new_element (m_rootName s)]\<rparr>))) \<and>
   (fst (ParseData L data s) \<longleftrightarrow> child_index (snd (load L data)) (m_rootName s) \<noteq> None) \<and>
   (fst (ParseData L data s) \<longrightarrow>
      snd (ParseData L data s) =
        s\<lparr>m_element := child_index (snd (load L data)) (m_rootName s), m_document := snd (load L data)\<rparr>) \<and>
   (\<not> fst (ParseData L data s) \<longrightarrow> snd (ParseData L data s) = s\<lparr>m_element := None, m_document := []\<rparr>)"
proof -
  have a: "get_size fs file \<le> 0 \<longrightarrow> GetXmlFile L fs file s = (False, Close s)"
    by (simp add: GetXmlFile_missing)
  have b: "0 < get_size fs file \<and> lookup fs file = Some f \<and> load L (content f) = (res, tree) \<and> status_ok res \<longrightarrow>
      (case child_index tree (m_rootName s) of
         Some i \<Rightarrow>
           GetXmlFile L fs file s = (True, s\<lparr>m_element := Some i, m_document := tree\<rparr>) \<and>
           map_option node_name (node_at tree i) = Some (m_rootName s)
       | None \<Rightarrow>
           if tree \<noteq> []
           then GetXmlFile L fs file s =
                  (False, s\<lparr>m_element := None, m_document := [],
                     m_error := ''Unknown root element, the file does not appear to be generated by FileZilla.''\<rparr>)
           else GetXmlFile L fs file s =
                  (True, s\<lparr>m_element := Some 0, m_document := [new_element (m_rootName s)]\<rparr>))"
  proof (intro impI, elim conjE)
    assume h: "0 < get_size fs file" "lookup fs file = Some f" "load L (content f) = (res, tree)" "status_ok res"
    show "case child_index tree (m_rootName s) of
         Some i \<Rightarrow>
           GetXmlFile L fs file s = (True, s\<lparr>m_element := Some i, m_document := tree\<rparr>) \<and>
           map_option node_name (node_at tree i) = Some (m_rootName s)
       | None \<Rightarrow>
           if tree \<noteq> []
           then GetXmlFile L fs file s =
                  (False, s\<lparr>m_element := None, m_document := [],
                     m_error := ''Unknown root element, the file does not appear to be generated by FileZilla.''\<rparr>)
           else GetXmlFile L fs file s =
                  (True, s\<lparr>m_element := Some 0, m_document := [new_element (m_rootName s)]\<rparr>)"
    proof (cases "child_index tree (m_rootName s)")
      case None
      show ?thesis
      proof (cases "tree = []")
        case True
        with None h show ?thesis by (simp add: GetXmlFile_synthesized)
      next
        case False
        with None h show ?thesis by (simp add: GetXmlFile_foreign)
      qed
    next
      case (Some i)
      with h child_index_Some[OF Some] show ?thesis
        by (simp add: GetXmlFile_root node_at_def)
    qed
  qed
  have c: "fst (ParseData L data s) \<longleftrightarrow> child_index (snd (load L data)) (m_rootName s) \<noteq> None"
    by (simp add: ParseData_def Let_def Close_def)
  have d: "fst (ParseData L data s) \<longrightarrow>
      snd (ParseData L data s) =
        s\<lparr>m_element := child_index (snd (load L data)) (m_rootName s), m_document := snd (load L data)\<rparr>"
    by (auto simp add: ParseData_def Let_def Close_def)
  have e: "\<not> fst (ParseData L data s) \<longrightarrow> snd (ParseData L data s) = s\<lparr>m_element := None, m_document := []\<rparr>"
    by (cases "child_index (snd (load L data)) (m_rootName s)")
       (simp_all add: ParseData_def Let_def Close_def)
  from a b c d e show ?thesis by blast
qed

text \<open>
  The claim as stated speaks of a file or a buffer alike. For a buffer it fails: a buffer
  that parses to an empty document is not given a root, and one with a foreign root
  fails without the message that the file path records.
\<close>

theorem ParseData_counterexample:
  "load demo_library [] = (demo_bad, []) \<and>
   ParseData demo_library [] (CXmlFile_new ''sites.xml'' []) = (False, CXmlFile_new ''sites.xml'' []) \<and>
   load demo_library ''<Queue/>'' = (demo_ok, [new_element ''Queue'']) \<and>
   ParseData demo_library ''<Queue/>'' (CXmlFile_new ''sites.xml'' []) = (False, CXmlFile_new ''sites.xml'' []) \<and>
   m_error (CXmlFile_new ''sites.xml'' []) = [] \<and>
   GetXmlFile demo_library (fs_of [(''sites.xml'', \<lparr>content = ''<Queue/>'', mtime = 100\<rparr>)]) ''sites.xml''
       (CXmlFile_new ''sites.xml'' []) =
     (False, (CXmlFile_new ''sites.xml'' [])\<lparr>m_error :=
        ''Unknown root element, the file does not appear to be generated by FileZilla.''\<rparr>)"
  by (simp add: demo_library_def demo_load_def ParseData_def CXmlFile_new_def Close_def Let_def
        child_index_def new_element_def GetXmlFile_def get_size_def lookup_def fs_of_def demo_ok_def)

theorem root_element_contract_witness:
  "0 < get_size (fs_of [(''sites.xml'', \<lparr>content = ''<FileZilla3/>'', mtime = 100\<rparr>)]) ''sites.xml'' \<and>
   status_ok demo_ok \<and>
   GetXmlFile demo_library (fs_of [(''sites.xml'', \<lparr>content = ''<FileZilla3/>'', mtime = 100\<rparr>)]) ''sites.xml''
       (CXmlFile_new ''sites.xml'' []) =
     (True, (CXmlFile_new ''sites.xml'' [])\<lparr>m_element := Some 0, m_document := [new_element ''FileZilla3'']\<rparr>) \<and>
   fst (ParseData demo_library ''<FileZilla3/>'' (CXmlFile_new ''sites.xml'' [])) \<and>
   \<not> fst (ParseData demo_library ''<Queue/>'' (CXmlFile_new ''sites.xml'' []))"
  using root_element_contract [of "fs_of [(''sites.xml'', \<lparr>content = ''<FileZilla3/>'', mtime = 100\<rparr>)]"
          "''sites.xml''" demo_library "CXmlFile_new ''sites.xml'' []"
          "\<lparr>content = ''<FileZilla3/>'', mtime = 100\<rparr>" demo_ok "[new_element ''FileZilla3'']"
          "''<FileZilla3/>''"]
        root_element_contract [of "fs_of [(''sites.xml'', \<lparr>content = ''<FileZilla3/>'', mtime = 100\<rparr>)]"
          "''sites.xml''" demo_library "CXmlFile_new ''sites.xml'' []"
          "\<lparr>content = ''<FileZilla3/>'', mtime = 100\<rparr>" demo_ok "[new_element ''FileZilla3'']"
          "''<Queue/>''"]
  by (simp add: demo_library_def demo_load_def CXmlFile_new_def child_index_def new_element_def
        get_size_def lookup_def fs_of_def demo_ok_def node_at_def)

subsection \<open>\<open>Load\<close>\<close>

lemma GetXmlFile_success:
  assumes "fst (GetXmlFile L fs file s)"
  shows "m_error (snd (GetXmlFile L fs file s)) = m_error s \<and>
         (\<exists>i. m_element (snd (GetXmlFile L fs file s)) = Some i \<and>
              map_option node_name (node_at (m_document (snd (GetXmlFile L fs file s))) i) = Some (m_rootName s))"
proof -
  from assms have sz: "0 < get_size fs file"
    by (cases "get_size fs file \<le> 0") (simp_all add: GetXmlFile_missing)
  then obtain f where f: "lookup fs file = Some f"
    by (cases "lookup fs file") (simp_all add: get_size_def)
  obtain res tree where l: "load L (content f) = (res, tree)" by (cases "load L (content f)")
  have ok: "status_ok res"
    using assms GetXmlFile_unparsable[OF sz f l, of s] by (cases "status_ok res") simp_all
  show ?thesis
  proof (cases "child_index tree (m_rootName s)")
    case (Some i)
    with child_index_Some[OF Some] GetXmlFile_root[OF sz f l ok Some] show ?thesis
      by (simp add: node_at_def)
  next
    case None
    show ?thesis
    proof (cases "tree = []")
      case True
      with GetXmlFile_synthesized[OF sz f _ ok, of L s] l show ?thesis
        by (simp add: node_at_def new_element_def)
    next
      case False
      with assms GetXmlFile_foreign[OF sz f l ok None False] show ?thesis by simp
    qed
  qed
qed

lemma Load_previous_document:
  "Load L io ov (s\<lparr>m_document := d, m_element := e\<rparr>) fs = Load L io ov s fs"
proof -
  have "Close (s\<lparr>m_document := d, m_element := e\<rparr>) = Close s" by (simp add: Close_def)
  moreover have "GetRedirectedName ((Close (s\<lparr>m_document := d, m_element := e\<rparr>))\<lparr>m_error := []\<rparr>) fs
     = GetRedirectedName ((Close s)\<lparr>m_error := []\<rparr>) fs"
    by (simp add: Close_def)
  ultimately show ?thesis unfolding Load_def by simp
qed

lemma Load_returns_element:
  "fst (Load L io ov s fs) = m_element (fst (snd (Load L io ov s fs)))"
  unfolding Load_def Let_def by (simp split: option.splits)

lemma Load_no_name:
  "m_fileName s = [] \<Longrightarrow> Load L io ov s fs = (None, (Close s)\<lparr>m_error := []\<rparr>, fs)"
  by (simp add: Load_def Close_def)

lemma Load_primary:
  assumes "m_fileName s \<noteq> []" and "fst (GetXmlFile L fs (GetRedirectedName s fs) s)"
  shows "Load L io ov s fs =
     (m_element (snd (GetXmlFile L fs (GetRedirectedName s fs) (s\<lparr>m_error := []\<rparr>))),
      (snd (GetXmlFile L fs (GetRedirectedName s fs) (s\<lparr>m_error := []\<rparr>)))
         \<lparr>m_modificationTime := get_modification_time fs (GetRedirectedName s fs)\<rparr>, fs)"
proof -
  let ?s = "(Close s)\<lparr>m_error := []\<rparr>"
  have p: "GetRedirectedName ?s fs = GetRedirectedName s fs"
    by (simp add: GetRedirectedName_def Close_def)
  have g: "GetXmlFile L fs q ?s = GetXmlFile L fs q (s\<lparr>m_error := []\<rparr>)" for q
    by (simp add: GetXmlFile_def Let_def Close_def split: prod.splits option.splits)
  have "fst (GetXmlFile L fs (GetRedirectedName s fs) (s\<lparr>m_error := []\<rparr>))"
    using assms(2) GetXmlFile_fst_indep[of "s\<lparr>m_error := []\<rparr>" s] by simp
  then have "m_element (snd (GetXmlFile L fs (GetRedirectedName s fs) (s\<lparr>m_error := []\<rparr>))) \<noteq> None"
    using GetXmlFile_element_iff[of L fs "GetRedirectedName s fs" "s\<lparr>m_error := []\<rparr>"] by blast
  then obtain i where el: "m_element (snd (GetXmlFile L fs (GetRedirectedName s fs) (s\<lparr>m_error := []\<rparr>))) = Some i"
    by blast
  have "m_fileName ?s \<noteq> []" using assms(1) by (simp add: Close_def)
  then show ?thesis
    unfolding Load_def Let_def p g by (simp add: el)
qed

lemma Load_fallback:
  assumes "m_fileName s \<noteq> []" and "\<not> fst (GetXmlFile L fs (GetRedirectedName s fs) s)"
    and "p = GetRedirectedName s fs"
    and "s1 = snd (GetXmlFile L fs p (s\<lparr>m_error := []\<rparr>))"
    and "s2 = snd (GetXmlFile L fs (p @ ''~'') s1)"
    and "err = ''The file '' @ [CHR 0x27] @ m_fileName s @ [CHR 0x27] @ '' could not be loaded.''
                 @ (if m_error s1 = []
                    then [CHR 0x0A] @ ''Make sure the file can be accessed and is a well-formed XML document.''
                    else [CHR 0x0A] @ m_error s1)"
  shows "Load L io ov s fs =
     (if m_element s2 = None then
        (if ov \<or> (get_size fs p \<le> 0 \<and> get_size fs (p @ ''~'') \<le> 0)
         then (Some 1, (CreateEmpty (s2\<lparr>m_error := []\<rparr>))\<lparr>m_modificationTime := get_modification_time fs p\<rparr>, fs)
         else (None, s2\<lparr>m_error := err, m_modificationTime := None\<rparr>, fs))
      else
        (case wxCopyFile io (p @ ''~'') p fs of
           None \<Rightarrow> (None, (Close s2)\<lparr>m_error := err @ [CHR 0x0A] @ ''The valid backup file ''
                                       @ p @ ''~'' @ '' could not be restored'',
                                     m_modificationTime := None\<rparr>, fs)
         | Some fs1 \<Rightarrow>
             (m_element s2, s2\<lparr>m_error := [],
                 m_modificationTime := get_modification_time (remove_file (p @ ''~'') fs1) p\<rparr>,
              remove_file (p @ ''~'') fs1)))"
proof -
  let ?s = "(Close s)\<lparr>m_error := []\<rparr>"
  have p: "GetRedirectedName ?s fs = p"
    using assms(3) by (simp add: GetRedirectedName_def Close_def)
  have g: "GetXmlFile L fs q ?s = GetXmlFile L fs q (s\<lparr>m_error := []\<rparr>)" for q
    by (simp add: GetXmlFile_def Let_def Close_def split: prod.splits option.splits)
  have "\<not> fst (GetXmlFile L fs p (s\<lparr>m_error := []\<rparr>))"
    using assms(2,3) GetXmlFile_fst_indep[of "s\<lparr>m_error := []\<rparr>" s] by simp
  then have e1: "m_element s1 = None"
    using GetXmlFile_element_iff[of L fs p "s\<lparr>m_error := []\<rparr>"] assms(4) by simp
  have n1: "m_fileName s1 = m_fileName s"
    using GetXmlFile_keeps[of L fs p "s\<lparr>m_error := []\<rparr>"] assms(4) by simp
  have nn: "m_fileName ?s \<noteq> []" using assms(1) by (simp add: Close_def)
  have s1: "snd (GetXmlFile L fs p (s\<lparr>m_error := []\<rparr>)) = s1" using assms(4) by simp
  have s2: "snd (GetXmlFile L fs (p @ ''~'') s1) = s2" using assms(5) by simp
  have el: "m_element (CreateEmpty t) = Some 1" for t
    by (simp add: CreateEmpty_def Close_def Let_def)
  show ?thesis
    unfolding Load_def Let_def p g s1 s2 using e1 nn
    by (simp add: n1 assms(6) el Close_def split: option.splits)
qed

lemma Load_result_facts:
  "(m_error (fst (snd (Load L io ov s fs))) \<noteq> [] \<longrightarrow> fst (Load L io ov s fs) = None) \<and>
   (\<forall>i. fst (Load L io ov s fs) = Some i \<longrightarrow>
      map_option node_name (node_at (m_document (fst (snd (Load L io ov s fs)))) i) = Some (m_rootName s))"
proof (cases "m_fileName s = []")
  case True
  then show ?thesis by (simp add: Load_no_name)
next
  case name: False
  let ?p = "GetRedirectedName s fs"
  let ?s0 = "s\<lparr>m_error := []\<rparr>"
  let ?s1 = "snd (GetXmlFile L fs ?p ?s0)"
  let ?s2 = "snd (GetXmlFile L fs (?p @ ''~'') ?s1)"
  have r1: "m_rootName ?s1 = m_rootName s"
    using GetXmlFile_keeps[of L fs ?p ?s0] by simp
  have r2: "m_rootName ?s2 = m_rootName s"
    using GetXmlFile_keeps[of L fs "?p @ ''~''" ?s1] r1 by simp
  show ?thesis
  proof (cases "fst (GetXmlFile L fs ?p s)")
    case True
    then have ok: "fst (GetXmlFile L fs ?p ?s0)"
      using GetXmlFile_fst_indep[of ?s0 s] by simp
    from GetXmlFile_success[OF ok] Load_primary[OF name True] show ?thesis
      by auto
  next
    case False
    note fb = Load_fallback[OF name False refl refl refl refl, of io ov]
    show ?thesis
    proof (cases "m_element ?s2 = None")
      case nob: True
      show ?thesis
      proof (cases "ov \<or> (get_size fs ?p \<le> 0 \<and> get_size fs (?p @ ''~'') \<le> 0)")
        case True
        with fb nob r2 show ?thesis
          by (simp add: CreateEmpty_def Close_def Let_def node_at_def new_element_def)
      next
        case False
        with fb nob show ?thesis by simp
      qed
    next
      case hasb: False
      then have ok2: "fst (GetXmlFile L fs (?p @ ''~'') ?s1)"
        using GetXmlFile_element_iff[of L fs "?p @ ''~''" ?s1] by simp
      show ?thesis
      proof (cases "wxCopyFile io (?p @ ''~'') ?p fs")
        case None
        with fb hasb show ?thesis by (simp add: Close_def)
      next
        case (Some fs1)
        with fb hasb GetXmlFile_success[OF ok2] r1 show ?thesis by auto
      qed
    qed
  qed
qed

text \<open>
  \<open>Load\<close> closes the document before it reads anything: its outcome does not depend on
  the document and the root handle the object held before. What \<open>Load\<close> returns is the
  root handle the object holds afterwards; whenever it leaves an error message it
  returns the null handle and the object holds none; and a handle it returns points to an
  element with the configured root name.
\<close>

theorem Load_discards_previous_document:
  "Load L io ov (s\<lparr>m_document := d, m_element := e\<rparr>) fs = Load L io ov s fs \<and>
   fst (Load L io ov s fs) = m_element (fst (snd (Load L io ov s fs))) \<and>
   (m_error (fst (snd (Load L io ov s fs))) \<noteq> [] \<longrightarrow>
      fst (Load L io ov s fs) = None \<and> m_element (fst (snd (Load L io ov s fs))) = None) \<and>
   (\<forall>i. fst (Load L io ov s fs) = Some i \<longrightarrow>
      map_option node_name (node_at (m_document (fst (snd (Load L io ov s fs)))) i) = Some (m_rootName s))"
  using Load_previous_document[where L=L and io=io and ov=ov and s=s and d=d and e=e and fs=fs] Load_returns_element[of L io ov s fs]
        Load_result_facts[of L io ov s fs]
  by metis

lemmas demo_defs = demo_library_def demo_load_def demo_save_def demo_ok_def demo_bad_def fs_of_def
  demo_plan_def CXmlFile_new_def new_element_def
lemmas fs_defs = get_size_def lookup_def get_file_info_def get_link_target_def get_modification_time_def
  remove_file_def wxCopyFile_def wxRenameFile_def CLocalPath_GetPath_def GetRedirectedName_def
lemmas doc_defs = Load_def GetXmlFile_def Close_def CreateEmpty_def child_index_def node_at_def Let_def

theorem Load_discards_previous_document_witness:
  "m_error (fst (snd (Load demo_library demo_plan False
       ((CXmlFile_new ''sites.xml'' [])\<lparr>m_document := [new_element ''FileZilla3''], m_element := Some 0\<rparr>)
       (fs_of [(''sites.xml'', \<lparr>content = ''<Fi'', mtime = 100\<rparr>)])))) \<noteq> [] \<and>
   Load demo_library demo_plan False
       ((CXmlFile_new ''sites.xml'' [])\<lparr>m_document := [new_element ''FileZilla3''], m_element := Some 0\<rparr>)
       (fs_of [(''sites.xml'', \<lparr>content = ''<Fi'', mtime = 100\<rparr>)]) =
     (None,
      (CXmlFile_new ''sites.xml'' [])\<lparr>m_error := m_error (fst (snd (Load demo_library demo_plan False
          (CXmlFile_new ''sites.xml'' []) (fs_of [(''sites.xml'', \<lparr>content = ''<Fi'', mtime = 100\<rparr>)]))))\<rparr>,
      fs_of [(''sites.xml'', \<lparr>content = ''<Fi'', mtime = 100\<rparr>)]) \<and>
   fst (Load demo_library demo_plan False (CXmlFile_new ''sites.xml'' [])
         (fs_of [(''sites.xml'', \<lparr>content = ''<FileZilla3/>'', mtime = 100\<rparr>)])) = Some 0"
  using Load_discards_previous_document [where L = demo_library and io = demo_plan and ov = False and s = "CXmlFile_new ''sites.xml'' []"
          and d = "[new_element ''FileZilla3'']" and e = "Some 0"
          and fs = "fs_of [(''sites.xml'', \<lparr>content = ''<Fi'', mtime = 100\<rparr>)]"]
        Load_discards_previous_document [where L = demo_library and io = demo_plan and ov = False and s = "CXmlFile_new ''sites.xml'' []"
          and d = "[]" and e = None
          and fs = "fs_of [(''sites.xml'', \<lparr>content = ''<FileZilla3/>'', mtime = 100\<rparr>)]"]
  by (simp add: demo_defs fs_defs doc_defs)

text \<open>
  Claim C6. With a file name set, when the (redirected) file and its backup are both
  missing or of length zero, or when \<open>overwriteInvalid\<close> is set and neither file can be
  loaded, \<open>Load\<close> returns the root of a fresh document, the XML declaration followed by
  the configured root element, clears the error, records the file's modification time
  and leaves the file system alone.
\<close>

theorem Load_creates_empty_document:
  assumes "m_fileName s \<noteq> []"
    and "(get_size fs (GetRedirectedName s fs) \<le> 0 \<and> get_size fs (GetRedirectedName s fs @ ''~'') \<le> 0) \<or>
         (ov \<and> \<not> fst (GetXmlFile L fs (GetRedirectedName s fs) s) \<and>
               \<not> fst (GetXmlFile L fs (GetRedirectedName s fs @ ''~'') s))"
  shows "Load L io ov s fs =
     (Some 1,
      s\<lparr>m_document := [XmlNode node_declaration [] [] [(''version'', ''1.0''), (''encoding'', ''UTF-8'')] [],
                        new_element (m_rootName s)],
        m_element := Some 1, m_error := [],
        m_modificationTime := get_modification_time fs (GetRedirectedName s fs)\<rparr>,
      fs)"
proof -
  let ?p = "GetRedirectedName s fs"
  let ?s0 = "s\<lparr>m_error := []\<rparr>"
  let ?s1 = "snd (GetXmlFile L fs ?p ?s0)"
  let ?s2 = "snd (GetXmlFile L fs (?p @ ''~'') ?s1)"
  have f1: "\<not> fst (GetXmlFile L fs ?p s)"
    using assms(2) by (auto simp: GetXmlFile_missing)
  have f2: "\<not> fst (GetXmlFile L fs (?p @ ''~'') s)"
    using assms(2) by (auto simp: GetXmlFile_missing)
  have k1: "m_fileName ?s1 = m_fileName s" "m_rootName ?s1 = m_rootName s"
    using GetXmlFile_keeps[of L fs ?p ?s0] by simp_all
  have k2: "m_fileName ?s2 = m_fileName s" "m_rootName ?s2 = m_rootName s"
    using GetXmlFile_keeps[of L fs "?p @ ''~''" ?s1] k1 by simp_all
  have "\<not> fst (GetXmlFile L fs (?p @ ''~'') ?s1)"
    using f2 GetXmlFile_fst_indep[of ?s1 s L fs "?p @ ''~''"] k1 by simp
  then have e2: "m_element ?s2 = None"
    using GetXmlFile_element_iff[of L fs "?p @ ''~''" ?s1] by simp
  have c: "ov \<or> (get_size fs ?p \<le> 0 \<and> get_size fs (?p @ ''~'') \<le> 0)"
    using assms(2) by blast
  have "Load L io ov s fs =
     (Some 1, (CreateEmpty (?s2\<lparr>m_error := []\<rparr>))\<lparr>m_modificationTime := get_modification_time fs ?p\<rparr>, fs)"
    using Load_fallback[OF assms(1) f1 refl refl refl refl, of io ov] e2 c by simp
  moreover have "(CreateEmpty (?s2\<lparr>m_error := []\<rparr>))\<lparr>m_modificationTime := get_modification_time fs ?p\<rparr> =
      s\<lparr>m_document := [XmlNode node_declaration [] [] [(''version'', ''1.0''), (''encoding'', ''UTF-8'')] [],
                        new_element (m_rootName s)],
        m_element := Some 1, m_error := [],
        m_modificationTime := get_modification_time fs ?p\<rparr>"
    by (rule CXmlFile.equality) (simp_all add: CreateEmpty_def Close_def Let_def k2)
  ultimately show ?thesis by simp
qed

theorem Load_creates_empty_document_witness:
  "m_fileName (CXmlFile_new ''sites.xml'' []) \<noteq> [] \<and>
   get_size (fs_of [(''sites.xml'', \<lparr>content = [], mtime = 100\<rparr>)]) ''sites.xml'' \<le> 0 \<and>
   get_size (fs_of [(''sites.xml'', \<lparr>content = [], mtime = 100\<rparr>)]) ''sites.xml~'' \<le> 0 \<and>
   Load demo_library demo_plan False (CXmlFile_new ''sites.xml'' [])
        (fs_of [(''sites.xml'', \<lparr>content = [], mtime = 100\<rparr>)]) =
     (Some 1,
      (CXmlFile_new ''sites.xml'' [])
        \<lparr>m_document := [XmlNode node_declaration [] [] [(''version'', ''1.0''), (''encoding'', ''UTF-8'')] [],
                        new_element ''FileZilla3''],
         m_element := Some 1, m_modificationTime := Some 100\<rparr>,
      fs_of [(''sites.xml'', \<lparr>content = [], mtime = 100\<rparr>)])"
  using Load_creates_empty_document [of "CXmlFile_new ''sites.xml'' []"
          "fs_of [(''sites.xml'', \<lparr>content = [], mtime = 100\<rparr>)]" False demo_library demo_plan]
  by (simp add: demo_defs fs_defs)

text \<open>
  Claim C2, as the code has it. When the primary file cannot be loaded (missing, empty,
  unparsable or without the root element), the backup \<open>path~\<close> parses and passes the root
  check, that is, it has the root element or it is an empty document, which gets a root
  synthesised, and the copy succeeds, then \<open>Load\<close> returns the backup's document with the
  handle on its root, clears the error, leaves the primary file with the backup's bytes,
  removes the backup, and sets the timestamp to the modification time the primary file
  now has; no other path changes.
\<close>

theorem Load_restores_backup:
  assumes "m_fileName s \<noteq> []"
    and "p = GetRedirectedName s fs"
    and "\<not> fst (GetXmlFile L fs p s)"
    and "lookup fs (p @ ''~'') = Some b" and "content b \<noteq> []"
    and "load L (content b) = (res, tree)" and "status_ok res"
    and "child_index tree (m_rootName s) \<noteq> None \<or> tree = []"
    and "copy_ok io"
  shows "fst (Load L io ov s fs) =
       (case child_index tree (m_rootName s) of Some i \<Rightarrow> Some i | None \<Rightarrow> Some 0) \<and>
     fst (snd (Load L io ov s fs)) =
       s\<lparr>m_document := (if tree = [] then [new_element (m_rootName s)] else tree),
         m_element := (case child_index tree (m_rootName s) of Some i \<Rightarrow> Some i | None \<Rightarrow> Some 0),
         m_error := [], m_modificationTime := Some (copy_time io)\<rparr> \<and>
     lookup (snd (snd (Load L io ov s fs))) p = Some \<lparr>content = content b, mtime = copy_time io\<rparr> \<and>
     lookup (snd (snd (Load L io ov s fs))) (p @ ''~'') = None \<and>
     get_modification_time (snd (snd (Load L io ov s fs))) p = Some (copy_time io) \<and>
     (\<forall>q. q \<noteq> p \<and> q \<noteq> p @ ''~'' \<longrightarrow>
        files (snd (snd (Load L io ov s fs))) q = files fs q \<and>
        links (snd (snd (Load L io ov s fs))) q = links fs q)"
proof -
  let ?s0 = "s\<lparr>m_error := []\<rparr>"
  let ?s1 = "snd (GetXmlFile L fs p ?s0)"
  let ?s2 = "snd (GetXmlFile L fs (p @ ''~'') ?s1)"
  let ?E = "case child_index tree (m_rootName s) of Some i \<Rightarrow> Some i | None \<Rightarrow> Some 0"
  let ?D = "if tree = [] then [new_element (m_rootName s)] else tree"
  let ?fs1 = "fs\<lparr>files := (files fs)(p \<mapsto> \<lparr>content = content b, mtime = copy_time io\<rparr>),
                 links := (links fs)(p := None)\<rparr>"
  have k1: "m_fileName ?s1 = m_fileName s" "m_rootName ?s1 = m_rootName s"
           "m_modificationTime ?s1 = m_modificationTime s"
    using GetXmlFile_keeps[of L fs p ?s0] by simp_all
  have sz: "0 < get_size fs (p @ ''~'')"
    using assms(4,5) by (simp add: get_size_def)
  have g2: "GetXmlFile L fs (p @ ''~'') ?s1 = (True, ?s1\<lparr>m_element := ?E, m_document := ?D\<rparr>)"
  proof (cases "child_index tree (m_rootName s)")
    case (Some i)
    then have root: "child_index tree (m_rootName ?s1) = Some i" using k1 by simp
    have ne: "tree \<noteq> []" using Some by auto
    show ?thesis
      using GetXmlFile_root[OF sz assms(4) assms(6) assms(7) root] Some ne by simp
  next
    case None
    then have e: "tree = []" using assms(8) by simp
    have l: "load L (content b) = (res, [])" using assms(6) e by simp
    show ?thesis
      using GetXmlFile_synthesized[OF sz assms(4) l assms(7), of ?s1] None e k1 by simp
  qed
  obtain e where e: "?E = Some e"
    by (cases "child_index tree (m_rootName s)") auto
  have el: "m_element ?s2 = Some e"
    using g2 e by simp
  have cp: "wxCopyFile io (p @ ''~'') p fs = Some ?fs1"
    using assms(4,9) by (simp add: wxCopyFile_def)
  have f1: "\<not> fst (GetXmlFile L fs (GetRedirectedName s fs) s)"
    using assms(2,3) by simp
  have ld: "Load L io ov s fs =
      (Some e, ?s2\<lparr>m_error := [], m_modificationTime := get_modification_time (remove_file (p @ ''~'') ?fs1) p\<rparr>,
       remove_file (p @ ''~'') ?fs1)"
    using Load_fallback[OF assms(1) f1 assms(2) refl refl refl, of io ov] cp el by simp
  have ne: "p \<noteq> p @ ''~''" by simp
  have mt: "get_modification_time (remove_file (p @ ''~'') ?fs1) p = Some (copy_time io)"
    using ne by (simp add: get_modification_time_def lookup_def remove_file_def)
  have st: "?s2\<lparr>m_error := [], m_modificationTime := Some (copy_time io)\<rparr> =
      s\<lparr>m_document := ?D, m_element := ?E, m_error := [],
        m_modificationTime := Some (copy_time io)\<rparr>"
    by (rule CXmlFile.equality) (simp_all add: g2 k1)
  have l1: "lookup (remove_file (p @ ''~'') ?fs1) p = Some \<lparr>content = content b, mtime = copy_time io\<rparr>"
    using ne by (simp add: lookup_def remove_file_def)
  have l2: "lookup (remove_file (p @ ''~'') ?fs1) (p @ ''~'') = None"
    by (simp add: lookup_def remove_file_def)
  have l3: "\<forall>q. q \<noteq> p \<and> q \<noteq> p @ ''~'' \<longrightarrow>
        files (remove_file (p @ ''~'') ?fs1) q = files fs q \<and>
        links (remove_file (p @ ''~'') ?fs1) q = links fs q"
    by (simp add: remove_file_def)
  show ?thesis
    unfolding ld using st mt l1 l2 l3 e by simp
qed

text \<open>
  A backup that parses but has another root element is not restored: \<open>GetXmlFile\<close>
  refuses it, \<open>Load\<close> never reaches the copy, both files stay as they are and \<open>Load\<close>
  returns the null handle.
\<close>

theorem Load_restores_backup_counterexample:
  "status_ok (fst (load demo_library ''<Queue/>'')) \<and>
   \<not> fst (GetXmlFile demo_library
       (fs_of [(''sites.xml'', \<lparr>content = ''<Fi'', mtime = 100\<rparr>),
               (''sites.xml~'', \<lparr>content = ''<Queue/>'', mtime = 90\<rparr>)]) ''sites.xml''
       (CXmlFile_new ''sites.xml'' [])) \<and>
   fst (Load demo_library demo_plan False (CXmlFile_new ''sites.xml'' [])
       (fs_of [(''sites.xml'', \<lparr>content = ''<Fi'', mtime = 100\<rparr>),
               (''sites.xml~'', \<lparr>content = ''<Queue/>'', mtime = 90\<rparr>)])) = None \<and>
   m_document (fst (snd (Load demo_library demo_plan False (CXmlFile_new ''sites.xml'' [])
       (fs_of [(''sites.xml'', \<lparr>content = ''<Fi'', mtime = 100\<rparr>),
               (''sites.xml~'', \<lparr>content = ''<Queue/>'', mtime = 90\<rparr>)])))) = [] \<and>
   lookup (snd (snd (Load demo_library demo_plan False (CXmlFile_new ''sites.xml'' [])
       (fs_of [(''sites.xml'', \<lparr>content = ''<Fi'', mtime = 100\<rparr>),
               (''sites.xml~'', \<lparr>content = ''<Queue/>'', mtime = 90\<rparr>)])))) ''sites.xml'' =
     Some \<lparr>content = ''<Fi'', mtime = 100\<rparr> \<and>
   lookup (snd (snd (Load demo_library demo_plan False (CXmlFile_new ''sites.xml'' [])
       (fs_of [(''sites.xml'', \<lparr>content = ''<Fi'', mtime = 100\<rparr>),
               (''sites.xml~'', \<lparr>content = ''<Queue/>'', mtime = 90\<rparr>)])))) ''sites.xml~'' =
     Some \<lparr>content = ''<Queue/>'', mtime = 90\<rparr>"
  by (simp add: demo_defs fs_defs doc_defs)

theorem Load_restores_backup_witness:
  "m_fileName (CXmlFile_new ''sites.xml'' []) \<noteq> [] \<and>
   \<not> fst (GetXmlFile demo_library
       (fs_of [(''sites.xml'', \<lparr>content = ''<Fi'', mtime = 100\<rparr>),
               (''sites.xml~'', \<lparr>content = ''<FileZilla3/>'', mtime = 90\<rparr>)]) ''sites.xml''
       (CXmlFile_new ''sites.xml'' [])) \<and>
   status_ok demo_ok \<and> copy_ok demo_plan \<and>
   child_index [new_element ''FileZilla3''] (m_rootName (CXmlFile_new ''sites.xml'' [])) \<noteq> None \<and>
   fst (Load demo_library demo_plan False (CXmlFile_new ''sites.xml'' [])
       (fs_of [(''sites.xml'', \<lparr>content = ''<Fi'', mtime = 100\<rparr>),
               (''sites.xml~'', \<lparr>content = ''<FileZilla3/>'', mtime = 90\<rparr>)])) = Some 0 \<and>
   m_document (fst (snd (Load demo_library demo_plan False (CXmlFile_new ''sites.xml'' [])
       (fs_of [(''sites.xml'', \<lparr>content = ''<Fi'', mtime = 100\<rparr>),
               (''sites.xml~'', \<lparr>content = ''<FileZilla3/>'', mtime = 90\<rparr>)])))) = [new_element ''FileZilla3''] \<and>
   lookup (snd (snd (Load demo_library demo_plan False (CXmlFile_new ''sites.xml'' [])
       (fs_of [(''sites.xml'', \<lparr>content = ''<Fi'', mtime = 100\<rparr>),
               (''sites.xml~'', \<lparr>content = ''<FileZilla3/>'', mtime = 90\<rparr>)])))) ''sites.xml'' =
     Some \<lparr>content = ''<FileZilla3/>'', mtime = 200\<rparr> \<and>
   lookup (snd (snd (Load demo_library demo_plan False (CXmlFile_new ''sites.xml'' [])
       (fs_of [(''sites.xml'', \<lparr>content = ''<Fi'', mtime = 100\<rparr>),
               (''sites.xml~'', \<lparr>content = ''<FileZilla3/>'', mtime = 90\<rparr>)])))) ''sites.xml~'' = None"
  using Load_restores_backup [where s = "CXmlFile_new ''sites.xml'' []" and p = "''sites.xml''"
          and fs = "fs_of [(''sites.xml'', \<lparr>content = ''<Fi'', mtime = 100\<rparr>),
                  (''sites.xml~'', \<lparr>content = ''<FileZilla3/>'', mtime = 90\<rparr>)]"
          and L = demo_library and b = "\<lparr>content = ''<FileZilla3/>'', mtime = 90\<rparr>" and res = demo_ok
          and tree = "[new_element ''FileZilla3'']" and io = demo_plan and ov = False]
  by (simp add: demo_defs fs_defs GetXmlFile_def Close_def child_index_def Let_def)

text \<open>What a failed \<open>Load\<close> leaves in the document: nothing, or what the parser left of a
  backup that did not parse.\<close>

lemma GetXmlFile_failed_document:
  assumes "\<not> fst (GetXmlFile L fs f s)"
  shows "m_document (snd (GetXmlFile L fs f s)) = [] \<or>
         (\<exists>b. lookup fs f = Some b \<and> content b \<noteq> [] \<and> \<not> status_ok (fst (load L (content b))) \<and>
              m_document (snd (GetXmlFile L fs f s)) = snd (load L (content b)))"
proof (cases "get_size fs f \<le> 0")
  case True
  then show ?thesis by (simp add: GetXmlFile_missing Close_def)
next
  case False
  then have sz: "0 < get_size fs f" by simp
  then obtain b where b: "lookup fs f = Some b" "content b \<noteq> []"
    by (cases "lookup fs f") (auto simp: get_size_def)
  obtain res tree where l: "load L (content b) = (res, tree)" by (cases "load L (content b)")
  show ?thesis
  proof (cases "status_ok res")
    case False
    then show ?thesis
      using GetXmlFile_unparsable[OF sz b(1) l False, of s] b l by simp
  next
    case True
    show ?thesis
    proof (cases "child_index tree (m_rootName s)")
      case (Some i)
      then show ?thesis using assms GetXmlFile_root[OF sz b(1) l True Some] by simp
    next
      case None
      show ?thesis
      proof (cases "tree = []")
        case e: True
        then show ?thesis using assms GetXmlFile_synthesized[OF sz b(1) _ True, of L s] l by simp
      next
        case ne: False
        then show ?thesis using GetXmlFile_foreign[OF sz b(1) l True None ne] by simp
      qed
    qed
  qed
qed

lemma Load_failed_document:
  assumes "fst (Load L io ov s fs) = None"
  shows "m_document (fst (snd (Load L io ov s fs))) = [] \<or>
         (\<exists>b. lookup fs (GetRedirectedName s fs @ ''~'') = Some b \<and> content b \<noteq> [] \<and>
              \<not> status_ok (fst (load L (content b))) \<and>
              m_document (fst (snd (Load L io ov s fs))) = snd (load L (content b)))"
proof (cases "m_fileName s = []")
  case True
  then show ?thesis by (simp add: Load_no_name Close_def)
next
  case name: False
  let ?p = "GetRedirectedName s fs"
  let ?s0 = "s\<lparr>m_error := []\<rparr>"
  let ?s1 = "snd (GetXmlFile L fs ?p ?s0)"
  let ?s2 = "snd (GetXmlFile L fs (?p @ ''~'') ?s1)"
  show ?thesis
  proof (cases "fst (GetXmlFile L fs ?p s)")
    case True
    then have ok: "fst (GetXmlFile L fs ?p ?s0)"
      using GetXmlFile_fst_indep[of ?s0 s] by simp
    from GetXmlFile_success[OF ok] Load_primary[OF name True, of io ov] assms show ?thesis
      by auto
  next
    case False
    note fb = Load_fallback[OF name False refl refl refl refl, of io ov]
    show ?thesis
    proof (cases "m_element ?s2 = None")
      case nob: True
      then have nf: "\<not> fst (GetXmlFile L fs (?p @ ''~'') ?s1)"
        using GetXmlFile_element_iff[of L fs "?p @ ''~''" ?s1] by simp
      show ?thesis
      proof (cases "ov \<or> (get_size fs ?p \<le> 0 \<and> get_size fs (?p @ ''~'') \<le> 0)")
        case True
        with fb nob assms show ?thesis by simp
      next
        case False
        with fb nob GetXmlFile_failed_document[OF nf] show ?thesis by simp
      qed
    next
      case hasb: False
      show ?thesis
      proof (cases "wxCopyFile io (?p @ ''~'') ?p fs")
        case None
        with fb hasb show ?thesis by (simp add: Close_def)
      next
        case (Some fs1)
        with fb hasb assms show ?thesis by auto
      qed
    qed
  qed
qed

text \<open>
  Claim C10. After a \<open>Load\<close> that fails, no document should be loaded and the root
  returned should be null. The root is null, and the previous document is gone; but
  when the primary file and the backup both break off in the middle, the exit that gives
  up (after the comment "File corrupt and no functional backup") returns without
  \<open>Close\<close>, and the document still holds what the parser had read of the backup. Here it
  holds a \<open>FileZilla3\<close> element, and \<open>GetRawDataLength\<close> reports its 13 bytes. The other
  failing exits, the restore failure in \<open>Load\<close>, the foreign root in \<open>GetXmlFile\<close> and
  \<open>ParseData\<close>, do call \<open>Close\<close>.
\<close>

theorem Load_failed_keeps_partial_document:
  "fst (Load demo_partial_library demo_plan False (CXmlFile_new ''sites.xml'' [])
       (fs_of [(''sites.xml'', \<lparr>content = ''<FileZilla3><Ser'', mtime = 100\<rparr>),
               (''sites.xml~'', \<lparr>content = ''<FileZilla3><Ser'', mtime = 90\<rparr>)])) = None \<and>
   m_error (fst (snd (Load demo_partial_library demo_plan False (CXmlFile_new ''sites.xml'' [])
       (fs_of [(''sites.xml'', \<lparr>content = ''<FileZilla3><Ser'', mtime = 100\<rparr>),
               (''sites.xml~'', \<lparr>content = ''<FileZilla3><Ser'', mtime = 90\<rparr>)])))) \<noteq> [] \<and>
   m_element (fst (snd (Load demo_partial_library demo_plan False (CXmlFile_new ''sites.xml'' [])
       (fs_of [(''sites.xml'', \<lparr>content = ''<FileZilla3><Ser'', mtime = 100\<rparr>),
               (''sites.xml~'', \<lparr>content = ''<FileZilla3><Ser'', mtime = 90\<rparr>)])))) = None \<and>
   m_document (fst (snd (Load demo_partial_library demo_plan False (CXmlFile_new ''sites.xml'' [])
       (fs_of [(''sites.xml'', \<lparr>content = ''<FileZilla3><Ser'', mtime = 100\<rparr>),
               (''sites.xml~'', \<lparr>content = ''<FileZilla3><Ser'', mtime = 90\<rparr>)])))) = [new_element ''FileZilla3''] \<and>
   GetRawDataLength demo_partial_library (fst (snd (Load demo_partial_library demo_plan False
       (CXmlFile_new ''sites.xml'' [])
       (fs_of [(''sites.xml'', \<lparr>content = ''<FileZilla3><Ser'', mtime = 100\<rparr>),
               (''sites.xml~'', \<lparr>content = ''<FileZilla3><Ser'', mtime = 90\<rparr>)])))) = 13"
  by (simp add: demo_defs fs_defs doc_defs demo_partial_library_def demo_partial_load_def
        GetRawDataLength_def save_to_def writer_write_def writer_init_def)

subsection \<open>\<open>Save\<close>\<close>

lemma flushing_closed:
  "\<not> opened w \<Longrightarrow> foldl flushing_write w cs = w"
  by (induction cs) (simp_all add: flushing_write_def)

lemma flushing_unlimited:
  "opened w \<Longrightarrow> cap w = None \<Longrightarrow>
   foldl flushing_write w cs = w\<lparr>out := out w @ concat cs\<rparr>"
proof (induction cs arbitrary: w)
  case Nil
  then show ?case by simp
next
  case (Cons c cs)
  have "flushing_write w c = w\<lparr>out := out w @ c\<rparr>"
    using Cons.prems by (simp add: flushing_write_def)
  then show ?case using Cons.IH[of "w\<lparr>out := out w @ c\<rparr>"] Cons.prems by simp
qed

lemma flushing_opened:
  "opened w \<Longrightarrow> cap w = Some c \<Longrightarrow>
   opened (foldl flushing_write w cs) \<longleftrightarrow> length (concat cs) \<le> c"
proof (induction cs arbitrary: w c)
  case Nil
  then show ?case by simp
next
  case (Cons d cs)
  show ?case
  proof (cases "length d \<le> c")
    case True
    let ?w = "w\<lparr>opened := True, out := out w @ d, cap := Some (c - length d)\<rparr>"
    have "flushing_write w d = ?w"
      using Cons.prems True by (simp add: flushing_write_def min_def)
    moreover have "opened (foldl flushing_write ?w cs) \<longleftrightarrow> length (concat cs) \<le> c - length d"
      by (rule Cons.IH) simp_all
    ultimately show ?thesis using True by auto
  next
    case False
    then have "\<not> opened (flushing_write w d)"
      using Cons.prems by (simp add: flushing_write_def min_def)
    then have "\<not> opened (foldl flushing_write (flushing_write w d) cs)"
      by (simp add: flushing_closed)
    with False show ?thesis by simp
  qed
qed

lemma flushing_save_fst:
  "fst (flushing_save L io doc name fs) \<longleftrightarrow> \<not> write_fails L io doc"
proof (cases "write_cap io")
  case None
  then show ?thesis
    by (auto simp add: flushing_save_def write_fails_def Let_def flushing_unlimited)
next
  case (Some c)
  then show ?thesis
    using flushing_opened[of "\<lparr>opened = True, out = [], cap = write_cap io\<rparr>" c "save L doc"]
    by (auto simp add: flushing_save_def write_fails_def Let_def)
qed

lemma flushing_save_files:
  "files (snd (flushing_save L io doc name fs)) q = files fs q \<or> q = name"
  by (simp add: flushing_save_def Let_def)

lemma flushing_save_links:
  "links (snd (flushing_save L io doc name fs)) = links fs"
  by (simp add: flushing_save_def Let_def)

lemma flushing_save_success:
  "\<not> write_fails L io doc \<Longrightarrow> write_cap io = None \<Longrightarrow>
   files (snd (flushing_save L io doc name fs)) name =
     Some \<lparr>content = concat (save L doc), mtime = write_time io\<rparr>"
  by (simp add: flushing_save_def write_fails_def Let_def flushing_unlimited)

lemma SaveXmlFile_failure:
  assumes "p = GetRedirectedName s fs" and "files fs p = Some f" and "copy_ok io"
    and "write_fails L io (m_document s)"
  shows "SaveXmlFile L io s fs =
     (False, s\<lparr>m_error := ''Failed to write xml file''\<rparr>,
      fs\<lparr>files := (files fs)(p \<mapsto> \<lparr>content = content f, mtime = copy_time io\<rparr>, p @ ''~'' := None),
         links := (links fs)(p @ ''~'' := None, p := None)\<rparr>)"
proof -
  let ?b = "p @ ''~''"
  let ?fs1 = "fs\<lparr>files := (files fs)(?b \<mapsto> \<lparr>content = content f, mtime = copy_time io\<rparr>),
                 links := (links fs)(?b := None)\<rparr>"
  have ne: "p \<noteq> ?b" by simp
  have ex: "fst (get_file_info fs p) = file_t"
    using assms(2) by (simp add: get_file_info_def)
  have cp: "wxCopyFile io p ?b fs = Some ?fs1"
    using assms(2,3) by (simp add: wxCopyFile_def lookup_def)
  obtain ok fs2 where fl: "flushing_save L io (m_document s) p ?fs1 = (ok, fs2)"
    by (cases "flushing_save L io (m_document s) p ?fs1")
  have nok: "\<not> ok"
    using flushing_save_fst[of L io "m_document s" p ?fs1] assms(4) fl by simp
  have f2: "files fs2 q = files ?fs1 q \<or> q = p" for q
    using flushing_save_files[of L io "m_document s" p ?fs1 q] fl by simp
  have l2: "links fs2 = links ?fs1"
    using flushing_save_links[of L io "m_document s" p ?fs1] fl by simp
  have fb: "files fs2 ?b = Some \<lparr>content = content f, mtime = copy_time io\<rparr>"
    using f2[of ?b] ne by simp
  have "wxRenameFile ?b p (remove_file p fs2) =
      fs\<lparr>files := (files fs)(p \<mapsto> \<lparr>content = content f, mtime = copy_time io\<rparr>, ?b := None),
         links := (links fs)(?b := None, p := None)\<rparr>"
  proof (rule filesys.equality)
    show "files (wxRenameFile ?b p (remove_file p fs2)) =
      files (fs\<lparr>files := (files fs)(p \<mapsto> \<lparr>content = content f, mtime = copy_time io\<rparr>, ?b := None),
         links := (links fs)(?b := None, p := None)\<rparr>)"
    proof
      fix q
      show "files (wxRenameFile ?b p (remove_file p fs2)) q =
        files (fs\<lparr>files := (files fs)(p \<mapsto> \<lparr>content = content f, mtime = copy_time io\<rparr>, ?b := None),
         links := (links fs)(?b := None, p := None)\<rparr>) q"
        using fb f2[of q] ne by (auto simp add: wxRenameFile_def remove_file_def)
    qed
  next
    show "links (wxRenameFile ?b p (remove_file p fs2)) =
      links (fs\<lparr>files := (files fs)(p \<mapsto> \<lparr>content = content f, mtime = copy_time io\<rparr>, ?b := None),
         links := (links fs)(?b := None, p := None)\<rparr>)"
      using fb ne l2 by (auto simp add: wxRenameFile_def remove_file_def)
  next
    show "filesys.more (wxRenameFile ?b p (remove_file p fs2)) =
      filesys.more (fs\<lparr>files := (files fs)(p \<mapsto> \<lparr>content = content f, mtime = copy_time io\<rparr>, ?b := None),
         links := (links fs)(?b := None, p := None)\<rparr>)"
      by simp
  qed
  then show ?thesis
    unfolding SaveXmlFile_def Let_def using assms(1) ex cp fl nok by simp
qed

lemma set_attribute_same: "map_of (set_attribute as nm v) nm = Some v"
  by (induction as nm v rule: set_attribute.induct) simp_all

lemma set_attribute_other: "k \<noteq> nm \<Longrightarrow> map_of (set_attribute as nm v) k = map_of as k"
  by (induction as nm v rule: set_attribute.induct) simp_all

lemma SaveXmlFile_keeps:
  "m_document (fst (snd (SaveXmlFile L io s fs))) = m_document s \<and>
   m_fileName (fst (snd (SaveXmlFile L io s fs))) = m_fileName s"
  unfolding SaveXmlFile_def Let_def by (simp split: option.splits prod.splits)

lemma SaveXmlFile_success:
  assumes "p = GetRedirectedName s fs" and "\<not> write_fails L io (m_document s)"
    and "write_cap io = None" and "copy_ok io"
  shows "fst (SaveXmlFile L io s fs) \<and>
         files (snd (snd (SaveXmlFile L io s fs))) p =
           Some \<lparr>content = concat (save L (m_document s)), mtime = write_time io\<rparr>"
proof -
  let ?b = "p @ ''~''"
  have ne: "p \<noteq> ?b" by simp
  show ?thesis
  proof (cases "fst (get_file_info fs p) = file_t")
    case True
    then obtain f where f: "lookup fs p = Some f"
      by (cases "files fs p"; cases "links fs p") (auto simp: get_file_info_def lookup_def split: if_splits)
    let ?fs1 = "fs\<lparr>files := (files fs)(?b \<mapsto> \<lparr>content = content f, mtime = copy_time io\<rparr>),
                   links := (links fs)(?b := None)\<rparr>"
    have cp: "wxCopyFile io p ?b fs = Some ?fs1"
      using f assms(4) by (simp add: wxCopyFile_def)
    obtain ok fs2 where fl: "flushing_save L io (m_document s) p ?fs1 = (ok, fs2)"
      by (cases "flushing_save L io (m_document s) p ?fs1")
    have ok: "ok" using flushing_save_fst[of L io "m_document s" p ?fs1] assms(2) fl by simp
    have "files fs2 p = Some \<lparr>content = concat (save L (m_document s)), mtime = write_time io\<rparr>"
      using flushing_save_success[OF assms(2,3), of p ?fs1] fl by simp
    then show ?thesis
      unfolding SaveXmlFile_def Let_def using assms(1) True cp fl ok ne
      by (simp add: remove_file_def)
  next
    case False
    obtain ok fs2 where fl: "flushing_save L io (m_document s) p fs = (ok, fs2)"
      by (cases "flushing_save L io (m_document s) p fs")
    have ok: "ok" using flushing_save_fst[of L io "m_document s" p fs] assms(2) fl by simp
    have "files fs2 p = Some \<lparr>content = concat (save L (m_document s)), mtime = write_time io\<rparr>"
      using flushing_save_success[OF assms(2,3), of p fs] fl by simp
    then show ?thesis
      unfolding SaveXmlFile_def Let_def using assms(1) False fl ok by simp
  qed
qed

lemma UpdateMetadata_keeps:
  "m_fileName (UpdateMetadata L s) = m_fileName s \<and> m_error (UpdateMetadata L s) = m_error s"
  by (simp add: UpdateMetadata_def split: option.splits)

lemma UpdateMetadata_document:
  assumes "m_element s = Some i" and "node_at (m_document s) i = Some n"
  shows "m_document (UpdateMetadata L s) =
     (if node_name n = ''FileZilla3''
      then (m_document s)[i := SetTextAttributeUtf8 (SetTextAttributeUtf8 n ''version'' (GetVersion L))
                                  ''platform'' platform]
      else m_document s)"
proof -
  from assms(2) have "i < length (m_document s)" "m_document s ! i = n"
    by (simp_all add: node_at_def split: if_splits)
  then show ?thesis using assms by (simp add: UpdateMetadata_def update_node_def)
qed

lemma Save_unfold:
  assumes "m_fileName s \<noteq> []"
  shows "Save L io pe s fs =
     (fst (SaveXmlFile L io (UpdateMetadata L (s\<lparr>m_error := []\<rparr>)) fs),
      (fst (snd (SaveXmlFile L io (UpdateMetadata L (s\<lparr>m_error := []\<rparr>)) fs)))
         \<lparr>m_modificationTime :=
            get_modification_time (snd (snd (SaveXmlFile L io (UpdateMetadata L (s\<lparr>m_error := []\<rparr>)) fs)))
              (m_fileName s)\<rparr>,
      snd (snd (SaveXmlFile L io (UpdateMetadata L (s\<lparr>m_error := []\<rparr>)) fs)))"
proof -
  obtain r t g where sv: "SaveXmlFile L io (UpdateMetadata L (s\<lparr>m_error := []\<rparr>)) fs = (r, t, g)"
    by (cases "SaveXmlFile L io (UpdateMetadata L (s\<lparr>m_error := []\<rparr>)) fs")
  have "m_fileName t = m_fileName s"
    using SaveXmlFile_keeps[of L io "UpdateMetadata L (s\<lparr>m_error := []\<rparr>)" fs]
          UpdateMetadata_keeps[of L "s\<lparr>m_error := []\<rparr>"] sv by simp
  then show ?thesis
    using assms sv unfolding Save_def Let_def by simp
qed

text \<open>
  Claim C9, as the code has it. \<open>Save\<close> on a loaded document sets the \<open>version\<close> and
  \<open>platform\<close> attributes of the root element exactly when that element is named
  \<open>FileZilla3\<close>, the literal, whatever root name the object was configured with;
  otherwise the document is left as it is. In both cases the write goes on: when the
  environment lets it succeed, the file holds the serialisation of that document.
\<close>

theorem Save_metadata:
  assumes "m_fileName s \<noteq> []" and "m_element s = Some i" and "node_at (m_document s) i = Some n"
  shows "m_document (fst (snd (Save L io pe s fs))) =
           (if node_name n = ''FileZilla3''
            then (m_document s)[i := SetTextAttributeUtf8 (SetTextAttributeUtf8 n ''version'' (GetVersion L))
                                        ''platform'' platform]
            else m_document s) \<and>
         (node_name n = ''FileZilla3'' \<longrightarrow>
            (\<exists>r. node_at (m_document (fst (snd (Save L io pe s fs)))) i = Some r \<and> node_name r = ''FileZilla3'' \<and>
                 attribute_value r ''version'' = GetVersion L \<and> attribute_value r ''platform'' = platform)) \<and>
         (open_ok io \<and> fsync_ok io \<and> write_cap io = None \<and> copy_ok io \<longrightarrow>
            fst (Save L io pe s fs) \<and>
            map_option content (files (snd (snd (Save L io pe s fs))) (GetRedirectedName s fs)) =
              Some (concat (save L (m_document (fst (snd (Save L io pe s fs)))))))"
proof -
  let ?s1 = "UpdateMetadata L (s\<lparr>m_error := []\<rparr>)"
  have lt: "i < length (m_document s)" and ni: "m_document s ! i = n"
    using assms(3) by (simp_all add: node_at_def split: if_splits)
  have d1: "m_document ?s1 =
           (if node_name n = ''FileZilla3''
            then (m_document s)[i := SetTextAttributeUtf8 (SetTextAttributeUtf8 n ''version'' (GetVersion L))
                                        ''platform'' platform]
            else m_document s)"
    using UpdateMetadata_document[of "s\<lparr>m_error := []\<rparr>" i n L] assms by simp
  have d: "m_document (fst (snd (Save L io pe s fs))) = m_document ?s1"
    using Save_unfold[OF assms(1), of L io pe fs] SaveXmlFile_keeps[of L io ?s1 fs] by simp
  have a: "node_name n = ''FileZilla3'' \<longrightarrow>
            (\<exists>r. node_at (m_document (fst (snd (Save L io pe s fs)))) i = Some r \<and> node_name r = ''FileZilla3'' \<and>
                 attribute_value r ''version'' = GetVersion L \<and> attribute_value r ''platform'' = platform)"
    unfolding d d1 using lt
    by (simp add: node_at_def SetTextAttributeUtf8_def attribute_value_def set_attribute_same
          set_attribute_other)
  have w: "open_ok io \<and> fsync_ok io \<and> write_cap io = None \<and> copy_ok io \<longrightarrow>
            fst (Save L io pe s fs) \<and>
            map_option content (files (snd (snd (Save L io pe s fs))) (GetRedirectedName s fs)) =
              Some (concat (save L (m_document (fst (snd (Save L io pe s fs))))))"
  proof (intro impI, elim conjE)
    assume h: "open_ok io" "fsync_ok io" "write_cap io = None" "copy_ok io"
    have p: "GetRedirectedName s fs = GetRedirectedName ?s1 fs"
      using UpdateMetadata_keeps[of L "s\<lparr>m_error := []\<rparr>"] by (simp add: GetRedirectedName_def)
    have nf: "\<not> write_fails L io (m_document ?s1)"
      using h by (simp add: write_fails_def)
    from SaveXmlFile_success[OF p nf h(3) h(4)] Save_unfold[OF assms(1), of L io pe fs] d
    show "fst (Save L io pe s fs) \<and>
            map_option content (files (snd (snd (Save L io pe s fs))) (GetRedirectedName s fs)) =
              Some (concat (save L (m_document (fst (snd (Save L io pe s fs))))))"
      by simp
  qed
  from d d1 a w show ?thesis by simp
qed

lemmas save_defs = Save_def UpdateMetadata_def update_node_def SaveXmlFile_def flushing_save_def
  flushing_write_def SetTextAttributeUtf8_def attribute_value_def platform_def

text \<open>
  A document configured with the root name \<open>Queue\<close> has a root element of that name, the
  expected one, and \<open>Save\<close> succeeds without giving it the attributes.
\<close>

theorem Save_metadata_counterexample:
  "m_rootName (CreateEmpty (CXmlFile_new ''queue.xml'' ''Queue'')) = ''Queue'' \<and>
   m_element (CreateEmpty (CXmlFile_new ''queue.xml'' ''Queue'')) = Some 1 \<and>
   map_option node_name (node_at (m_document (CreateEmpty (CXmlFile_new ''queue.xml'' ''Queue''))) 1) = Some ''Queue'' \<and>
   fst (Save demo_library demo_plan False (CreateEmpty (CXmlFile_new ''queue.xml'' ''Queue'')) (fs_of [])) \<and>
   map_option attributes (node_at (m_document (fst (snd
       (Save demo_library demo_plan False (CreateEmpty (CXmlFile_new ''queue.xml'' ''Queue'')) (fs_of []))))) 1)
     = Some []"
  by (simp add: demo_defs fs_defs doc_defs save_defs)

theorem Save_metadata_witness:
  "m_fileName (CreateEmpty (CXmlFile_new ''sites.xml'' [])) \<noteq> [] \<and>
   m_element (CreateEmpty (CXmlFile_new ''sites.xml'' [])) = Some 1 \<and>
   node_at (m_document (CreateEmpty (CXmlFile_new ''sites.xml'' []))) 1 = Some (new_element ''FileZilla3'') \<and>
   open_ok demo_plan \<and> fsync_ok demo_plan \<and> write_cap demo_plan = None \<and> copy_ok demo_plan \<and>
   map_option attributes (node_at (m_document (fst (snd
       (Save demo_library demo_plan False (CreateEmpty (CXmlFile_new ''sites.xml'' [])) (fs_of []))))) 1)
     = Some [(''version'', ''3.40.0''), (''platform'', ''*nix'')] \<and>
   fst (Save demo_library demo_plan False (CreateEmpty (CXmlFile_new ''sites.xml'' [])) (fs_of [])) \<and>
   map_option content (files (snd (snd
       (Save demo_library demo_plan False (CreateEmpty (CXmlFile_new ''sites.xml'' [])) (fs_of [])))) ''sites.xml'')
     = Some ''</><FileZilla3/>''"
  using Save_metadata [of "CreateEmpty (CXmlFile_new ''sites.xml'' [])" 1 "new_element ''FileZilla3''"
          demo_library demo_plan False "fs_of []"]
  by (simp add: demo_defs fs_defs doc_defs save_defs)

text \<open>
  Claim C1, as the code has it. When the file exists, the backup copy succeeds and the
  write step fails, \<open>Save\<close> returns false with the write-failure message, the file has
  its original bytes, no backup remains and no other path has changed. The file is the
  backup copy renamed, so its modification time is the one \<open>wxCopyFile\<close> gave the copy:
  the file is as before only where that equals the original's.
\<close>

theorem Save_write_failure:
  assumes "m_fileName s \<noteq> []" and "p = GetRedirectedName s fs" and "files fs p = Some f"
    and "copy_ok io"
    and "write_fails L io (m_document (UpdateMetadata L (s\<lparr>m_error := []\<rparr>)))"
  shows "\<not> fst (Save L io pe s fs) \<and>
     m_error (fst (snd (Save L io pe s fs))) = ''Failed to write xml file'' \<and>
     files (snd (snd (Save L io pe s fs))) p = Some \<lparr>content = content f, mtime = copy_time io\<rparr> \<and>
     lookup (snd (snd (Save L io pe s fs))) (p @ ''~'') = None \<and>
     (\<forall>q. q \<noteq> p \<and> q \<noteq> p @ ''~'' \<longrightarrow>
        files (snd (snd (Save L io pe s fs))) q = files fs q \<and>
        links (snd (snd (Save L io pe s fs))) q = links fs q) \<and>
     (copy_time io = mtime f \<longrightarrow> files (snd (snd (Save L io pe s fs))) p = files fs p)"
proof -
  let ?s1 = "UpdateMetadata L (s\<lparr>m_error := []\<rparr>)"
  have p: "p = GetRedirectedName ?s1 fs"
    using assms(2) UpdateMetadata_keeps[of L "s\<lparr>m_error := []\<rparr>"] by (simp add: GetRedirectedName_def)
  have ne: "p \<noteq> p @ ''~''" by simp
  note sx = SaveXmlFile_failure[OF p assms(3) assms(4) assms(5)]
  have sv: "Save L io pe s fs =
     (False,
      ?s1\<lparr>m_error := ''Failed to write xml file'',
          m_modificationTime := get_modification_time
            (fs\<lparr>files := (files fs)(p \<mapsto> \<lparr>content = content f, mtime = copy_time io\<rparr>, p @ ''~'' := None),
                links := (links fs)(p @ ''~'' := None, p := None)\<rparr>) (m_fileName s)\<rparr>,
      fs\<lparr>files := (files fs)(p \<mapsto> \<lparr>content = content f, mtime = copy_time io\<rparr>, p @ ''~'' := None),
         links := (links fs)(p @ ''~'' := None, p := None)\<rparr>)"
    using Save_unfold[OF assms(1), of L io pe fs] sx by simp
  have same: "copy_time io = mtime f \<longrightarrow> \<lparr>content = content f, mtime = copy_time io\<rparr> = f"
    by simp
  show ?thesis
    unfolding sv using ne assms(3) same by (simp add: lookup_def)
qed

text \<open>
  A short write on a file last modified at time 100, with the backup copy made at time
  200: the bytes come back, the modification time does not.
\<close>

theorem Save_write_failure_counterexample:
  "\<not> fst (Save demo_library (demo_plan\<lparr>write_cap := Some 5\<rparr>) False
        ((CXmlFile_new ''sites.xml'' [])\<lparr>m_document := [new_element ''FileZilla3''], m_element := Some 0\<rparr>)
        (fs_of [(''sites.xml'', \<lparr>content = ''<FileZilla3/>'', mtime = 100\<rparr>)])) \<and>
   lookup (fs_of [(''sites.xml'', \<lparr>content = ''<FileZilla3/>'', mtime = 100\<rparr>)]) ''sites.xml'' =
     Some \<lparr>content = ''<FileZilla3/>'', mtime = 100\<rparr> \<and>
   lookup (snd (snd (Save demo_library (demo_plan\<lparr>write_cap := Some 5\<rparr>) False
        ((CXmlFile_new ''sites.xml'' [])\<lparr>m_document := [new_element ''FileZilla3''], m_element := Some 0\<rparr>)
        (fs_of [(''sites.xml'', \<lparr>content = ''<FileZilla3/>'', mtime = 100\<rparr>)])))) ''sites.xml'' =
     Some \<lparr>content = ''<FileZilla3/>'', mtime = 200\<rparr>"
  by (simp add: demo_defs fs_defs doc_defs save_defs)

theorem Save_write_failure_witness:
  "m_fileName (CXmlFile_new ''sites.xml'' []) \<noteq> [] \<and> copy_ok (demo_plan\<lparr>open_ok := False\<rparr>) \<and>
   write_fails demo_library (demo_plan\<lparr>open_ok := False\<rparr>) [] \<and>
   \<not> fst (Save demo_library (demo_plan\<lparr>open_ok := False\<rparr>) False (CXmlFile_new ''sites.xml'' [])
        (fs_of [(''sites.xml'', \<lparr>content = ''<FileZilla3/>'', mtime = 100\<rparr>)])) \<and>
   files (snd (snd (Save demo_library (demo_plan\<lparr>open_ok := False\<rparr>) False (CXmlFile_new ''sites.xml'' [])
        (fs_of [(''sites.xml'', \<lparr>content = ''<FileZilla3/>'', mtime = 100\<rparr>)])))) ''sites.xml'' =
     Some \<lparr>content = ''<FileZilla3/>'', mtime = 200\<rparr> \<and>
   lookup (snd (snd (Save demo_library (demo_plan\<lparr>open_ok := False\<rparr>) False (CXmlFile_new ''sites.xml'' [])
        (fs_of [(''sites.xml'', \<lparr>content = ''<FileZilla3/>'', mtime = 100\<rparr>)])))) ''sites.xml~'' = None"
  using Save_write_failure [of "CXmlFile_new ''sites.xml'' []" "''sites.xml''"
          "fs_of [(''sites.xml'', \<lparr>content = ''<FileZilla3/>'', mtime = 100\<rparr>)]"
          "\<lparr>content = ''<FileZilla3/>'', mtime = 100\<rparr>" "demo_plan\<lparr>open_ok := False\<rparr>" demo_library False]
  by (simp add: demo_defs fs_defs UpdateMetadata_def write_fails_def)

subsection \<open>Numbers as text\<close>

text \<open>What the integer reading makes of some texts.\<close>

lemma string_to_integer_examples:
  "string_to_integer ''abc'' = 0" "string_to_integer ''65536'' = 65536"
  "string_to_integer '' -12x'' = - 12" "string_to_integer ''99999999999'' = 2147483647"
  by (simp_all add: string_to_integer_def is_space_def is_digit_def digit_val_def)

lemma digit_cases: "d < 10 \<Longrightarrow> d = 0 \<or> d = 1 \<or> d = 2 \<or> d = 3 \<or> d = 4 \<or> d = 5 \<or> d = 6 \<or> d = 7 \<or> d = 8 \<or> d = (9::nat)"
  by arith

lemma digit_char_props:
  assumes "d < 10"
  shows "is_digit (digit_char d) \<and> digit_val (digit_char d) = d \<and> \<not> is_space (digit_char d) \<and>
         digit_char d \<noteq> CHR ''-'' \<and> digit_char d \<noteq> CHR ''+'' \<and> digit_char d \<noteq> CHR ''x'' \<and>
         digit_char d \<noteq> CHR ''X'' \<and> (digit_char d = CHR ''0'' \<longleftrightarrow> d = 0)"
  using digit_cases[OF assms]
  by (elim disjE) (simp_all add: digit_char_def is_digit_def digit_val_def is_space_def)

lemma nat_to_string_digits: "list_all is_digit (nat_to_string n)"
proof (induction n rule: nat_to_string.induct)
  case (1 n)
  show ?case
  proof (cases "n < 10")
    case True
    then show ?thesis using digit_char_props[of n] by (simp add: nat_to_string.simps)
  next
    case False
    then have "list_all is_digit (nat_to_string (n div 10))" using 1 by simp
    moreover have "is_digit (digit_char (n mod 10))" using digit_char_props[of "n mod 10"] by simp
    ultimately show ?thesis using False by (subst nat_to_string.simps) simp
  qed
qed

lemma nat_to_string_nonempty: "nat_to_string n \<noteq> []"
  by (subst nat_to_string.simps) simp

lemma dec_value_append:
  "list_all is_digit xs \<Longrightarrow> dec_value acc (xs @ ys) = dec_value (dec_value acc xs) ys"
  by (induction xs arbitrary: acc) simp_all

lemma dec_value_nat_to_string: "dec_value 0 (nat_to_string n) = n"
proof (induction n rule: nat_to_string.induct)
  case (1 n)
  show ?case
  proof (cases "n < 10")
    case True
    then show ?thesis using digit_char_props[of n] by (simp add: nat_to_string.simps)
  next
    case False
    then have ih: "dec_value 0 (nat_to_string (n div 10)) = n div 10" using 1 by simp
    have d: "is_digit (digit_char (n mod 10))" "digit_val (digit_char (n mod 10)) = n mod 10"
      using digit_char_props[of "n mod 10"] by simp_all
    have "dec_value 0 (nat_to_string n) =
          dec_value (dec_value 0 (nat_to_string (n div 10))) [digit_char (n mod 10)]"
      using False by (subst nat_to_string.simps) (simp add: dec_value_append nat_to_string_digits)
    also have "\<dots> = 10 * (n div 10) + n mod 10" using ih d by simp
    finally show ?thesis by simp
  qed
qed

lemma digits_no_hex_prefix: "list_all is_digit s \<Longrightarrow> \<not> is_hex_prefix s"
  by (cases s rule: is_hex_prefix.cases) (auto simp: is_digit_def)

lemma hd_nat_to_string: "is_digit (hd (nat_to_string n))"
  using nat_to_string_digits[of n] nat_to_string_nonempty[of n]
  by (cases "nat_to_string n") simp_all

lemma is_digit_not_special:
  "is_digit c \<Longrightarrow> \<not> is_space c \<and> c \<noteq> CHR ''-'' \<and> c \<noteq> CHR ''+''"
  by (auto simp: is_digit_def is_space_def)

lemma string_to_integer_to_string:
  assumes "- 2147483648 \<le> i" and "i \<le> 2147483647"
  shows "string_to_integer (to_string i) = i"
proof (cases "i < 0")
  case False
  let ?s = "nat_to_string (nat i)"
  obtain c cs where s: "?s = c # cs" using nat_to_string_nonempty[of "nat i"] by (cases ?s) auto
  have c: "is_digit c" using hd_nat_to_string[of "nat i"] s by simp
  have "dropWhile is_space ?s = ?s" using s c is_digit_not_special[of c] by simp
  moreover have "hd ?s \<noteq> CHR ''-''" "hd ?s \<noteq> CHR ''+''" using s c is_digit_not_special[of c] by simp_all
  ultimately show ?thesis
    using False assms nat_to_string_nonempty[of "nat i"]
    by (simp add: string_to_integer_def to_string_def Let_def digits_no_hex_prefix nat_to_string_digits
          dec_value_nat_to_string)
next
  case True
  let ?s = "nat_to_string (nat (- i))"
  have "\<not> is_space CHR ''-''" by (simp add: is_space_def)
  then have "dropWhile is_space (CHR ''-'' # ?s) = CHR ''-'' # ?s" by simp
  then show ?thesis
    using True assms
    by (simp add: string_to_integer_def to_string_def Let_def digits_no_hex_prefix nat_to_string_digits
          dec_value_nat_to_string)
qed

subsection \<open>\<open>GetServer\<close>: rejected nodes\<close>

lemma GetServer_head:
  assumes "GetTextElement node ''Host'' \<noteq> []"
    and "1 \<le> GetTextElementInt node ''Port'' 0" and "GetTextElementInt node ''Port'' 0 \<le> 65535"
    and "0 \<le> GetTextElementInt node ''Protocol'' 0" and "GetTextElementInt node ''Protocol'' 0 \<le> MAX_VALUE P"
    and "0 \<le> GetTextElementInt node ''Type'' 0" and "GetTextElementInt node ''Type'' 0 < SERVERTYPE_MAX P"
    and "0 \<le> GetTextElementInt node ''Logontype'' 0" and "GetTextElementInt node ''Logontype'' 0 < LogonType_count"
    and "site4 = SetLogonType (site\<lparr>server := (server site)
                  \<lparr>m_host := GetTextElement node ''Host'', m_port := GetTextElementInt node ''Port'' 0,
                   m_protocol := GetTextElementInt node ''Protocol'' 0,
                   m_type := GetTextElementInt node ''Type'' 0\<rparr>\<rparr>)
                 (LogonType_of_int (GetTextElementInt node ''Logontype'' 0))"
  shows "GetServer P node site =
     (if \<not> fst (GetServer_credentials P node site4) then (False, snd (GetServer_credentials P node site4))
      else (fst (GetServer_settings P node (server (snd (GetServer_credentials P node site4)))),
            (snd (GetServer_credentials P node site4))
               \<lparr>server := snd (GetServer_settings P node (server (snd (GetServer_credentials P node site4))))\<rparr>))"
  using assms unfolding GetServer_def Let_def SetHost_def
  by (simp add: split_beta)

text \<open>
  Claim C4, as the code has it. \<open>GetServer\<close> returns false when the host is missing or
  empty, when the port read from the node is outside 1 to 65535 (a text without digits
  reads as 0), and when the protocol, the server type or the logon type read from the
  node is outside its range. After a failure on the host or the port the caller's site
  is as it was. The later checks come after the earlier fields have been written: a
  rejected protocol leaves the host and the port of the node in the site, a rejected
  server type also the protocol, a rejected logon type also the server type.
\<close>

theorem GetServer_rejects:
  "(GetTextElement node ''Host'' = [] \<longrightarrow> GetServer P node site = (False, site)) \<and>
   (GetTextElementInt node ''Port'' 0 < 1 \<or> 65535 < GetTextElementInt node ''Port'' 0 \<longrightarrow>
      GetServer P node site = (False, site)) \<and>
   (GetTextElement node ''Host'' \<noteq> [] \<and> 1 \<le> GetTextElementInt node ''Port'' 0 \<and>
    GetTextElementInt node ''Port'' 0 \<le> 65535 \<longrightarrow>
      ((GetTextElementInt node ''Protocol'' 0 < 0 \<or> MAX_VALUE P < GetTextElementInt node ''Protocol'' 0 \<longrightarrow>
          GetServer P node site =
            (False, site\<lparr>server := (server site)\<lparr>m_host := GetTextElement node ''Host'',
                                                   m_port := GetTextElementInt node ''Port'' 0\<rparr>\<rparr>)) \<and>
       (0 \<le> GetTextElementInt node ''Protocol'' 0 \<and> GetTextElementInt node ''Protocol'' 0 \<le> MAX_VALUE P \<longrightarrow>
          ((GetTextElementInt node ''Type'' 0 < 0 \<or> SERVERTYPE_MAX P \<le> GetTextElementInt node ''Type'' 0 \<longrightarrow>
              GetServer P node site =
                (False, site\<lparr>server := (server site)\<lparr>m_host := GetTextElement node ''Host'',
                                                       m_port := GetTextElementInt node ''Port'' 0,
                                                       m_protocol := GetTextElementInt node ''Protocol'' 0\<rparr>\<rparr>)) \<and>
           (0 \<le> GetTextElementInt node ''Type'' 0 \<and> GetTextElementInt node ''Type'' 0 < SERVERTYPE_MAX P \<and>
            (GetTextElementInt node ''Logontype'' 0 < 0 \<or> LogonType_count \<le> GetTextElementInt node ''Logontype'' 0) \<longrightarrow>
              GetServer P node site =
                (False, site\<lparr>server := (server site)\<lparr>m_host := GetTextElement node ''Host'',
                                                       m_port := GetTextElementInt node ''Port'' 0,
                                                       m_protocol := GetTextElementInt node ''Protocol'' 0,
                                                       m_type := GetTextElementInt node ''Type'' 0\<rparr>\<rparr>))))))"
  unfolding GetServer_def Let_def SetHost_def
  by (simp add: split_beta)

lemmas xml_defs = GetTextElement_def GetTextElement_self_def GetTextElement_Trimmed_def
  GetTextElement_Trimmed_self_def GetTextElementInt_def GetTextAttribute_def SetTextAttribute_def
  SetTextAttributeUtf8_def AddTextElementUtf8_def AddTextElement_def AddTextElementInt_def pcdata_def
  child_def child_value_def is_text_node_def attribute_value_def to_utf8_def to_wstring_from_utf8_def
  string_to_integer_def is_space_def is_digit_def digit_val_def to_string_def nat_to_string.simps
  digit_char_def trimmed_def demo_node_def
lemmas codec_defs = demo_codec_def demo_from_base64_def demo_to_base64_def Site_new_def LogonType_count_def
  LogonType_of_int_def int_of_LogonType_def SetHost_def SetLogonType_def SetUser_def SetPass_def
  SetTimezoneOffset_def SetEncodingType_def

text \<open>
  A node with a good host and port and the protocol 99: the decode fails, and the site
  handed in has the host and the port of the node.
\<close>

theorem GetServer_rejects_counterexample:
  "GetServer demo_codec
     (demo_node [AddTextElement ''Host'' ''example.org'', AddTextElementInt ''Port'' 21,
                 AddTextElementInt ''Protocol'' 99]) Site_new =
     (False, Site_new\<lparr>server := (server Site_new)\<lparr>m_host := ''example.org'', m_port := 21\<rparr>\<rparr>) \<and>
   m_host (server Site_new) = [] \<and> m_port (server Site_new) = 0"
  by (simp add: GetServer_def xml_defs codec_defs)



theorem GetServer_rejects_witness:
  "GetTextElementInt (demo_node [AddTextElement ''Host'' ''example.org'', AddTextElement ''Port'' ''abc'']) ''Port'' 0 = 0 \<and>
   GetServer demo_codec (demo_node [AddTextElement ''Host'' ''example.org'', AddTextElement ''Port'' ''abc'']) Site_new
     = (False, Site_new) \<and>
   GetTextElementInt (demo_node [AddTextElement ''Host'' ''example.org'', AddTextElement ''Port'' ''21'',
        AddTextElement ''Protocol'' ''0'', AddTextElement ''Type'' ''0'', AddTextElement ''Logontype'' ''6'']) ''Logontype'' 0 = 6 \<and>
   \<not> fst (GetServer demo_codec (demo_node [AddTextElement ''Host'' ''example.org'', AddTextElement ''Port'' ''21'',
        AddTextElement ''Protocol'' ''0'', AddTextElement ''Type'' ''0'', AddTextElement ''Logontype'' ''6'']) Site_new)"
proof -
  let ?n1 = "demo_node [AddTextElement ''Host'' ''example.org'', AddTextElement ''Port'' ''abc'']"
  let ?n2 = "demo_node [AddTextElement ''Host'' ''example.org'', AddTextElement ''Port'' ''21'',
        AddTextElement ''Protocol'' ''0'', AddTextElement ''Type'' ''0'', AddTextElement ''Logontype'' ''6'']"
  have p1: "GetTextElementInt ?n1 ''Port'' 0 = 0" by (simp add: xml_defs)
  have r1: "GetTextElementInt ?n1 ''Port'' 0 < 1 \<or> 65535 < GetTextElementInt ?n1 ''Port'' 0 \<longrightarrow>
      GetServer demo_codec ?n1 Site_new = (False, Site_new)"
    using GetServer_rejects [of ?n1 demo_codec Site_new] by blast
  have g1: "GetServer demo_codec ?n1 Site_new = (False, Site_new)" using r1 p1 by simp
  have h2: "GetTextElement ?n2 ''Host'' \<noteq> []" "GetTextElementInt ?n2 ''Port'' 0 = 21"
    "GetTextElementInt ?n2 ''Protocol'' 0 = 0" "GetTextElementInt ?n2 ''Type'' 0 = 0"
    "GetTextElementInt ?n2 ''Logontype'' 0 = 6" "MAX_VALUE demo_codec = 9" "SERVERTYPE_MAX demo_codec = 11"
    by (simp_all add: xml_defs demo_codec_def)
  have c2: "GetTextElement ?n2 ''Host'' \<noteq> [] \<and> 1 \<le> GetTextElementInt ?n2 ''Port'' 0 \<and>
    GetTextElementInt ?n2 ''Port'' 0 \<le> 65535 \<and>
    0 \<le> GetTextElementInt ?n2 ''Protocol'' 0 \<and> GetTextElementInt ?n2 ''Protocol'' 0 \<le> MAX_VALUE demo_codec \<and>
    0 \<le> GetTextElementInt ?n2 ''Type'' 0 \<and> GetTextElementInt ?n2 ''Type'' 0 < SERVERTYPE_MAX demo_codec \<and>
    (GetTextElementInt ?n2 ''Logontype'' 0 < 0 \<or> LogonType_count \<le> GetTextElementInt ?n2 ''Logontype'' 0)"
    unfolding h2 using h2(1) by (simp add: LogonType_count_def)
  have g2: "\<not> fst (GetServer demo_codec ?n2 Site_new)"
    using GetServer_rejects [of ?n2 demo_codec Site_new] c2 by (metis fst_conv)
  from p1 g1 h2(5) g2 show ?thesis by blast
qed

subsection \<open>\<open>GetServer\<close>: the password element\<close>

lemma GetServer_credentials_of:
  assumes "GetTextElement node ''Host'' \<noteq> []"
    and "1 \<le> GetTextElementInt node ''Port'' 0" and "GetTextElementInt node ''Port'' 0 \<le> 65535"
    and "0 \<le> GetTextElementInt node ''Protocol'' 0" and "GetTextElementInt node ''Protocol'' 0 \<le> MAX_VALUE P"
    and "0 \<le> GetTextElementInt node ''Type'' 0" and "GetTextElementInt node ''Type'' 0 < SERVERTYPE_MAX P"
    and "0 \<le> GetTextElementInt node ''Logontype'' 0" and "GetTextElementInt node ''Logontype'' 0 < LogonType_count"
    and "site4 = SetLogonType (site\<lparr>server := (server site)
                  \<lparr>m_host := GetTextElement node ''Host'', m_port := GetTextElementInt node ''Port'' 0,
                   m_protocol := GetTextElementInt node ''Protocol'' 0,
                   m_type := GetTextElementInt node ''Type'' 0\<rparr>\<rparr>)
                 (LogonType_of_int (GetTextElementInt node ''Logontype'' 0))"
  shows "credentials (snd (GetServer P node site)) = credentials (snd (GetServer_credentials P node site4))"
  unfolding GetServer_head[OF assms] by simp

lemma pass_crypt_bad_key:
  assumes "c_logonType (credentials s) = normal \<or> c_logonType (credentials s) = account"
    and "GetTextElement node ''User'' \<noteq> []"
    and "child (children node) ''Pass'' = Some passElement"
    and "GetTextAttribute passElement ''encoding'' = ''crypt''"
    and "from_base64 P (attribute_value passElement ''pubkey'') = None"
  shows "c_logonType (credentials (snd (GetServer_credentials P node s))) = ask \<and>
         c_password (credentials (snd (GetServer_credentials P node s))) = []"
  using assms
  by (auto simp add: GetServer_credentials_def Let_def SetLogonType_def SetUser_def SetPass_def)

lemma pass_unknown_encoding:
  assumes "c_logonType (credentials s) = normal \<or> c_logonType (credentials s) = account"
    and "GetTextElement node ''User'' \<noteq> []"
    and "child (children node) ''Pass'' = Some passElement"
    and "GetTextAttribute passElement ''encoding'' \<noteq> []"
    and "GetTextAttribute passElement ''encoding'' \<noteq> ''base64''"
    and "GetTextAttribute passElement ''encoding'' \<noteq> ''crypt''"
  shows "c_logonType (credentials (snd (GetServer_credentials P node s))) = ask \<and>
         c_password (credentials (snd (GetServer_credentials P node s))) = []"
  using assms
  by (auto simp add: GetServer_credentials_def Let_def SetLogonType_def SetUser_def SetPass_def)

lemma pass_base64:
  assumes "c_logonType (credentials s) = normal \<or> c_logonType (credentials s) = account"
    and "GetTextElement node ''User'' \<noteq> []"
    and "child (children node) ''Pass'' = Some passElement"
    and "GetTextAttribute passElement ''encoding'' = ''base64''"
  shows "c_logonType (credentials (snd (GetServer_credentials P node s))) = c_logonType (credentials s) \<and>
         c_password (credentials (snd (GetServer_credentials P node s))) =
           to_wstring_from_utf8 (base64_decode P (child_value passElement))"
  using assms
  by (auto simp add: GetServer_credentials_def Let_def SetLogonType_def SetUser_def SetPass_def)

text \<open>
  Claim C5. For a node that passes the checks before the credentials, with logon type
  normal or account, a user and a \<open>Pass\<close> child: when the encoding is \<open>crypt\<close> and the
  \<open>pubkey\<close> attribute does not parse as a public key, the decoded site has the logon type
  ask and an empty password; when the encoding is any other text than none, \<open>base64\<close> and
  \<open>crypt\<close>, the logon type is ask as well; and when the encoding is \<open>base64\<close> and the
  text is the base64 form of a password (base64 decoding undoing the encoding), the
  decoded password is that password and the logon type stays.
\<close>

theorem GetServer_pass_encoding:
  assumes "GetTextElement node ''Host'' \<noteq> []"
    and "1 \<le> GetTextElementInt node ''Port'' 0" and "GetTextElementInt node ''Port'' 0 \<le> 65535"
    and "0 \<le> GetTextElementInt node ''Protocol'' 0" and "GetTextElementInt node ''Protocol'' 0 \<le> MAX_VALUE P"
    and "0 \<le> GetTextElementInt node ''Type'' 0" and "GetTextElementInt node ''Type'' 0 < SERVERTYPE_MAX P"
    and "LogonType_of_int (GetTextElementInt node ''Logontype'' 0) = normal \<or>
         LogonType_of_int (GetTextElementInt node ''Logontype'' 0) = account"
    and "0 \<le> GetTextElementInt node ''Logontype'' 0" and "GetTextElementInt node ''Logontype'' 0 < LogonType_count"
    and "GetTextElement node ''User'' \<noteq> []"
    and "child (children node) ''Pass'' = Some passElement"
  shows "(GetTextAttribute passElement ''encoding'' = ''crypt'' \<and>
          from_base64 P (attribute_value passElement ''pubkey'') = None \<longrightarrow>
            c_logonType (credentials (snd (GetServer P node site))) = ask \<and>
            c_password (credentials (snd (GetServer P node site))) = []) \<and>
         (GetTextAttribute passElement ''encoding'' \<noteq> [] \<and>
          GetTextAttribute passElement ''encoding'' \<noteq> ''base64'' \<and>
          GetTextAttribute passElement ''encoding'' \<noteq> ''crypt'' \<longrightarrow>
            c_logonType (credentials (snd (GetServer P node site))) = ask \<and>
            c_password (credentials (snd (GetServer P node site))) = []) \<and>
         (GetTextAttribute passElement ''encoding'' = ''base64'' \<and>
          child_value passElement = base64_encode P (to_utf8 pw) \<and>
          base64_decode P (base64_encode P (to_utf8 pw)) = to_utf8 pw \<longrightarrow>
            c_password (credentials (snd (GetServer P node site))) = pw \<and>
            c_logonType (credentials (snd (GetServer P node site))) =
              LogonType_of_int (GetTextElementInt node ''Logontype'' 0))"
proof -
  let ?t = "LogonType_of_int (GetTextElementInt node ''Logontype'' 0)"
  let ?s4 = "SetLogonType (site\<lparr>server := (server site)
                  \<lparr>m_host := GetTextElement node ''Host'', m_port := GetTextElementInt node ''Port'' 0,
                   m_protocol := GetTextElementInt node ''Protocol'' 0,
                   m_type := GetTextElementInt node ''Type'' 0\<rparr>\<rparr>) ?t"
  have cr: "credentials (snd (GetServer P node site)) = credentials (snd (GetServer_credentials P node ?s4))"
    by (rule GetServer_credentials_of[OF assms(1-7) assms(9,10) refl])
  have lt: "c_logonType (credentials ?s4) = ?t"
    by (simp add: SetLogonType_def Let_def)
  have na: "c_logonType (credentials ?s4) = normal \<or> c_logonType (credentials ?s4) = account"
    using assms(8) lt by simp
  show ?thesis
    unfolding cr
    using pass_crypt_bad_key[OF na assms(11,12), of P]
          pass_unknown_encoding[OF na assms(11,12), of P]
          pass_base64[OF na assms(11,12), of P] lt
    by (simp add: to_utf8_def to_wstring_from_utf8_def)
qed

theorem GetServer_pass_encoding_witness:
  "from_base64 demo_codec [] = None \<and>
   c_logonType (credentials (snd (GetServer demo_codec
      (demo_node [AddTextElement ''Host'' ''example.org'', AddTextElementInt ''Port'' 21,
                  AddTextElementInt ''Protocol'' 0, AddTextElementInt ''Type'' 0,
                  AddTextElement ''User'' ''anna'',
                  SetTextAttributeUtf8 (SetTextAttribute (AddTextElementUtf8 ''Pass'' ''blob'') ''encoding'' ''crypt'')
                    ''pubkey'' [],
                  AddTextElementInt ''Logontype'' 1]) Site_new))) = ask \<and>
   c_password (credentials (snd (GetServer demo_codec
      (demo_node [AddTextElement ''Host'' ''example.org'', AddTextElementInt ''Port'' 21,
                  AddTextElementInt ''Protocol'' 0, AddTextElementInt ''Type'' 0,
                  AddTextElement ''User'' ''anna'',
                  SetTextAttributeUtf8 (SetTextAttribute (AddTextElementUtf8 ''Pass'' ''blob'') ''encoding'' ''crypt'')
                    ''pubkey'' [],
                  AddTextElementInt ''Logontype'' 1]) Site_new))) = [] \<and>
   c_logonType (credentials (snd (GetServer demo_codec
      (demo_node [AddTextElement ''Host'' ''example.org'', AddTextElementInt ''Port'' 21,
                  AddTextElementInt ''Protocol'' 0, AddTextElementInt ''Type'' 0,
                  AddTextElement ''User'' ''anna'',
                  SetTextAttribute (AddTextElementUtf8 ''Pass'' ''frperg'') ''encoding'' ''rot13'',
                  AddTextElementInt ''Logontype'' 1]) Site_new))) = ask \<and>
   c_password (credentials (snd (GetServer demo_codec
      (demo_node [AddTextElement ''Host'' ''example.org'', AddTextElementInt ''Port'' 21,
                  AddTextElementInt ''Protocol'' 0, AddTextElementInt ''Type'' 0,
                  AddTextElement ''User'' ''anna'',
                  SetTextAttribute (AddTextElementUtf8 ''Pass'' (base64_encode demo_codec ''secret'')) ''encoding'' ''base64'',
                  AddTextElementInt ''Logontype'' 1]) Site_new))) = ''secret''"
proof -
  let ?pc = "SetTextAttributeUtf8 (SetTextAttribute (AddTextElementUtf8 ''Pass'' ''blob'') ''encoding'' ''crypt'')
                    ''pubkey'' []"
  let ?pu = "SetTextAttribute (AddTextElementUtf8 ''Pass'' ''frperg'') ''encoding'' ''rot13''"
  let ?pb = "SetTextAttribute (AddTextElementUtf8 ''Pass'' (base64_encode demo_codec ''secret'')) ''encoding'' ''base64''"
  let ?n = "\<lambda>pass lt. demo_node [AddTextElement ''Host'' ''example.org'', AddTextElementInt ''Port'' 21,
                  AddTextElementInt ''Protocol'' 0, AddTextElementInt ''Type'' 0,
                  AddTextElement ''User'' ''anna'', pass, AddTextElementInt ''Logontype'' lt]"
  have nm: "node_name ?pc = ''Pass''" "node_name ?pu = ''Pass''" "node_name ?pb = ''Pass''"
    by (simp_all add: xml_defs)
  have h: "GetTextElement (?n pass lt) ''Host'' \<noteq> []"
          "GetTextElementInt (?n pass lt) ''Port'' 0 = 21"
          "GetTextElementInt (?n pass lt) ''Protocol'' 0 = 0"
          "GetTextElementInt (?n pass lt) ''Type'' 0 = 0"
          "GetTextElement (?n pass lt) ''User'' \<noteq> []"
    if "node_name pass = ''Pass''" for pass lt
    using that by (simp_all add: xml_defs)
  have l: "GetTextElementInt (?n pass 1) ''Logontype'' 0 = 1"
          "child (children (?n pass lt)) ''Pass'' = Some pass"
    if "node_name pass = ''Pass''" for pass lt
    using that by (simp_all add: xml_defs)
  have c: "MAX_VALUE demo_codec = 9" "SERVERTYPE_MAX demo_codec = 11" "from_base64 demo_codec [] = None"
    "base64_decode demo_codec (base64_encode demo_codec (to_utf8 ''secret'')) = to_utf8 ''secret''"
    by (simp_all add: demo_codec_def demo_from_base64_def)
  have e: "GetTextAttribute ?pc ''encoding'' = ''crypt''" "attribute_value ?pc ''pubkey'' = []"
          "GetTextAttribute ?pu ''encoding'' = ''rot13''"
          "GetTextAttribute ?pb ''encoding'' = ''base64''"
          "child_value ?pb = base64_encode demo_codec (to_utf8 ''secret'')"
    by (simp_all add: xml_defs demo_codec_def)
  have r1: "c_logonType (credentials (snd (GetServer demo_codec (?n ?pc 1) Site_new))) = ask \<and>
            c_password (credentials (snd (GetServer demo_codec (?n ?pc 1) Site_new))) = []"
    using GetServer_pass_encoding [where node = "?n ?pc 1" and P = demo_codec and passElement = ?pc and pw = "[]" and site = Site_new]
    unfolding h[OF nm(1)] l[OF nm(1)] c e
    using h(1)[OF nm(1)] h(5)[OF nm(1)]
    by (simp add: LogonType_of_int_def LogonType_count_def)
  have r2: "c_logonType (credentials (snd (GetServer demo_codec (?n ?pu 1) Site_new))) = ask"
    using GetServer_pass_encoding [where node = "?n ?pu 1" and P = demo_codec and passElement = ?pu and pw = "[]" and site = Site_new]
    unfolding h[OF nm(2)] l[OF nm(2)] c e
    using h(1)[OF nm(2)] h(5)[OF nm(2)]
    by (simp add: LogonType_of_int_def LogonType_count_def)
  have r3: "c_password (credentials (snd (GetServer demo_codec (?n ?pb 1) Site_new))) = ''secret''"
    using GetServer_pass_encoding [where node = "?n ?pb 1" and P = demo_codec and passElement = ?pb and pw = "''secret''" and site = Site_new]
    unfolding h[OF nm(3)] l[OF nm(3)] e
    using h(1)[OF nm(3)] h(5)[OF nm(3)] c
    by (simp add: LogonType_of_int_def LogonType_count_def)
  from c(3) r1 r2 r3 show ?thesis by simp
qed

subsection \<open>\<open>SetServer\<close> followed by \<open>GetServer\<close>\<close>

lemma child_append:
  "child (xs @ ys) nm = (case child xs nm of Some n \<Rightarrow> Some n | None \<Rightarrow> child ys nm)"
  by (induction xs) (simp_all add: child_def)

lemma child_absent: "\<forall>n \<in> set xs. node_name n \<noteq> nm \<Longrightarrow> child xs nm = None"
  by (induction xs) (simp_all add: child_def)

lemma child_Cons:
  "child (x # xs) nm = (if node_name x = nm then Some x else child xs nm)"
  by (simp add: child_def)

lemma child_Nil [simp]: "child [] nm = None"
  by (simp add: child_def)

lemma node_name_Add [simp]:
  "node_name (AddTextElement nm v) = nm" "node_name (AddTextElementUtf8 nm v) = nm"
  "node_name (AddTextElementInt nm i) = nm"
  "node_name (SetTextAttribute n a v) = node_name n" "node_name (SetTextAttributeUtf8 n a v) = node_name n"
  by (simp_all add: AddTextElement_def AddTextElementUtf8_def AddTextElementInt_def SetTextAttribute_def
        SetTextAttributeUtf8_def)

lemma child_value_Add [simp]:
  "child_value (AddTextElement nm v) = v" "child_value (AddTextElementUtf8 nm v) = v"
  "child_value (SetTextAttribute n a v) = child_value n"
  "child_value (SetTextAttributeUtf8 n a v) = child_value n"
  by (simp_all add: AddTextElement_def AddTextElementUtf8_def SetTextAttribute_def
        SetTextAttributeUtf8_def child_value_def is_text_node_def pcdata_def to_utf8_def)

lemma node_type_Add [simp]:
  "node_type (AddTextElement nm v) = node_element" "node_type (AddTextElementUtf8 nm v) = node_element"
  "node_type (AddTextElementInt nm i) = node_element"
  "node_type (SetTextAttribute n a v) = node_type n" "node_type (SetTextAttributeUtf8 n a v) = node_type n"
  by (simp_all add: AddTextElement_def AddTextElementUtf8_def AddTextElementInt_def SetTextAttribute_def
        SetTextAttributeUtf8_def)

lemma int_element_value:
  "- 2147483648 \<le> i \<Longrightarrow> i \<le> 2147483647 \<Longrightarrow>
   (case find is_text_node (children (AddTextElementInt nm i)) of
      None \<Rightarrow> d | Some t \<Rightarrow> string_to_integer (node_value t)) = i"
  by (simp add: AddTextElementInt_def is_text_node_def pcdata_def string_to_integer_to_string)

text \<open>The names of the elements each part of \<open>SetServer\<close> writes.\<close>

lemma names_credentials:
  "n \<in> set (SetServer_credentials P site) \<Longrightarrow>
   node_name n = ''User'' \<or> node_name n = ''Pass'' \<or> node_name n = ''Account'' \<or> node_name n = ''Keyfile''"
  by (auto simp add: SetServer_credentials_def Let_def split: if_splits option.splits)

lemma names_settings:
  "n \<in> set (SetServer_settings P srv) \<Longrightarrow>
   node_name n = ''TimezoneOffset'' \<or> node_name n = ''PasvMode'' \<or>
   node_name n = ''MaximumMultipleConnections'' \<or> node_name n = ''EncodingType'' \<or>
   node_name n = ''CustomEncoding'' \<or> node_name n = ''PostLoginCommands'' \<or>
   node_name n = ''BypassProxy'' \<or> node_name n = ''Name'' \<or> node_name n = ''Parameter''"
  by (auto simp add: SetServer_settings_def split: if_splits PasvMode.splits CharsetEncoding.splits)

lemma types_credentials:
  "n \<in> set (SetServer_credentials P site) \<Longrightarrow> node_type n = node_element"
  by (auto simp add: SetServer_credentials_def Let_def split: if_splits option.splits)

lemma types_settings:
  "n \<in> set (SetServer_settings P srv) \<Longrightarrow> node_type n = node_element"
  by (auto simp add: SetServer_settings_def split: if_splits PasvMode.splits CharsetEncoding.splits)

lemma children_SetServer_node:
  "children (SetServer_node P node site) =
     [AddTextElement ''Host'' (m_host (server site)),
      AddTextElementInt ''Port'' (m_port (server site)),
      AddTextElementInt ''Protocol'' (m_protocol (server site)),
      AddTextElementInt ''Type'' (m_type (server site))] @
     SetServer_credentials P site @ [SetServer_logontype P site] @ SetServer_settings P (server site)"
  by (simp add: SetServer_node_def)

lemma child_credentials_absent:
  "nm \<noteq> ''User'' \<Longrightarrow> nm \<noteq> ''Pass'' \<Longrightarrow> nm \<noteq> ''Account'' \<Longrightarrow> nm \<noteq> ''Keyfile'' \<Longrightarrow>
   child (SetServer_credentials P site) nm = None"
  by (rule child_absent) (use names_credentials in blast)

lemma child_settings_absent:
  "nm \<noteq> ''TimezoneOffset'' \<Longrightarrow> nm \<noteq> ''PasvMode'' \<Longrightarrow> nm \<noteq> ''MaximumMultipleConnections'' \<Longrightarrow>
   nm \<noteq> ''EncodingType'' \<Longrightarrow> nm \<noteq> ''CustomEncoding'' \<Longrightarrow> nm \<noteq> ''PostLoginCommands'' \<Longrightarrow>
   nm \<noteq> ''BypassProxy'' \<Longrightarrow> nm \<noteq> ''Name'' \<Longrightarrow> nm \<noteq> ''Parameter'' \<Longrightarrow>
   child (SetServer_settings P srv) nm = None"
  by (rule child_absent) (use names_settings in blast)

lemma node_name_logontype [simp]: "node_name (SetServer_logontype P site) = ''Logontype''"
  by (simp add: SetServer_logontype_def)

text \<open>Where \<open>GetServer\<close> finds each element in what \<open>SetServer\<close> wrote.\<close>

lemma lookup_head:
  "child (children (SetServer_node P node site)) ''Host'' = Some (AddTextElement ''Host'' (m_host (server site)))"
  "child (children (SetServer_node P node site)) ''Port'' = Some (AddTextElementInt ''Port'' (m_port (server site)))"
  "child (children (SetServer_node P node site)) ''Protocol'' =
     Some (AddTextElementInt ''Protocol'' (m_protocol (server site)))"
  "child (children (SetServer_node P node site)) ''Type'' = Some (AddTextElementInt ''Type'' (m_type (server site)))"
  by (simp_all add: children_SetServer_node child_Cons)

lemma lookup_logontype:
  "child (children (SetServer_node P node site)) ''Logontype'' = Some (SetServer_logontype P site)"
  by (simp add: children_SetServer_node child_Cons child_append child_credentials_absent)

lemma lookup_credentials:
  assumes "nm = ''User'' \<or> nm = ''Pass'' \<or> nm = ''Account'' \<or> nm = ''Keyfile''"
  shows "child (children (SetServer_node P node site)) nm = child (SetServer_credentials P site) nm"
proof -
  have "child (SetServer_settings P (server site)) nm = None"
    using assms by (intro child_settings_absent) auto
  then show ?thesis
    using assms
    by (cases "child (SetServer_credentials P site) nm")
       (auto simp add: children_SetServer_node child_Cons child_append)
qed

lemma lookup_settings:
  assumes "nm = ''TimezoneOffset'' \<or> nm = ''PasvMode'' \<or> nm = ''MaximumMultipleConnections'' \<or>
           nm = ''EncodingType'' \<or> nm = ''CustomEncoding'' \<or> nm = ''PostLoginCommands'' \<or>
           nm = ''BypassProxy'' \<or> nm = ''Name''"
  shows "child (children (SetServer_node P node site)) nm = child (SetServer_settings P (server site)) nm"
proof -
  have "child (SetServer_credentials P site) nm = None"
    using assms by (intro child_credentials_absent) auto
  then show ?thesis
    using assms by (auto simp add: children_SetServer_node child_Cons child_append)
qed

lemma filter_absent: "\<forall>n \<in> set xs. node_name n \<noteq> nm \<Longrightarrow> filter (\<lambda>c. node_name c = nm) xs = []"
  by (induction xs) simp_all

lemma parameters_SetServer_node:
  "filter (\<lambda>c. node_name c = ''Parameter'') (children (SetServer_node P node site)) =
   filter (\<lambda>c. node_name c = ''Parameter'') (SetServer_settings P (server site))"
proof -
  have "filter (\<lambda>c. node_name c = ''Parameter'') (SetServer_credentials P site) = []"
    by (rule filter_absent) (use names_credentials in fastforce)
  then show ?thesis by (simp add: children_SetServer_node)
qed

lemma child_value_SetServer_node: "child_value (SetServer_node P node site) = []"
proof -
  have "\<forall>n \<in> set (children (SetServer_node P node site)). \<not> is_text_node n"
    using types_credentials[of _ P site] types_settings[of _ P "server site"]
    by (auto simp add: children_SetServer_node is_text_node_def SetServer_logontype_def)
  then have "find is_text_node (children (SetServer_node P node site)) = None"
    by (simp add: find_None_iff)
  then show ?thesis by (simp add: child_value_def)
qed

text \<open>The elements of the settings part, by name.\<close>

lemma child_parameters_absent:
  "nm \<noteq> ''Parameter'' \<Longrightarrow>
   child (map (\<lambda>parameter. SetTextAttribute (AddTextElement ''Parameter'' (snd parameter)) ''Name'' (fst parameter)) ps) nm = None"
  by (rule child_absent) auto

lemma settings_lookup:
  "child (SetServer_settings P srv) ''TimezoneOffset'' =
     Some (AddTextElementInt ''TimezoneOffset'' (m_timezoneOffset srv))"
  "child (SetServer_settings P srv) ''PasvMode'' =
     Some (AddTextElementUtf8 ''PasvMode''
        (case m_pasvMode srv of MODE_PASSIVE \<Rightarrow> ''MODE_PASSIVE'' | MODE_ACTIVE \<Rightarrow> ''MODE_ACTIVE''
                              | MODE_DEFAULT \<Rightarrow> ''MODE_DEFAULT''))"
  "child (SetServer_settings P srv) ''MaximumMultipleConnections'' =
     Some (AddTextElementInt ''MaximumMultipleConnections'' (m_maximumMultipleConnections srv))"
  "child (SetServer_settings P srv) ''EncodingType'' =
     Some (AddTextElementUtf8 ''EncodingType''
        (case m_encodingType srv of ENCODING_AUTO \<Rightarrow> ''Auto'' | ENCODING_UTF8 \<Rightarrow> ''UTF-8''
                                  | ENCODING_CUSTOM \<Rightarrow> ''Custom''))"
  "child (SetServer_settings P srv) ''CustomEncoding'' =
     (if m_encodingType srv = ENCODING_CUSTOM
      then Some (AddTextElement ''CustomEncoding'' (m_customEncoding srv)) else None)"
  "child (SetServer_settings P srv) ''PostLoginCommands'' =
     (if HasPostLoginCommands P (m_protocol srv) \<and> m_postLoginCommands srv \<noteq> []
      then Some (XmlNode node_element ''PostLoginCommands'' [] []
              (map (\<lambda>command. AddTextElement ''Command'' command) (m_postLoginCommands srv)))
      else None)"
  "child (SetServer_settings P srv) ''BypassProxy'' =
     Some (AddTextElementUtf8 ''BypassProxy'' (if m_bypassProxy srv then ''1'' else ''0''))"
  "child (SetServer_settings P srv) ''Name'' =
     (if m_name srv \<noteq> [] then Some (AddTextElement ''Name'' (m_name srv)) else None)"
  by (simp_all add: SetServer_settings_def child_Cons child_append child_parameters_absent
        split: PasvMode.splits CharsetEncoding.splits)

lemma settings_parameters:
  "filter (\<lambda>c. node_name c = ''Parameter'') (SetServer_settings P srv) =
   map (\<lambda>parameter. SetTextAttribute (AddTextElement ''Parameter'' (snd parameter)) ''Name'' (fst parameter))
     (m_extraParameters srv)"
  by (simp add: SetServer_settings_def filter_map comp_def
        split: PasvMode.splits CharsetEncoding.splits)

lemma SetExtraParameter_new:
  "nm \<notin> fst ` set ps \<Longrightarrow> SetExtraParameter ps nm v = ps @ [(nm, v)]"
  by (induction ps nm v rule: SetExtraParameter.induct) auto

lemma read_back_parameters:
  "distinct (map fst ps) \<Longrightarrow> fst ` set acc \<inter> fst ` set ps = {} \<Longrightarrow>
   foldl (\<lambda>ps parameter. SetExtraParameter ps (attribute_value parameter ''Name'') (GetTextElement_self parameter))
     acc (map (\<lambda>parameter. SetTextAttribute (AddTextElement ''Parameter'' (snd parameter)) ''Name'' (fst parameter)) ps)
   = acc @ ps"
proof (induction ps arbitrary: acc)
  case Nil
  then show ?case by simp
next
  case (Cons p ps)
  have a: "attribute_value (SetTextAttribute (AddTextElement ''Parameter'' (snd p)) ''Name'' (fst p)) ''Name'' = fst p"
    by (simp add: attribute_value_def SetTextAttribute_def SetTextAttributeUtf8_def AddTextElement_def
          AddTextElementUtf8_def to_utf8_def)
  have v: "GetTextElement_self (SetTextAttribute (AddTextElement ''Parameter'' (snd p)) ''Name'' (fst p)) = snd p"
    by (simp add: GetTextElement_self_def to_wstring_from_utf8_def)
  have new: "fst p \<notin> fst ` set acc" using Cons.prems(2) by auto
  have step: "SetExtraParameter acc (fst p) (snd p) = acc @ [p]"
    using SetExtraParameter_new[OF new, of "snd p"] by simp
  have d: "distinct (map fst ps)" using Cons.prems(1) by simp
  have disj: "fst ` set (acc @ [p]) \<inter> fst ` set ps = {}"
    using Cons.prems by auto
  show ?case
    using Cons.IH[OF d disj] by (simp add: a v step)
qed

lemma read_commands_written:
  "[] \<notin> set cmds \<Longrightarrow>
   read_commands (XmlNode node_element ''PostLoginCommands'' [] []
      (map (\<lambda>command. AddTextElement ''Command'' command) cmds)) = cmds"
proof -
  assume ne: "[] \<notin> set cmds"
  have "filter (\<lambda>c. node_name c = ''Command'') (map (\<lambda>command. AddTextElement ''Command'' command) cmds)
        = map (\<lambda>command. AddTextElement ''Command'' command) cmds"
    by (induction cmds) simp_all
  moreover have "filter (\<lambda>command. command \<noteq> []) cmds = cmds"
    using ne by (induction cmds) auto
  ultimately show ?thesis
    by (simp add: read_commands_def to_wstring_from_utf8_def comp_def)
qed

lemma trimmed_Nil [simp]: "trimmed [] = []"
  by (simp add: trimmed_def)

text \<open>What \<open>GetServer\<close> reads for each setting from what \<open>SetServer\<close> wrote.\<close>

lemma read_settings:
  fixes P node site
  defines "N \<equiv> SetServer_node P node site" and "srv \<equiv> server site"
  shows "- 2147483648 \<le> m_timezoneOffset srv \<Longrightarrow> m_timezoneOffset srv \<le> 2147483647 \<Longrightarrow>
           GetTextElementInt N ''TimezoneOffset'' 0 = m_timezoneOffset srv"
    and "GetTextElement N ''PasvMode'' =
           (case m_pasvMode srv of MODE_PASSIVE \<Rightarrow> ''MODE_PASSIVE'' | MODE_ACTIVE \<Rightarrow> ''MODE_ACTIVE''
                                 | MODE_DEFAULT \<Rightarrow> ''MODE_DEFAULT'')"
    and "- 2147483648 \<le> m_maximumMultipleConnections srv \<Longrightarrow> m_maximumMultipleConnections srv \<le> 2147483647 \<Longrightarrow>
           GetTextElementInt N ''MaximumMultipleConnections'' 0 = m_maximumMultipleConnections srv"
    and "GetTextElement N ''EncodingType'' =
           (case m_encodingType srv of ENCODING_AUTO \<Rightarrow> ''Auto'' | ENCODING_UTF8 \<Rightarrow> ''UTF-8''
                                     | ENCODING_CUSTOM \<Rightarrow> ''Custom'')"
    and "GetTextElement N ''CustomEncoding'' =
           (if m_encodingType srv = ENCODING_CUSTOM then m_customEncoding srv else [])"
    and "child (children N) ''PostLoginCommands'' =
           (if HasPostLoginCommands P (m_protocol srv) \<and> m_postLoginCommands srv \<noteq> []
            then Some (XmlNode node_element ''PostLoginCommands'' [] []
                    (map (\<lambda>command. AddTextElement ''Command'' command) (m_postLoginCommands srv)))
            else None)"
    and "GetTextElementInt N ''BypassProxy'' 0 = (if m_bypassProxy srv then 1 else 0)"
    and "GetTextElement_Trimmed N ''Name'' = trimmed (m_name srv)"
    and "GetTextElement_Trimmed_self N = []"
    and "distinct (map fst (m_extraParameters srv)) \<Longrightarrow> read_parameters N [] = m_extraParameters srv"
proof -
  note lk = lookup_settings[of _ P node site, folded N_def srv_def] settings_lookup[of P srv]
  show "- 2147483648 \<le> m_timezoneOffset srv \<Longrightarrow> m_timezoneOffset srv \<le> 2147483647 \<Longrightarrow>
           GetTextElementInt N ''TimezoneOffset'' 0 = m_timezoneOffset srv"
    by (simp add: GetTextElementInt_def lk int_element_value)
  show "GetTextElement N ''PasvMode'' =
           (case m_pasvMode srv of MODE_PASSIVE \<Rightarrow> ''MODE_PASSIVE'' | MODE_ACTIVE \<Rightarrow> ''MODE_ACTIVE''
                                 | MODE_DEFAULT \<Rightarrow> ''MODE_DEFAULT'')"
    by (simp add: GetTextElement_def lk to_wstring_from_utf8_def)
  show "- 2147483648 \<le> m_maximumMultipleConnections srv \<Longrightarrow> m_maximumMultipleConnections srv \<le> 2147483647 \<Longrightarrow>
           GetTextElementInt N ''MaximumMultipleConnections'' 0 = m_maximumMultipleConnections srv"
    by (simp add: GetTextElementInt_def lk int_element_value)
  show "GetTextElement N ''EncodingType'' =
           (case m_encodingType srv of ENCODING_AUTO \<Rightarrow> ''Auto'' | ENCODING_UTF8 \<Rightarrow> ''UTF-8''
                                     | ENCODING_CUSTOM \<Rightarrow> ''Custom'')"
    by (simp add: GetTextElement_def lk to_wstring_from_utf8_def)
  show "GetTextElement N ''CustomEncoding'' =
           (if m_encodingType srv = ENCODING_CUSTOM then m_customEncoding srv else [])"
    by (simp add: GetTextElement_def lk to_wstring_from_utf8_def)
  show "child (children N) ''PostLoginCommands'' =
           (if HasPostLoginCommands P (m_protocol srv) \<and> m_postLoginCommands srv \<noteq> []
            then Some (XmlNode node_element ''PostLoginCommands'' [] []
                    (map (\<lambda>command. AddTextElement ''Command'' command) (m_postLoginCommands srv)))
            else None)"
    by (simp add: lk)
  show "GetTextElementInt N ''BypassProxy'' 0 = (if m_bypassProxy srv then 1 else 0)"
    by (simp add: GetTextElementInt_def lk AddTextElementUtf8_def is_text_node_def pcdata_def
          string_to_integer_def is_space_def is_digit_def digit_val_def)
  show "GetTextElement_Trimmed N ''Name'' = trimmed (m_name srv)"
    by (simp add: GetTextElement_Trimmed_def GetTextElement_def lk to_wstring_from_utf8_def)
  show "GetTextElement_Trimmed_self N = []"
    by (simp add: GetTextElement_Trimmed_self_def GetTextElement_self_def N_def child_value_SetServer_node
          to_wstring_from_utf8_def)
  show "distinct (map fst (m_extraParameters srv)) \<Longrightarrow> read_parameters N [] = m_extraParameters srv"
    using read_back_parameters[of "m_extraParameters srv" "[]"]
    by (simp add: read_parameters_def N_def srv_def parameters_SetServer_node settings_parameters)
qed

lemma settings_round_trip:
  assumes can: "canonical_site P site"
    and same: "m_host srv0 = m_host (server site)" "m_port srv0 = m_port (server site)"
      "m_protocol srv0 = m_protocol (server site)" "m_type srv0 = m_type (server site)"
      "m_user srv0 = m_user (server site)"
    and fresh: "m_postLoginCommands srv0 = []" "m_extraParameters srv0 = []"
  shows "GetServer_settings P (SetServer_node P node site) srv0 = (True, server site)"
proof -
  let ?N = "SetServer_node P node site"
  let ?srv = "server site"
  have c: "timezone_valid P (m_timezoneOffset ?srv)"
      "- 2147483648 \<le> m_timezoneOffset ?srv" "m_timezoneOffset ?srv \<le> 2147483647"
      "- 2147483648 \<le> m_maximumMultipleConnections ?srv" "m_maximumMultipleConnections ?srv \<le> 2147483647"
      "m_encodingType ?srv = ENCODING_CUSTOM \<longleftrightarrow> m_customEncoding ?srv \<noteq> []"
      "if HasPostLoginCommands P (m_protocol ?srv) then [] \<notin> set (m_postLoginCommands ?srv)
       else m_postLoginCommands ?srv = []"
      "trimmed (m_name ?srv) = m_name ?srv" "length (m_name ?srv) \<le> 255"
      "distinct (map fst (m_extraParameters ?srv))"
    using can by (simp_all add: canonical_site_def Let_def)
  note rd = read_settings[where P = P and node = node and site = site]
  have tz: "GetTextElementInt ?N ''TimezoneOffset'' 0 = m_timezoneOffset ?srv"
    by (rule rd(1)[OF c(2,3)])
  have mc: "GetTextElementInt ?N ''MaximumMultipleConnections'' 0 = m_maximumMultipleConnections ?srv"
    by (rule rd(3)[OF c(4,5)])
  have pm: "read_parameters ?N [] = m_extraParameters ?srv"
    by (rule rd(10)[OF c(10)])
  have cmds: "(case child (children ?N) ''PostLoginCommands'' of
                 Some element \<Rightarrow> read_commands element | None \<Rightarrow> []) = m_postLoginCommands ?srv"
    if "HasPostLoginCommands P (m_protocol ?srv)"
    using that c(7) by (simp add: rd(6) read_commands_written)
  have nocmds: "m_postLoginCommands ?srv = []" if "\<not> HasPostLoginCommands P (m_protocol ?srv)"
    using that c(7) by simp
  have nm: "take 255 (trimmed (m_name ?srv)) = m_name ?srv"
    using c(8,9) by simp
  have pas: "(if (case m_pasvMode ?srv of MODE_PASSIVE \<Rightarrow> ''MODE_PASSIVE'' | MODE_ACTIVE \<Rightarrow> ''MODE_ACTIVE''
                                 | MODE_DEFAULT \<Rightarrow> ''MODE_DEFAULT'') = ''MODE_PASSIVE'' then MODE_PASSIVE
               else if (case m_pasvMode ?srv of MODE_PASSIVE \<Rightarrow> ''MODE_PASSIVE'' | MODE_ACTIVE \<Rightarrow> ''MODE_ACTIVE''
                                 | MODE_DEFAULT \<Rightarrow> ''MODE_DEFAULT'') = ''MODE_ACTIVE'' then MODE_ACTIVE
               else MODE_DEFAULT) = m_pasvMode ?srv"
    by (cases "m_pasvMode ?srv") simp_all
  have enc: "(if (case m_encodingType ?srv of ENCODING_AUTO \<Rightarrow> ''Auto'' | ENCODING_UTF8 \<Rightarrow> ''UTF-8''
                                     | ENCODING_CUSTOM \<Rightarrow> ''Custom'') = ''Auto''
              then SetEncodingType s3 ENCODING_AUTO []
              else if (case m_encodingType ?srv of ENCODING_AUTO \<Rightarrow> ''Auto'' | ENCODING_UTF8 \<Rightarrow> ''UTF-8''
                                     | ENCODING_CUSTOM \<Rightarrow> ''Custom'') = ''UTF-8''
              then SetEncodingType s3 ENCODING_UTF8 []
              else if (case m_encodingType ?srv of ENCODING_AUTO \<Rightarrow> ''Auto'' | ENCODING_UTF8 \<Rightarrow> ''UTF-8''
                                     | ENCODING_CUSTOM \<Rightarrow> ''Custom'') = ''Custom''
              then (if (if m_encodingType ?srv = ENCODING_CUSTOM then m_customEncoding ?srv else []) = []
                    then (False, s3)
                    else SetEncodingType s3 ENCODING_CUSTOM
                           (if m_encodingType ?srv = ENCODING_CUSTOM then m_customEncoding ?srv else []))
              else SetEncodingType s3 ENCODING_AUTO []) =
             (True, s3\<lparr>m_encodingType := m_encodingType ?srv, m_customEncoding := m_customEncoding ?srv\<rparr>)"
    for s3
    using c(6) by (cases "m_encodingType ?srv") (simp_all add: SetEncodingType_def)
  have res: "GetServer_settings P ?N srv0 =
      (True, srv0\<lparr>m_timezoneOffset := m_timezoneOffset ?srv, m_pasvMode := m_pasvMode ?srv,
                  m_maximumMultipleConnections := m_maximumMultipleConnections ?srv,
                  m_encodingType := m_encodingType ?srv, m_customEncoding := m_customEncoding ?srv,
                  m_postLoginCommands := m_postLoginCommands ?srv, m_bypassProxy := m_bypassProxy ?srv,
                  m_name := m_name ?srv, m_extraParameters := m_extraParameters ?srv\<rparr>)"
    unfolding GetServer_settings_def Let_def SetTimezoneOffset_def
      tz mc rd(2) rd(4) rd(5) rd(7) rd(8) rd(9) pas enc
    using c(1) same(3) fresh cmds nocmds nm pm
    by (cases "HasPostLoginCommands P (m_protocol ?srv)"; cases "m_name ?srv = []") simp_all
  have "srv0\<lparr>m_timezoneOffset := m_timezoneOffset ?srv, m_pasvMode := m_pasvMode ?srv,
                  m_maximumMultipleConnections := m_maximumMultipleConnections ?srv,
                  m_encodingType := m_encodingType ?srv, m_customEncoding := m_customEncoding ?srv,
                  m_postLoginCommands := m_postLoginCommands ?srv, m_bypassProxy := m_bypassProxy ?srv,
                  m_name := m_name ?srv, m_extraParameters := m_extraParameters ?srv\<rparr> = ?srv"
    by (rule CServer.equality) (simp_all add: same)
  with res show ?thesis by simp
qed

lemma attribute_value_Add [simp]:
  "attribute_value (AddTextElementUtf8 nm v) a = []"
  "attribute_value (SetTextAttributeUtf8 n a v) a = v"
  "b \<noteq> a \<Longrightarrow> attribute_value (SetTextAttributeUtf8 n a v) b = attribute_value n b"
  "attribute_value (SetTextAttribute n a v) a = v"
  "b \<noteq> a \<Longrightarrow> attribute_value (SetTextAttribute n a v) b = attribute_value n b"
  by (simp_all add: attribute_value_def AddTextElementUtf8_def SetTextAttributeUtf8_def SetTextAttribute_def
        set_attribute_same set_attribute_other to_utf8_def)

text \<open>The elements of the credentials part, by name, for credentials the protect step
  leaves as they are.\<close>

lemma credentials_lookup:
  assumes "Protect P (credentials site) = credentials site"
  shows "child (SetServer_credentials P site) ''User'' =
           (if c_logonType (credentials site) \<noteq> anonymous
            then Some (AddTextElement ''User'' (m_user (server site))) else None)"
    and "child (SetServer_credentials P site) ''Pass'' =
           (if c_logonType (credentials site) = normal \<or> c_logonType (credentials site) = account
            then Some (case c_encrypted (credentials site) of
                         Some pubkey \<Rightarrow>
                           SetTextAttributeUtf8
                             (SetTextAttribute (AddTextElementUtf8 ''Pass'' (to_utf8 (c_password (credentials site))))
                                ''encoding'' ''crypt'')
                             ''pubkey'' (to_base64 P pubkey)
                       | None \<Rightarrow>
                           SetTextAttribute
                             (AddTextElementUtf8 ''Pass'' (base64_encode P (to_utf8 (c_password (credentials site)))))
                             ''encoding'' ''base64'')
            else None)"
    and "child (SetServer_credentials P site) ''Account'' =
           (if c_logonType (credentials site) = account
            then Some (AddTextElement ''Account'' (c_account (credentials site))) else None)"
    and "child (SetServer_credentials P site) ''Keyfile'' =
           (if c_logonType (credentials site) \<noteq> anonymous \<and> c_logonType (credentials site) \<noteq> normal \<and>
               c_logonType (credentials site) \<noteq> account \<and> c_keyFile (credentials site) \<noteq> []
            then Some (AddTextElement ''Keyfile'' (c_keyFile (credentials site))) else None)"
  using assms
  by (auto simp add: SetServer_credentials_def Let_def child_Cons split: option.splits)

lemma read_credentials:
  fixes P node site
  defines "N \<equiv> SetServer_node P node site"
  assumes "Protect P (credentials site) = credentials site"
  shows "GetTextElement N ''User'' = (if c_logonType (credentials site) \<noteq> anonymous then m_user (server site) else [])"
    and "GetTextElement N ''Account'' =
           (if c_logonType (credentials site) = account then c_account (credentials site) else [])"
    and "GetTextElement N ''Keyfile'' =
           (if c_logonType (credentials site) \<noteq> anonymous \<and> c_logonType (credentials site) \<noteq> normal \<and>
               c_logonType (credentials site) \<noteq> account
            then c_keyFile (credentials site) else [])"
    and "child (children N) ''Pass'' = child (SetServer_credentials P site) ''Pass''"
  using credentials_lookup[OF assms(2)]
  by (simp_all add: N_def GetTextElement_def lookup_credentials to_wstring_from_utf8_def)

lemma credentials_round_trip:
  assumes can: "canonical_credentials site"
    and prot: "Protect P (credentials site) = credentials site"
    and b64: "base64_decode P (base64_encode P (to_utf8 (c_password (credentials site)))) =
              to_utf8 (c_password (credentials site))"
    and pk: "\<forall>k. c_encrypted (credentials site) = Some k \<longrightarrow> from_base64 P (to_base64 P k) = Some k"
    and s4c: "credentials s4 = \<lparr>c_logonType = c_logonType (credentials site), c_password = [], c_account = [],
                                c_keyFile = [], c_encrypted = None\<rparr>"
    and s4u: "m_user (server s4) = []"
  shows "fst (GetServer_credentials P (SetServer_node P node site) s4) \<and>
         credentials (snd (GetServer_credentials P (SetServer_node P node site) s4)) = credentials site \<and>
         server (snd (GetServer_credentials P (SetServer_node P node site) s4)) =
           (server s4)\<lparr>m_user := m_user (server site)\<rparr>"
proof -
  let ?N = "SetServer_node P node site"
  let ?c = "credentials site"
  note rd = read_credentials[where P = P and node = node and site = site, OF prot]
  note ps = credentials_lookup(2)[OF prot]
  have lt: "c_logonType (credentials s4) = c_logonType ?c" using s4c by simp
  have su: "(server s4)\<lparr>m_user := []\<rparr> = server s4"
    by (rule CServer.equality) (simp_all add: s4u)
  show ?thesis
  proof (cases "c_logonType ?c")
    case anonymous
    then have f: "m_user (server site) = []" "c_password ?c = []" "c_account ?c = []" "c_keyFile ?c = []"
        "c_encrypted ?c = None"
      using can by (simp_all add: canonical_credentials_def Let_def)
    have "credentials s4 = ?c"
      by (rule Credentials.equality) (simp_all add: s4c f)
    then show ?thesis
      using anonymous lt f su by (simp add: GetServer_credentials_def)
  next
    case normal
    then have f: "m_user (server site) \<noteq> []" "c_account ?c = []" "c_keyFile ?c = []"
      using can by (simp_all add: canonical_credentials_def Let_def)
    show ?thesis
    proof (cases "c_encrypted ?c")
      case None
      have "credentials (snd (GetServer_credentials P ?N s4)) = ?c"
        by (rule Credentials.equality)
           (use normal None f b64 lt in \<open>simp_all add: GetServer_credentials_def Let_def rd ps s4c
              GetTextAttribute_def SetUser_def SetPass_def to_wstring_from_utf8_def to_utf8_def\<close>)
      then show ?thesis
        using normal None f lt
        by (simp add: GetServer_credentials_def Let_def rd ps GetTextAttribute_def SetUser_def
              to_wstring_from_utf8_def)
    next
      case (Some k)
      then have key: "from_base64 P (to_base64 P k) = Some k" using pk by simp
      have "credentials (snd (GetServer_credentials P ?N s4)) = ?c"
        by (rule Credentials.equality)
           (use normal Some key f lt in \<open>simp_all add: GetServer_credentials_def Let_def rd ps s4c
              GetTextAttribute_def SetUser_def SetPass_def to_wstring_from_utf8_def to_utf8_def\<close>)
      then show ?thesis
        using normal Some key f lt
        by (simp add: GetServer_credentials_def Let_def rd ps GetTextAttribute_def SetUser_def
              to_wstring_from_utf8_def)
    qed
  next
    case account
    then have f: "m_user (server site) \<noteq> []" "c_keyFile ?c = []"
      using can by (simp_all add: canonical_credentials_def Let_def)
    show ?thesis
    proof (cases "c_encrypted ?c")
      case None
      have "credentials (snd (GetServer_credentials P ?N s4)) = ?c"
        by (rule Credentials.equality)
           (use account None f b64 lt in \<open>simp_all add: GetServer_credentials_def Let_def rd ps s4c
              GetTextAttribute_def SetUser_def SetPass_def to_wstring_from_utf8_def to_utf8_def\<close>)
      then show ?thesis
        using account None f lt
        by (simp add: GetServer_credentials_def Let_def rd ps GetTextAttribute_def SetUser_def
              to_wstring_from_utf8_def)
    next
      case (Some k)
      then have key: "from_base64 P (to_base64 P k) = Some k" using pk by simp
      have "credentials (snd (GetServer_credentials P ?N s4)) = ?c"
        by (rule Credentials.equality)
           (use account Some key f lt in \<open>simp_all add: GetServer_credentials_def Let_def rd ps s4c
              GetTextAttribute_def SetUser_def SetPass_def to_wstring_from_utf8_def to_utf8_def\<close>)
      then show ?thesis
        using account Some key f lt
        by (simp add: GetServer_credentials_def Let_def rd ps GetTextAttribute_def SetUser_def
              to_wstring_from_utf8_def)
    qed
  next
    case key
    then have f: "m_user (server site) \<noteq> []" "c_password ?c = []" "c_account ?c = []" "c_encrypted ?c = None"
      using can by (simp_all add: canonical_credentials_def Let_def)
    have "credentials (snd (GetServer_credentials P ?N s4)) = ?c"
      by (rule Credentials.equality)
         (use key f lt in \<open>simp_all add: GetServer_credentials_def Let_def rd s4c SetUser_def SetPass_def\<close>)
    then show ?thesis
      using key f lt by (simp add: GetServer_credentials_def Let_def rd SetUser_def)
  next
    case interactive
    then have f: "c_password ?c = []" "c_account ?c = []" "c_keyFile ?c = []" "c_encrypted ?c = None"
      using can by (simp_all add: canonical_credentials_def Let_def)
    have "credentials (snd (GetServer_credentials P ?N s4)) = ?c"
      by (rule Credentials.equality)
         (use interactive f lt in \<open>simp_all add: GetServer_credentials_def Let_def rd s4c SetUser_def SetPass_def\<close>)
    then show ?thesis
      using interactive f lt by (simp add: GetServer_credentials_def Let_def rd SetUser_def)
  next
    case ask
    then have f: "c_password ?c = []" "c_account ?c = []" "c_keyFile ?c = []" "c_encrypted ?c = None"
      using can by (simp_all add: canonical_credentials_def Let_def)
    have "credentials (snd (GetServer_credentials P ?N s4)) = ?c"
      by (rule Credentials.equality)
         (use ask f lt in \<open>simp_all add: GetServer_credentials_def Let_def rd s4c SetUser_def SetPass_def\<close>)
    then show ?thesis
      using ask f lt by (simp add: GetServer_credentials_def Let_def rd SetUser_def)
  qed
qed

lemma LogonType_int_inverse:
  "LogonType_of_int (int_of_LogonType t) = t \<and> 0 \<le> int_of_LogonType t \<and>
   int_of_LogonType t < LogonType_count \<and> int_of_LogonType t \<le> 2147483647"
  by (cases t) (simp_all add: LogonType_of_int_def int_of_LogonType_def LogonType_count_def)

lemma read_head:
  fixes P node site
  defines "N \<equiv> SetServer_node P node site"
  shows "GetTextElement N ''Host'' = m_host (server site)"
    and "- 2147483648 \<le> m_port (server site) \<Longrightarrow> m_port (server site) \<le> 2147483647 \<Longrightarrow>
           GetTextElementInt N ''Port'' 0 = m_port (server site)"
    and "- 2147483648 \<le> m_protocol (server site) \<Longrightarrow> m_protocol (server site) \<le> 2147483647 \<Longrightarrow>
           GetTextElementInt N ''Protocol'' 0 = m_protocol (server site)"
    and "- 2147483648 \<le> m_type (server site) \<Longrightarrow> m_type (server site) \<le> 2147483647 \<Longrightarrow>
           GetTextElementInt N ''Type'' 0 = m_type (server site)"
    and "Protect P (credentials site) = credentials site \<Longrightarrow>
           GetTextElementInt N ''Logontype'' 0 = int_of_LogonType (c_logonType (credentials site))"
proof -
  show "GetTextElement N ''Host'' = m_host (server site)"
    by (simp add: N_def GetTextElement_def lookup_head to_wstring_from_utf8_def)
  show "- 2147483648 \<le> m_port (server site) \<Longrightarrow> m_port (server site) \<le> 2147483647 \<Longrightarrow>
           GetTextElementInt N ''Port'' 0 = m_port (server site)"
    by (simp add: N_def GetTextElementInt_def lookup_head int_element_value)
  show "- 2147483648 \<le> m_protocol (server site) \<Longrightarrow> m_protocol (server site) \<le> 2147483647 \<Longrightarrow>
           GetTextElementInt N ''Protocol'' 0 = m_protocol (server site)"
    by (simp add: N_def GetTextElementInt_def lookup_head int_element_value)
  show "- 2147483648 \<le> m_type (server site) \<Longrightarrow> m_type (server site) \<le> 2147483647 \<Longrightarrow>
           GetTextElementInt N ''Type'' 0 = m_type (server site)"
    by (simp add: N_def GetTextElementInt_def lookup_head int_element_value)
  show "Protect P (credentials site) = credentials site \<Longrightarrow>
           GetTextElementInt N ''Logontype'' 0 = int_of_LogonType (c_logonType (credentials site))"
  proof -
    assume prot: "Protect P (credentials site) = credentials site"
    have lg: "SetServer_logontype P site =
        AddTextElementInt ''Logontype'' (int_of_LogonType (c_logonType (credentials site)))"
      using prot by (simp add: SetServer_logontype_def)
    have b: "- 2147483648 \<le> int_of_LogonType (c_logonType (credentials site))"
        "int_of_LogonType (c_logonType (credentials site)) \<le> 2147483647"
      using LogonType_int_inverse[of "c_logonType (credentials site)"] by simp_all
    show ?thesis
      by (simp add: N_def GetTextElementInt_def lookup_logontype lg int_element_value[OF b])
  qed
qed

text \<open>
  Claim C3, as the code has it. For a site in the canonical form, whose credentials the
  protect step leaves as they are, with base64 decoding undoing the encoding of its
  password and its public key parsing back from its text form: decoding, into a fresh
  site, the node that \<open>SetServer\<close> wrote succeeds and gives the site back, every field of
  it. That includes an empty display name: \<open>SetServer\<close> leaves no text in the node, so
  the fallback finds the empty name again.
\<close>

theorem GetServer_SetServer_round_trip:
  assumes can: "canonical_site P site"
    and prot: "Protect P (credentials site) = credentials site"
    and b64: "base64_decode P (base64_encode P (to_utf8 (c_password (credentials site)))) =
              to_utf8 (c_password (credentials site))"
    and pk: "\<forall>k. c_encrypted (credentials site) = Some k \<longrightarrow> from_base64 P (to_base64 P k) = Some k"
  shows "GetServer P (SetServer_node P node site) Site_new = (True, site)"
proof -
  let ?N = "SetServer_node P node site"
  let ?srv = "server site"
  let ?t = "c_logonType (credentials site)"
  have c: "m_host ?srv \<noteq> []" "1 \<le> m_port ?srv" "m_port ?srv \<le> 65535"
      "0 \<le> m_protocol ?srv" "m_protocol ?srv \<le> MAX_VALUE P" "m_protocol ?srv \<le> 2147483647"
      "0 \<le> m_type ?srv" "m_type ?srv < SERVERTYPE_MAX P" "m_type ?srv \<le> 2147483647"
      "canonical_credentials site"
    using can by (simp_all add: canonical_site_def Let_def)
  note rh = read_head[where P = P and node = node and site = site]
  have h1: "GetTextElement ?N ''Host'' = m_host ?srv" by (rule rh(1))
  have h2: "GetTextElementInt ?N ''Port'' 0 = m_port ?srv" using c(2,3) by (intro rh(2)) simp_all
  have h3: "GetTextElementInt ?N ''Protocol'' 0 = m_protocol ?srv" using c(4,6) by (intro rh(3)) simp_all
  have h4: "GetTextElementInt ?N ''Type'' 0 = m_type ?srv" using c(7,9) by (intro rh(4)) simp_all
  have h5: "GetTextElementInt ?N ''Logontype'' 0 = int_of_LogonType ?t" by (rule rh(5)[OF prot])
  note li = LogonType_int_inverse[of ?t]
  let ?s4 = "SetLogonType (Site_new\<lparr>server := (server Site_new)
                  \<lparr>m_host := GetTextElement ?N ''Host'', m_port := GetTextElementInt ?N ''Port'' 0,
                   m_protocol := GetTextElementInt ?N ''Protocol'' 0,
                   m_type := GetTextElementInt ?N ''Type'' 0\<rparr>\<rparr>)
                 (LogonType_of_int (GetTextElementInt ?N ''Logontype'' 0))"
  have head: "GetServer P ?N Site_new =
     (if \<not> fst (GetServer_credentials P ?N ?s4) then (False, snd (GetServer_credentials P ?N ?s4))
      else (fst (GetServer_settings P ?N (server (snd (GetServer_credentials P ?N ?s4)))),
            (snd (GetServer_credentials P ?N ?s4))
               \<lparr>server := snd (GetServer_settings P ?N (server (snd (GetServer_credentials P ?N ?s4))))\<rparr>))"
    by (rule GetServer_head[OF _ _ _ _ _ _ _ _ _ refl]) (use c li in \<open>simp_all add: h1 h2 h3 h4 h5\<close>)
  have s4c: "credentials ?s4 = \<lparr>c_logonType = ?t, c_password = [], c_account = [],
                                c_keyFile = [], c_encrypted = None\<rparr>"
    using li by (simp add: h5 SetLogonType_def Let_def Site_new_def)
  have s4s: "m_user (server ?s4) = []" "m_host (server ?s4) = m_host ?srv" "m_port (server ?s4) = m_port ?srv"
      "m_protocol (server ?s4) = m_protocol ?srv" "m_type (server ?s4) = m_type ?srv"
      "m_postLoginCommands (server ?s4) = []" "m_extraParameters (server ?s4) = []"
    by (simp_all add: h1 h2 h3 h4 SetLogonType_def Let_def Site_new_def)
  note cr = credentials_round_trip[OF c(10) prot b64 pk s4c s4s(1), of node]
  let ?s5 = "snd (GetServer_credentials P ?N ?s4)"
  have st: "GetServer_settings P ?N (server ?s5) = (True, ?srv)"
    by (rule settings_round_trip[OF can]) (use cr s4s in simp_all)
  have "?s5\<lparr>server := ?srv\<rparr> = site"
    by (rule Site.equality) (use cr in simp_all)
  then show ?thesis
    unfolding head using cr st by simp
qed

lemmas set_defs = SetServer_node_def SetServer_credentials_def SetServer_logontype_def SetServer_settings_def
  demo_site_def
lemmas get_defs = GetServer_def GetServer_credentials_def GetServer_settings_def read_commands_def
  read_parameters_def

theorem GetServer_SetServer_round_trip_witness:
  "canonical_site demo_codec demo_site \<and>
   Protect demo_codec (credentials demo_site) = credentials demo_site \<and>
   base64_decode demo_codec (base64_encode demo_codec (to_utf8 (c_password (credentials demo_site)))) =
     to_utf8 (c_password (credentials demo_site)) \<and>
   c_encrypted (credentials demo_site) = None \<and>
   GetServer demo_codec (SetServer_node demo_codec (demo_node []) demo_site) Site_new = (True, demo_site)"
proof -
  have a: "canonical_site demo_codec demo_site"
    by (simp add: canonical_site_def canonical_credentials_def demo_site_def demo_codec_def Let_def
          trimmed_def is_space_def)
  have b: "Protect demo_codec (credentials demo_site) = credentials demo_site"
    by (simp add: demo_codec_def)
  have c: "base64_decode demo_codec (base64_encode demo_codec (to_utf8 (c_password (credentials demo_site)))) =
     to_utf8 (c_password (credentials demo_site))"
    by (simp add: demo_codec_def)
  have d: "c_encrypted (credentials demo_site) = None"
    by (simp add: demo_site_def)
  have e: "\<forall>k. c_encrypted (credentials demo_site) = Some k \<longrightarrow>
             from_base64 demo_codec (to_base64 demo_codec k) = Some k"
    using d by simp
  from GetServer_SetServer_round_trip [OF a b c e, of "demo_node []"] a b c d show ?thesis by simp
qed

text \<open>
  Two sites outside the canonical form. The first is a site \<open>GetServer\<close> itself decodes
  from a node: logon type normal with an \<open>Account\<close> element. \<open>SetServer\<close> writes the
  account only for the logon type account, so the site decoded from what it wrote has no
  account. The second has the logon type ask and holds a password: \<open>SetServer\<close> writes
  no \<open>Pass\<close> element for it, and the decoded site has no password. In both cases the
  decode succeeds and the result is not the site.
\<close>

theorem GetServer_SetServer_round_trip_counterexample:
  "GetServer demo_codec
     (demo_node [AddTextElement ''Host'' ''example.org'', AddTextElementInt ''Port'' 21,
                 AddTextElementInt ''Protocol'' 0, AddTextElementInt ''Type'' 0,
                 AddTextElement ''User'' ''anna'',
                 SetTextAttribute (AddTextElementUtf8 ''Pass'' (base64_encode demo_codec ''secret'')) ''encoding'' ''base64'',
                 AddTextElement ''Account'' ''dept'',
                 AddTextElementInt ''Logontype'' 1, AddTextElementInt ''TimezoneOffset'' 60,
                 AddTextElementUtf8 ''PasvMode'' ''MODE_PASSIVE'',
                 AddTextElementInt ''MaximumMultipleConnections'' 2,
                 AddTextElementUtf8 ''EncodingType'' ''Custom'',
                 AddTextElement ''CustomEncoding'' ''ISO-8859-1'',
                 XmlNode node_element ''PostLoginCommands'' [] [] [AddTextElement ''Command'' ''SITE UMASK 022''],
                 AddTextElementUtf8 ''BypassProxy'' ''1'', AddTextElement ''Name'' ''Work'',
                 SetTextAttribute (AddTextElement ''Parameter'' ''644'') ''Name'' ''chmod'']) Site_new =
     (True, demo_site\<lparr>credentials := (credentials demo_site)\<lparr>c_account := ''dept''\<rparr>\<rparr>) \<and>
   GetServer demo_codec
     (SetServer_node demo_codec (demo_node [])
        (demo_site\<lparr>credentials := (credentials demo_site)\<lparr>c_account := ''dept''\<rparr>\<rparr>)) Site_new =
     (True, demo_site) \<and>
   c_account (credentials demo_site) = [] \<and>
   c_password (credentials (demo_site\<lparr>credentials := (credentials demo_site)\<lparr>c_logonType := ask\<rparr>\<rparr>)) = ''secret'' \<and>
   GetServer demo_codec
     (SetServer_node demo_codec (demo_node [])
        (demo_site\<lparr>credentials := (credentials demo_site)\<lparr>c_logonType := ask\<rparr>\<rparr>)) Site_new =
     (True, demo_site\<lparr>credentials := (credentials demo_site)\<lparr>c_logonType := ask, c_password := []\<rparr>\<rparr>)"
  by (simp add: set_defs get_defs xml_defs codec_defs)

end
